theory Spec2Isabelle
  imports Main "HOL-Library.AList"
begin

section \<open>A typed HTTP client for a content-management REST API\<close>

text \<open>
  The repository holds two variants of the same client class \<open>StrapiClient\<close>
  (the source files \<open>part_000\<close> and \<open>part_001\<close>). The constructor, \<open>request\<close>,
  \<open>getQueryString\<close>, \<open>findMany\<close> and \<open>find\<close> are the same text in both; \<open>create\<close>,
  \<open>update\<close>, \<open>delete\<close> and \<open>upsert\<close> differ and are embedded once per variant, with the
  suffixes \<open>_000\<close> and \<open>_001\<close>. The method \<open>find\<close> is named \<open>find_op\<close> here.
\<close>

subsection \<open>Values\<close>

text \<open>
  The identifier of a record is \<open>number | string\<close>. Numbers are the integral identifiers
  the API issues. \<open>IdUndefined\<close> is JavaScript's \<open>undefined\<close>: the value of the optional
  \<open>id\<close> of \<open>find\<close> when it is omitted, and what a cast lets through elsewhere.
\<close>

datatype record_id = IdNum int | IdStr string | IdUndefined

record entity =
  entity_id :: record_id
  documentId :: "string option"
  attributes :: "(string \<times> string) list"

text \<open>Values of a query-parameter object (filters, populate, pagination, ...).\<close>

datatype qval =
    QStr string
  | QNum int
  | QBool bool
  | QNull
  | QArr "qval list"
  | QObj "(string \<times> qval) list"

type_synonym QueryParams = "(string \<times> qval) list"

record CreatePayload =
  data :: "(string \<times> qval) list"

datatype json_text = JSON_stringify CreatePayload

record StrapiResponse =
  list_data :: "entity list option"

record StrapiSingleResponse =
  item_data :: "entity option"

record ServiceError =
  message :: string
  status :: "nat option"

subsection \<open>JavaScript primitives used by the client\<close>

text \<open>Decimal rendering of a number inside a template literal.\<close>

fun show_nat :: "nat \<Rightarrow> string" where
  "show_nat n =
     (if n < 10 then [''0123456789'' ! n]
      else show_nat (n div 10) @ [''0123456789'' ! (n mod 10)])"

declare show_nat.simps [simp del]

definition show_int :: "int \<Rightarrow> string" where
  "show_int i = (if i < 0 then ''-'' @ show_nat (nat (- i)) else show_nat (nat i))"

text \<open>\<open>`${id}`\<close>\<close>

fun template_id :: "record_id \<Rightarrow> string" where
  "template_id (IdNum n) = show_int n"
| "template_id (IdStr s) = s"
| "template_id IdUndefined = ''undefined''"

text \<open>Truthiness of an identifier: \<open>0\<close>, \<open>""\<close> and \<open>undefined\<close> are falsy.\<close>

fun truthy_id :: "record_id \<Rightarrow> bool" where
  "truthy_id (IdNum n) = (n \<noteq> 0)"
| "truthy_id (IdStr s) = (s \<noteq> [])"
| "truthy_id IdUndefined = False"

text \<open>Truthiness of an optional string: \<open>undefined\<close> and \<open>""\<close> are falsy.\<close>

fun truthy_str :: "string option \<Rightarrow> bool" where
  "truthy_str None = False"
| "truthy_str (Some s) = (s \<noteq> [])"

text \<open>\<open>s.endsWith(suf)\<close>\<close>

definition endsWith :: "string \<Rightarrow> string \<Rightarrow> bool" where
  "endsWith s suf = (length suf \<le> length s \<and> drop (length s - length suf) s = suf)"

text \<open>\<open>s.replace(/\/+$/, "")\<close> and \<open>s.replace(/^\/+/, "")\<close>\<close>

definition strip_trailing_slashes :: "string \<Rightarrow> string" where
  "strip_trailing_slashes s = rev (dropWhile (\<lambda>ch. ch = CHR ''/'') (rev s))"

definition strip_leading_slashes :: "string \<Rightarrow> string" where
  "strip_leading_slashes s = dropWhile (\<lambda>ch. ch = CHR ''/'') s"

text \<open>
  Object spread \<open>{...a, ...b}\<close> on objects kept as association lists in key order:
  a key of \<open>b\<close> already in \<open>a\<close> keeps its place and takes the new value, a new key is
  appended.
\<close>

definition spread :: "('k \<times> 'v) list \<Rightarrow> ('k \<times> 'v) list \<Rightarrow> ('k \<times> 'v) list" where
  "spread a b = fold (\<lambda>(k, v). AList.update k v) b a"

subsection \<open>The client and its construction\<close>

record StrapiClient =
  baseURL :: string
  headers :: "(string \<times> string) list"
  uid :: string

definition normalize_baseURL :: "string \<Rightarrow> string" where
  "normalize_baseURL b =
     (let apiUrl = strip_trailing_slashes b
      in if \<not> endsWith apiUrl ''/api'' then apiUrl @ ''/api'' else apiUrl)"

definition new_StrapiClient :: "string \<Rightarrow> string \<Rightarrow> string option \<Rightarrow> StrapiClient" where
  "new_StrapiClient b u token =
     \<lparr> baseURL = normalize_baseURL b,
       headers = spread [(''Content-Type'', ''application/json'')]
                   (if truthy_str token then [(''Authorization'', ''Bearer '' @ the token)] else []),
       uid = u \<rparr>"

subsection \<open>The host environment: transport and query-string serializer\<close>

text \<open>
  \<open>fetch\<close> and the \<open>qs\<close> library are not part of the repository. The transport is a
  function of the calls made so far and the present call; it rejects with an error
  message or resolves to a response, whose \<open>json()\<close> in turn rejects or yields the parsed
  body. The body is read at the type the caller of \<open>request<R>\<close> names, so the host
  offers the transport at the two types that occur; \<open>None\<close> is a body that parses to
  \<open>null\<close>. The fields \<open>method\<close> and \<open>headers\<close> of the options of a request are
  named \<open>init_method\<close> and \<open>init_headers\<close>.

  Every operation takes the list of the events so far and returns it extended by its own:
  one event for each call of the transport, holding the call and what the transport
  answered, with the parsed body erased.
\<close>

datatype http_method = GET | POST | PUT | DELETE

record RequestInit =
  init_method :: "http_method option"
  body :: "json_text option"
  init_headers :: "(string \<times> string) list"

record fetch_call =
  call_url :: string
  call_method :: "http_method option"
  call_body :: "json_text option"
  call_headers :: "(string \<times> string) list"

datatype 'r json_result = ParseFailure string | Parsed 'r

datatype 'r response =
  Response (resp_status: nat) (resp_statusText: string) (resp_json: "'r json_result")

datatype 'r fetch_result = Rejects string | Resolves "'r response"

record event =
  call :: fetch_call
  outcome :: "unit fetch_result"

type_synonym 'r transport = "event list \<Rightarrow> fetch_call \<Rightarrow> 'r option fetch_result"

record host =
  fetch_list :: "StrapiResponse transport"
  fetch_item :: "StrapiSingleResponse transport"
  stringify :: "QueryParams \<Rightarrow> string"

text \<open>\<open>response.ok\<close>: the status is in the range 200 to 299.\<close>

definition ok :: "'r response \<Rightarrow> bool" where
  "ok r = (200 \<le> resp_status r \<and> resp_status r \<le> 299)"

text \<open>
  The type argument \<open>R\<close> of \<open>request<R>\<close>: the transport read at that type, and the
  value \<open>{ data: null } as R\<close>.
\<close>

record 'r payload_type =
  transport :: "'r transport"
  data_null :: 'r

definition as_StrapiResponse :: "host \<Rightarrow> StrapiResponse payload_type" where
  "as_StrapiResponse env = \<lparr> transport = fetch_list env, data_null = \<lparr> list_data = None \<rparr> \<rparr>"

definition as_StrapiSingleResponse :: "host \<Rightarrow> StrapiSingleResponse payload_type" where
  "as_StrapiSingleResponse env = \<lparr> transport = fetch_item env, data_null = \<lparr> item_data = None \<rparr> \<rparr>"

subsection \<open>request\<close>

definition request ::
  "'r payload_type \<Rightarrow> StrapiClient \<Rightarrow> string \<Rightarrow> RequestInit \<Rightarrow> event list
   \<Rightarrow> (ServiceError option \<times> 'r option) \<times> event list" where
  "request R c endpoint options h =
     (let normalizedEndpoint = strip_leading_slashes endpoint;
          url = baseURL c @ ''/'' @ normalizedEndpoint;
          fc = \<lparr> call_url = url, call_method = init_method options, call_body = body options,
                 call_headers = spread (headers c) (init_headers options) \<rparr>;
          res = transport R h fc;
          h' = h @ [\<lparr> call = fc, outcome = map_fetch_result (\<lambda>_. ()) res \<rparr>]
      in case res of
           Rejects msg \<Rightarrow>
             ((Some \<lparr> message = ''Strapi API error: '' @ msg, status = None \<rparr>, None), h')
         | Resolves r \<Rightarrow>
             if \<not> ok r then
               ((Some \<lparr> message = ''Strapi API error: '' @ show_nat (resp_status r) @ '' ''
                                   @ resp_statusText r,
                        status = Some (resp_status r) \<rparr>, None), h')
             else
               (case resp_json r of
                  Parsed d \<Rightarrow> ((None, d), h')
                | ParseFailure jsonError \<Rightarrow>
                    if init_method options = Some DELETE then ((None, Some (data_null R)), h')
                    else
                      ((Some \<lparr> message = ''Strapi API error: Failed to parse JSON response - ''
                                          @ jsonError,
                               status = Some (resp_status r) \<rparr>, None), h')))"

subsection \<open>getQueryString\<close>

definition getQueryString :: "host \<Rightarrow> QueryParams option \<Rightarrow> string" where
  "getQueryString env params =
     (case params of
        None \<Rightarrow> ''''
      | Some p \<Rightarrow> if length (map fst p) = 0 then '''' else ''?'' @ stringify env p)"

text \<open>\<open>...(locale && locale !== "en" ? { locale } : {})\<close>\<close>

definition locale_entry :: "string option \<Rightarrow> QueryParams" where
  "locale_entry locale =
     (if truthy_str locale \<and> locale \<noteq> Some ''en'' then [(''locale'', QStr (the locale))] else [])"

text \<open>\<open>...(filters ? { filters } : {})\<close>; a filters object is truthy whenever it is given.\<close>

definition filters_entry :: "qval option \<Rightarrow> QueryParams" where
  "filters_entry filters = (case filters of Some f \<Rightarrow> [(''filters'', f)] | None \<Rightarrow> [])"

text \<open>\<open>{ ...params }\<close> of an optional object: spreading \<open>undefined\<close> adds nothing.\<close>

definition obj_of :: "QueryParams option \<Rightarrow> QueryParams" where
  "obj_of params = (case params of None \<Rightarrow> [] | Some p \<Rightarrow> p)"

subsection \<open>findMany and find\<close>

definition findMany ::
  "host \<Rightarrow> StrapiClient \<Rightarrow> QueryParams option \<Rightarrow> string option \<Rightarrow> event list
   \<Rightarrow> (ServiceError option \<times> entity list option) \<times> event list" where
  "findMany env c params locale h =
     (let queryParams = spread (obj_of params) (locale_entry locale);
          queryString = getQueryString env (Some queryParams);
          ((err, response), h1) =
             request (as_StrapiResponse env) c (uid c @ queryString)
               \<lparr> init_method = Some GET, body = None, init_headers = [] \<rparr> h
      in case err of
           Some e \<Rightarrow> ((Some e, None), h1)
         | None \<Rightarrow>
             ((None, Some (case Option.bind response list_data of None \<Rightarrow> [] | Some xs \<Rightarrow> xs)), h1))"

definition find_op ::
  "host \<Rightarrow> StrapiClient \<Rightarrow> record_id \<Rightarrow> QueryParams option \<Rightarrow> string option \<Rightarrow> event list
   \<Rightarrow> (ServiceError option \<times> entity option) \<times> event list" where
  "find_op env c id0 params locale h =
     (let queryParams = spread (obj_of params) (locale_entry locale);
          queryString = getQueryString env (Some queryParams)
      in if truthy_id id0 then
           (let ((err, response), h1) =
                  request (as_StrapiSingleResponse env) c
                    (uid c @ ''/'' @ template_id id0 @ queryString)
                    \<lparr> init_method = Some GET, body = None, init_headers = [] \<rparr> h
            in case err of
                 Some e \<Rightarrow> ((Some e, None), h1)
               | None \<Rightarrow> ((None, Option.bind response item_data), h1))
         else
           (let ((findErr, findResponse), h1) = findMany env c params locale h
            in case findErr of
                 Some e \<Rightarrow> ((Some e, None), h1)
               | None \<Rightarrow>
                   ((None, (case findResponse of Some (x # _) \<Rightarrow> Some x | _ \<Rightarrow> None)), h1)))"

subsection \<open>Results of the multi-step operations\<close>

text \<open>
  An operation is an async function: its promise is fulfilled with the pair
  \<open>[error, data]\<close>, or rejected when reading a property of \<open>null\<close> throws a
  \<open>TypeError\<close> outside \<open>request\<close>'s \<open>try\<close>.
\<close>

datatype 'a completion = Fulfilled "ServiceError option \<times> 'a option" | Rejected_TypeError

text \<open>
  The test for an existing base record in \<open>create\<close>:
  \<open>enResponse?.data && enResponse.data.length > 0 && enResponse?.data?.[0]?.documentId\<close>
  (the second variant also tests \<open>enResponse.data[0]\<close>, which is an object and so truthy).
  The result is the identifier \<open>enResponse.data[0].documentId\<close> when the test passes.
\<close>

definition base_documentId :: "StrapiResponse option \<Rightarrow> string option" where
  "base_documentId enResponse =
     (case Option.bind enResponse list_data of
        Some (e # _) \<Rightarrow> if truthy_str (documentId e) then documentId e else None
      | _ \<Rightarrow> None)"

type_synonym UpdatePayload = CreatePayload

subsection \<open>First variant (\<open>part_000\<close>): create, update, delete, upsert\<close>

text \<open>The three requests of \<open>create\<close>: the search for a base record, the POST to the
  collection (issued for the default locale, and again to create a missing base record),
  and the localized write to the resource item.\<close>

definition discover_000 ::
  "host \<Rightarrow> StrapiClient \<Rightarrow> QueryParams \<Rightarrow> qval option \<Rightarrow> event list
   \<Rightarrow> (ServiceError option \<times> StrapiResponse option) \<times> event list" where
  "discover_000 env c params filters h =
     (let searchParams = spread params (filters_entry filters);
          searchQuery = getQueryString env (Some searchParams)
      in request (as_StrapiResponse env) c (uid c @ searchQuery)
           \<lparr> init_method = None, body = None, init_headers = [] \<rparr> h)"

definition post_collection_000 ::
  "host \<Rightarrow> StrapiClient \<Rightarrow> CreatePayload \<Rightarrow> string \<Rightarrow> event list
   \<Rightarrow> (ServiceError option \<times> StrapiSingleResponse option) \<times> event list" where
  "post_collection_000 env c payload paramQuery h =
     (let url = uid c @ paramQuery
      in request (as_StrapiSingleResponse env) c url
           \<lparr> init_method = Some POST, body = Some (JSON_stringify payload), init_headers = [] \<rparr> h)"

definition attach_000 ::
  "host \<Rightarrow> StrapiClient \<Rightarrow> CreatePayload \<Rightarrow> QueryParams \<Rightarrow> string \<Rightarrow> string \<Rightarrow> event list
   \<Rightarrow> (ServiceError option \<times> StrapiSingleResponse option) \<times> event list" where
  "attach_000 env c payload params locale baseId h =
     (let localeQuery = getQueryString env (Some (spread params [(''locale'', QStr locale)]));
          url = uid c @ ''/'' @ baseId @ localeQuery
      in request (as_StrapiSingleResponse env) c url
           \<lparr> init_method = Some POST, body = Some (JSON_stringify payload), init_headers = [] \<rparr> h)"

definition create_000 ::
  "host \<Rightarrow> StrapiClient \<Rightarrow> CreatePayload \<Rightarrow> QueryParams option \<Rightarrow> string option
   \<Rightarrow> qval option \<Rightarrow> event list \<Rightarrow> entity completion \<times> event list" where
  "create_000 env c payload params0 locale0 filters h =
     (let params = obj_of params0;
          locale = (case locale0 of None \<Rightarrow> ''en'' | Some l \<Rightarrow> l);
          isDefaultLocale = (locale = ''en'');
          paramQuery = getQueryString env (Some params)
      in if isDefaultLocale then
           (let ((err, response), h1) = post_collection_000 env c payload paramQuery h
            in case err of
                 Some e \<Rightarrow> (Fulfilled (Some e, None), h1)
               | None \<Rightarrow> (Fulfilled (None, Option.bind response item_data), h1))
         else
           (let ((searchErr, enResponse), h1) = discover_000 env c params filters h
            in case searchErr of
                 Some e \<Rightarrow> (Fulfilled (Some e, None), h1)
               | None \<Rightarrow>
                  (let (base, h2) =
                     (case base_documentId enResponse of
                        Some d \<Rightarrow> (Inr d, h1)
                      | None \<Rightarrow>
                         (let ((createErr, createResponse), h2) =
                                 post_collection_000 env c payload paramQuery h1
                          in case createErr of
                               Some e \<Rightarrow> (Inl (Fulfilled (Some e, None)), h2)
                             | None \<Rightarrow>
                                (case createResponse of
                                   None \<Rightarrow> (Inl (Fulfilled (None, None)), h2)
                                 | Some r \<Rightarrow>
                                    (case item_data r of
                                       None \<Rightarrow> (Inl Rejected_TypeError, h2)
                                     | Some e \<Rightarrow>
                                        if \<not> truthy_str (documentId e)
                                        then (Inl (Fulfilled (None, None)), h2)
                                        else (Inr (the (documentId e)), h2)))))
                   in case base of
                        Inl early \<Rightarrow> (early, h2)
                      | Inr baseId \<Rightarrow>
                         (let ((err, response), h3) =
                                 attach_000 env c payload params locale baseId h2
                          in case err of
                               Some e \<Rightarrow> (Fulfilled (Some e, None), h3)
                             | None \<Rightarrow> (Fulfilled (None, Option.bind response item_data), h3)))))"

definition update_000 ::
  "host \<Rightarrow> StrapiClient \<Rightarrow> record_id \<Rightarrow> UpdatePayload \<Rightarrow> QueryParams option \<Rightarrow> string option
   \<Rightarrow> event list \<Rightarrow> (ServiceError option \<times> entity option) \<times> event list" where
  "update_000 env c id0 payload params0 locale0 h =
     (let params = obj_of params0;
          locale = (case locale0 of None \<Rightarrow> ''en'' | Some l \<Rightarrow> l);
          queryParams = spread params (locale_entry (Some locale));
          queryString = getQueryString env (Some queryParams);
          url = uid c @ ''/'' @ template_id id0 @ queryString;
          ((err, response), h1) =
             request (as_StrapiSingleResponse env) c url
               \<lparr> init_method = Some PUT, body = Some (JSON_stringify payload), init_headers = [] \<rparr> h
      in case err of
           Some e \<Rightarrow> ((Some e, None), h1)
         | None \<Rightarrow> ((None, Option.bind response item_data), h1))"

definition delete_000 ::
  "host \<Rightarrow> StrapiClient \<Rightarrow> record_id \<Rightarrow> string option \<Rightarrow> event list
   \<Rightarrow> (ServiceError option \<times> entity option) \<times> event list" where
  "delete_000 env c id0 locale h =
     (let queryParams = spread [] (locale_entry locale);
          queryString = getQueryString env (Some queryParams);
          ((err, response), h1) =
             request (as_StrapiSingleResponse env) c
               (uid c @ ''/'' @ template_id id0 @ queryString)
               \<lparr> init_method = Some DELETE, body = None, init_headers = [] \<rparr> h
      in case err of
           Some e \<Rightarrow> ((Some e, None), h1)
         | None \<Rightarrow> ((None, Option.bind response item_data), h1))"

definition upsert_000 ::
  "host \<Rightarrow> StrapiClient \<Rightarrow> string option \<Rightarrow> CreatePayload \<Rightarrow> qval option
   \<Rightarrow> QueryParams option \<Rightarrow> event list \<Rightarrow> entity completion \<times> event list" where
  "upsert_000 env c locale0 payload filters params0 h =
     (let params = obj_of params0;
          locale = (case locale0 of None \<Rightarrow> ''en'' | Some l \<Rightarrow> l);
          searchParams =
            spread (spread (spread params (filters_entry filters))
                      [(''pagination'', QObj [(''pageSize'', QNum 1)])])
              (locale_entry (Some locale));
          ((searchErr, searchResponse), h1) = findMany env c (Some searchParams) (Some locale) h
      in case searchErr of
           Some e \<Rightarrow> (Fulfilled (Some e, None), h1)
         | None \<Rightarrow>
            (case searchResponse of
               Some (x # _) \<Rightarrow>
                 (let existingId =
                        (case documentId x of
                           Some d \<Rightarrow> IdStr d
                         | None \<Rightarrow> (case documentId x of Some d \<Rightarrow> IdStr d | None \<Rightarrow> IdUndefined));
                      (r, h2) = update_000 env c existingId payload (Some params) (Some locale) h1
                  in (Fulfilled r, h2))
             | _ \<Rightarrow> create_000 env c payload (Some params) (Some locale) filters h1))"

subsection \<open>Second variant (\<open>part_001\<close>): create, update, delete, upsert\<close>

definition discover_001 ::
  "host \<Rightarrow> StrapiClient \<Rightarrow> QueryParams \<Rightarrow> qval option \<Rightarrow> event list
   \<Rightarrow> (ServiceError option \<times> StrapiResponse option) \<times> event list" where
  "discover_001 env c params filters h =
     (let searchParams =
            spread (spread params (filters_entry filters)) [(''locale'', QStr ''en'')];
          searchQuery = getQueryString env (Some searchParams)
      in request (as_StrapiResponse env) c (uid c @ searchQuery)
           \<lparr> init_method = None, body = None, init_headers = [] \<rparr> h)"

definition post_collection_001 ::
  "host \<Rightarrow> StrapiClient \<Rightarrow> CreatePayload \<Rightarrow> event list
   \<Rightarrow> (ServiceError option \<times> StrapiSingleResponse option) \<times> event list" where
  "post_collection_001 env c payload h =
     request (as_StrapiSingleResponse env) c (uid c)
       \<lparr> init_method = Some POST, body = Some (JSON_stringify payload), init_headers = [] \<rparr> h"

definition attach_001 ::
  "host \<Rightarrow> StrapiClient \<Rightarrow> CreatePayload \<Rightarrow> string \<Rightarrow> string \<Rightarrow> event list
   \<Rightarrow> (ServiceError option \<times> StrapiSingleResponse option) \<times> event list" where
  "attach_001 env c payload locale baseId h =
     request (as_StrapiSingleResponse env) c (uid c @ ''/'' @ baseId @ ''?locale='' @ locale)
       \<lparr> init_method = Some PUT, body = Some (JSON_stringify payload), init_headers = [] \<rparr> h"

definition create_001 ::
  "host \<Rightarrow> StrapiClient \<Rightarrow> CreatePayload \<Rightarrow> QueryParams option \<Rightarrow> string option
   \<Rightarrow> qval option \<Rightarrow> event list \<Rightarrow> entity completion \<times> event list" where
  "create_001 env c payload params0 locale0 filters h =
     (let params = obj_of params0;
          locale = (case locale0 of None \<Rightarrow> ''en'' | Some l \<Rightarrow> l);
          isDefaultLocale = (locale = ''en'')
      in if isDefaultLocale then
           (let ((err, response), h1) = post_collection_001 env c payload h
            in case err of
                 Some e \<Rightarrow> (Fulfilled (Some e, None), h1)
               | None \<Rightarrow> (Fulfilled (None, Option.bind response item_data), h1))
         else
           (let ((searchErr, enResponse), h1) = discover_001 env c params filters h
            in case searchErr of
                 Some e \<Rightarrow> (Fulfilled (Some e, None), h1)
               | None \<Rightarrow>
                  (let (base, h2) =
                     (case base_documentId enResponse of
                        Some d \<Rightarrow> (Inr d, h1)
                      | None \<Rightarrow>
                         (let ((createErr, createResponse), h2) =
                                 post_collection_001 env c
                                   (payload\<lparr> data := spread (data payload)
                                                       [(''locale'', QStr ''en'')] \<rparr>) h1
                          in case createErr of
                               Some e \<Rightarrow> (Inl (Fulfilled (Some e, None)), h2)
                             | None \<Rightarrow>
                                (case createResponse of
                                   None \<Rightarrow> (Inl (Fulfilled (None, None)), h2)
                                 | Some r \<Rightarrow>
                                    (case item_data r of
                                       None \<Rightarrow> (Inl Rejected_TypeError, h2)
                                     | Some e \<Rightarrow>
                                        if \<not> truthy_str (documentId e)
                                        then (Inl (Fulfilled (None, None)), h2)
                                        else (Inr (the (documentId e)), h2)))))
                   in case base of
                        Inl early \<Rightarrow> (early, h2)
                      | Inr baseId \<Rightarrow>
                         (let ((localeErr, localeResponse), h3) =
                                 attach_001 env c payload locale baseId h2
                          in case localeErr of
                               Some e \<Rightarrow> (Fulfilled (Some e, None), h3)
                             | None \<Rightarrow>
                                (case localeResponse of
                                   None \<Rightarrow> (Fulfilled (None, None), h3)
                                 | Some r \<Rightarrow>
                                    (case item_data r of
                                       None \<Rightarrow> (Rejected_TypeError, h3)
                                     | Some e \<Rightarrow>
                                        if \<not> truthy_str (documentId e)
                                        then (Fulfilled (None, None), h3)
                                        else (Fulfilled (None, Some e), h3)))))))"

definition update_001 ::
  "host \<Rightarrow> StrapiClient \<Rightarrow> record_id \<Rightarrow> UpdatePayload \<Rightarrow> QueryParams option \<Rightarrow> string option
   \<Rightarrow> event list \<Rightarrow> (ServiceError option \<times> entity option) \<times> event list" where
  "update_001 env c id0 payload params0 locale0 h =
     (let locale = (case locale0 of None \<Rightarrow> ''en'' | Some l \<Rightarrow> l);
          url = (if locale = ''en'' then uid c @ ''/'' @ template_id id0
                 else uid c @ ''/'' @ template_id id0 @ ''?locale='' @ locale);
          ((err, response), h1) =
             request (as_StrapiSingleResponse env) c url
               \<lparr> init_method = Some PUT, body = Some (JSON_stringify payload), init_headers = [] \<rparr> h
      in case err of
           Some e \<Rightarrow> ((Some e, None), h1)
         | None \<Rightarrow> ((None, Option.bind response item_data), h1))"

definition delete_001 ::
  "host \<Rightarrow> StrapiClient \<Rightarrow> record_id \<Rightarrow> event list
   \<Rightarrow> (ServiceError option \<times> entity option) \<times> event list" where
  "delete_001 env c id0 h =
     (let ((err, response), h1) =
             request (as_StrapiSingleResponse env) c (uid c @ ''/'' @ template_id id0)
               \<lparr> init_method = Some DELETE, body = None, init_headers = [] \<rparr> h
      in case err of
           Some e \<Rightarrow> ((Some e, None), h1)
         | None \<Rightarrow> ((None, Option.bind response item_data), h1))"

definition upsert_001 ::
  "host \<Rightarrow> StrapiClient \<Rightarrow> CreatePayload \<Rightarrow> qval option \<Rightarrow> QueryParams option
   \<Rightarrow> string option \<Rightarrow> event list \<Rightarrow> entity completion \<times> event list" where
  "upsert_001 env c payload filters params0 locale0 h =
     (let params = obj_of params0;
          locale = (case locale0 of None \<Rightarrow> ''en'' | Some l \<Rightarrow> l);
          searchParams =
            spread (spread (spread params (filters_entry filters))
                      [(''pagination'', QObj [(''pageSize'', QNum 1)])])
              (locale_entry (Some locale));
          ((searchErr, searchResponse), h1) = findMany env c (Some searchParams) (Some locale) h
      in case searchErr of
           Some e \<Rightarrow> (Fulfilled (Some e, None), h1)
         | None \<Rightarrow>
            (case searchResponse of
               Some (x # _) \<Rightarrow>
                 (let existingId =
                        (case documentId x of Some d \<Rightarrow> IdStr d | None \<Rightarrow> entity_id x);
                      (r, h2) = update_001 env c existingId payload (Some params) (Some locale) h1
                  in (Fulfilled r, h2))
             | _ \<Rightarrow> create_001 env c payload (Some params) (Some locale) filters h1))"

subsection \<open>A stand-in for the query-string library\<close>

text \<open>
  The operations take the serializer from the host, and the general theorems hold for
  every serializer. Concrete examples need a concrete one: \<open>qs_stringify\<close> follows the
  \<open>qs\<close> library's \<open>stringify\<close> with the options the client passes (no prefix of its
  own, array indices in brackets, keys and values percent-encoded) on the values of
  \<open>qval\<close>, for characters up to code point 255.
\<close>

definition hexTable :: "nat \<Rightarrow> string" where
  "hexTable n = [CHR ''%'', ''0123456789ABCDEF'' ! (n div 16), ''0123456789ABCDEF'' ! (n mod 16)]"

definition unreserved :: "char \<Rightarrow> bool" where
  "unreserved ch =
     (ch \<in> set ''-._~0123456789ABCDEFGHIJKLMNOPQRSTUVWXYZabcdefghijklmnopqrstuvwxyz'')"

definition encode_char :: "char \<Rightarrow> string" where
  "encode_char ch =
     (let n = (of_char ch :: nat)
      in if unreserved ch then [ch]
         else if n < 128 then hexTable n
         else hexTable (192 + n div 64) @ hexTable (128 + n mod 64))"

definition encode :: "string \<Rightarrow> string" where
  "encode s = concat (map encode_char s)"

fun qs_value :: "string \<Rightarrow> qval \<Rightarrow> string list"
  and qs_items :: "string \<Rightarrow> nat \<Rightarrow> qval list \<Rightarrow> string list"
  and qs_fields :: "string \<Rightarrow> (string \<times> qval) list \<Rightarrow> string list" where
  "qs_value prefix (QStr s) = [encode prefix @ ''='' @ encode s]"
| "qs_value prefix (QNum n) = [encode prefix @ ''='' @ encode (show_int n)]"
| "qs_value prefix (QBool b) = [encode prefix @ ''='' @ (if b then ''true'' else ''false'')]"
| "qs_value prefix QNull = [encode prefix @ ''='']"
| "qs_value prefix (QArr xs) = qs_items prefix 0 xs"
| "qs_value prefix (QObj kvs) = qs_fields prefix kvs"
| "qs_items prefix i [] = []"
| "qs_items prefix i (x # xs) =
     qs_value (prefix @ ''['' @ show_nat i @ '']'') x @ qs_items prefix (Suc i) xs"
| "qs_fields prefix [] = []"
| "qs_fields prefix ((k, v) # kvs) =
     qs_value (prefix @ ''['' @ k @ '']'') v @ qs_fields prefix kvs"

fun qs_keys :: "(string \<times> qval) list \<Rightarrow> string list" where
  "qs_keys [] = []"
| "qs_keys ((k, v) # kvs) = qs_value k v @ qs_keys kvs"

fun join_amp :: "string list \<Rightarrow> string" where
  "join_amp [] = ''''"
| "join_amp [x] = x"
| "join_amp (x # y # ys) = x @ ''&'' @ join_amp (y # ys)"

definition qs_stringify :: "QueryParams \<Rightarrow> string" where
  "qs_stringify p = join_amp (qs_keys p)"


section \<open>Vocabulary of the properties\<close>

text \<open>
  The error a single step yields, by kind, read off the recorded event; a run that stops
  at the first step of a kind and returns its error; a run without any such step.
\<close>

definition http_failure :: "event \<Rightarrow> ServiceError option" where
  "http_failure ev =
     (case outcome ev of
        Rejects _ \<Rightarrow> None
      | Resolves r \<Rightarrow>
          if ok r then None
          else Some \<lparr> message = ''Strapi API error: '' @ show_nat (resp_status r) @ '' ''
                                 @ resp_statusText r,
                      status = Some (resp_status r) \<rparr>)"

definition parse_failure :: "event \<Rightarrow> ServiceError option" where
  "parse_failure ev =
     (case outcome ev of
        Rejects _ \<Rightarrow> None
      | Resolves r \<Rightarrow>
          if \<not> ok r \<or> call_method (call ev) = Some DELETE then None
          else (case resp_json r of
                  Parsed _ \<Rightarrow> None
                | ParseFailure m \<Rightarrow>
                    Some \<lparr> message = ''Strapi API error: Failed to parse JSON response - '' @ m,
                           status = Some (resp_status r) \<rparr>))"

definition step_error :: "event \<Rightarrow> ServiceError option" where
  "step_error ev =
     (case outcome ev of
        Rejects msg \<Rightarrow> Some \<lparr> message = ''Strapi API error: '' @ msg, status = None \<rparr>
      | Resolves r \<Rightarrow>
          (case http_failure ev of Some e \<Rightarrow> Some e | None \<Rightarrow> parse_failure ev))"

definition stops_at ::
  "(event \<Rightarrow> ServiceError option) \<Rightarrow> event list \<Rightarrow> 'a completion \<Rightarrow> event list \<Rightarrow> bool" where
  "stops_at cls h res h' =
     (take (length h) h' = h
      \<and> (\<forall>ev \<in> set (butlast (drop (length h) h')). cls ev = None)
      \<and> (drop (length h) h' \<noteq> [] \<longrightarrow>
           (case cls (last (drop (length h) h')) of
              None \<Rightarrow> True
            | Some e \<Rightarrow> res = Fulfilled (Some e, None))))"

definition clean_run :: "(event \<Rightarrow> ServiceError option) \<Rightarrow> event list \<Rightarrow> event list \<Rightarrow> bool" where
  "clean_run cls h h' =
     (take (length h) h' = h \<and> (\<forall>ev \<in> set (drop (length h) h'). cls ev = None))"

definition request_event :: "'r payload_type \<Rightarrow> StrapiClient \<Rightarrow> string \<Rightarrow> RequestInit \<Rightarrow> event list \<Rightarrow> event" where
  "request_event R c ep opts h =
     (let fc = \<lparr> call_url = baseURL c @ ''/'' @ strip_leading_slashes ep,
                 call_method = init_method opts, call_body = body opts,
                 call_headers = spread (headers c) (init_headers opts) \<rparr>
      in \<lparr> call = fc, outcome = map_fetch_result (\<lambda>_. ()) (transport R h fc) \<rparr>)"


text \<open>The URLs of the requests an operation issued, given the calls before and after it.\<close>

definition requested_urls :: "event list \<Rightarrow> event list \<Rightarrow> string list" where
  "requested_urls h h' = map (\<lambda>ev. call_url (call ev)) (drop (length h) h')"

text \<open>
  The call \<open>request\<close> hands to the transport, the error it builds from a response with a
  non-success status, and the event recorded for a call the transport answered with a
  response.
\<close>

definition fetch_call_of :: "StrapiClient \<Rightarrow> string \<Rightarrow> RequestInit \<Rightarrow> fetch_call" where
  "fetch_call_of c endpoint options =
     \<lparr> call_url = baseURL c @ ''/'' @ strip_leading_slashes endpoint,
       call_method = init_method options, call_body = body options,
       call_headers = spread (headers c) (init_headers options) \<rparr>"

definition http_error :: "'r response \<Rightarrow> ServiceError" where
  "http_error r =
     \<lparr> message = ''Strapi API error: '' @ show_nat (resp_status r) @ '' '' @ resp_statusText r,
       status = Some (resp_status r) \<rparr>"

definition answered :: "fetch_call \<Rightarrow> 'r response \<Rightarrow> event" where
  "answered fc r = \<lparr> call = fc, outcome = Resolves (map_response (\<lambda>_. ()) r) \<rparr>"

text \<open>The locale an operation works with: \<open>en\<close> when none is given.\<close>

definition effective_locale :: "string option \<Rightarrow> string" where
  "effective_locale locale = (case locale of None \<Rightarrow> ''en'' | Some l \<Rightarrow> l)"

text \<open>The error \<open>request\<close> builds when the body of a successful response fails to parse.\<close>

definition parse_error :: "'r response \<Rightarrow> string \<Rightarrow> ServiceError" where
  "parse_error r msg =
     \<lparr> message = ''Strapi API error: Failed to parse JSON response - '' @ msg,
       status = Some (resp_status r) \<rparr>"

subsection \<open>Concrete hosts and inputs\<close>

text \<open>A transport that answers by the number of calls made so far.\<close>

definition scripted :: "(nat \<Rightarrow> 'r option fetch_result) \<Rightarrow> 'r transport" where
  "scripted f h fc = f (length h)"

definition ok_list :: "entity list \<Rightarrow> StrapiResponse option fetch_result" where
  "ok_list xs = Resolves (Response 200 ''OK'' (Parsed (Some \<lparr> list_data = Some xs \<rparr>)))"

definition ok_item :: "entity \<Rightarrow> StrapiSingleResponse option fetch_result" where
  "ok_item e = Resolves (Response 200 ''OK'' (Parsed (Some \<lparr> item_data = Some e \<rparr>)))"

definition example_client :: StrapiClient where
  "example_client = new_StrapiClient ''http://h/'' ''items'' None"

definition example_payload :: CreatePayload where
  "example_payload = \<lparr> data = [(''name'', QStr ''x'')] \<rparr>"

definition host_not_found :: host where
  "host_not_found =
     \<lparr> fetch_list = scripted (\<lambda>n. Resolves (Response 404 ''Not Found'' (ParseFailure ''no body''))),
       fetch_item = scripted (\<lambda>n. Resolves (Response 404 ''Not Found'' (ParseFailure ''no body''))),
       stringify = qs_stringify \<rparr>"

definition host_base_create_fails :: host where
  "host_base_create_fails =
     \<lparr> fetch_list = scripted (\<lambda>n. ok_list []),
       fetch_item = scripted (\<lambda>n. Resolves (Response 500 ''Internal Server Error''
                                            (ParseFailure ''no body''))),
       stringify = qs_stringify \<rparr>"


definition host_unparsable :: host where
  "host_unparsable =
     \<lparr> fetch_list = scripted (\<lambda>n. Resolves (Response 200 ''OK''
                                            (ParseFailure ''Unexpected end of JSON input''))),
       fetch_item = scripted (\<lambda>n. Resolves (Response 200 ''OK''
                                            (ParseFailure ''Unexpected end of JSON input''))),
       stringify = qs_stringify \<rparr>"

definition entity_without_documentId :: entity where
  "entity_without_documentId =
     \<lparr> entity_id = IdNum 1, documentId = None, attributes = [(''name'', ''x'')] \<rparr>"

definition host_base_without_documentId :: host where
  "host_base_without_documentId =
     \<lparr> fetch_list = scripted (\<lambda>n. ok_list []),
       fetch_item = scripted (\<lambda>n. Resolves (Response 201 ''Created''
                        (Parsed (Some \<lparr> item_data = Some entity_without_documentId \<rparr>)))),
       stringify = qs_stringify \<rparr>"

definition host_match_without_documentId :: host where
  "host_match_without_documentId =
     \<lparr> fetch_list = scripted (\<lambda>n. ok_list [entity_without_documentId]),
       fetch_item = scripted (\<lambda>n. ok_item entity_without_documentId),
       stringify = qs_stringify \<rparr>"

definition entity_with_documentId :: entity where
  "entity_with_documentId =
     \<lparr> entity_id = IdNum 7, documentId = Some ''doc-2'', attributes = [(''name'', ''x'')] \<rparr>"

definition host_base_exists :: host where
  "host_base_exists =
     \<lparr> fetch_list = scripted (\<lambda>n. ok_list [entity_with_documentId]),
       fetch_item = scripted (\<lambda>n. ok_item entity_with_documentId),
       stringify = qs_stringify \<rparr>"


section \<open>Properties\<close>

lemmas run_defs =
  request_def findMany_def find_op_def getQueryString_def spread_def obj_of_def locale_entry_def
  filters_entry_def as_StrapiResponse_def as_StrapiSingleResponse_def Let_def ok_def
  scripted_def ok_list_def ok_item_def example_client_def example_payload_def
  new_StrapiClient_def normalize_baseURL_def strip_trailing_slashes_def
  strip_leading_slashes_def endsWith_def show_nat.simps show_int_def base_documentId_def
  discover_000_def post_collection_000_def attach_000_def create_000_def update_000_def
  delete_000_def upsert_000_def
  discover_001_def post_collection_001_def attach_001_def create_001_def update_001_def
  delete_001_def upsert_001_def

lemmas qs_defs =
  qs_stringify_def encode_def encode_char_def unreserved_def hexTable_def

lemma http_failure_step: "http_failure ev = Some e \<Longrightarrow> step_error ev = Some e"
  by (auto simp: step_error_def http_failure_def split: fetch_result.splits)

lemma parse_failure_step: "parse_failure ev = Some e \<Longrightarrow> step_error ev = Some e"
  by (auto simp: step_error_def http_failure_def parse_failure_def
      split: fetch_result.splits if_splits)


subsection \<open>Base-URL normalization\<close>

lemma strip_trailing_slashes_append_api:
  "strip_trailing_slashes (s @ ''/api'') = s @ ''/api''"
  by (simp add: strip_trailing_slashes_def)

lemma endsWith_append: "endsWith (s @ suf) suf"
  by (simp add: endsWith_def)

lemma endsWith_api_strip:
  assumes "endsWith s ''/api''"
  shows "strip_trailing_slashes s = s"
proof -
  define n where "n = length s - length ''/api''"
  have d: "drop n s = ''/api''"
    using assms unfolding endsWith_def n_def by blast
  have "strip_trailing_slashes (take n s @ ''/api'') = take n s @ ''/api''"
    by (rule strip_trailing_slashes_append_api)
  then have "strip_trailing_slashes (take n s @ drop n s) = take n s @ drop n s"
    by (simp only: d)
  then show ?thesis
    by (simp only: append_take_drop_id)
qed

lemma strip_trailing_slashes_no_slash:
  "strip_trailing_slashes s = [] \<or> last (strip_trailing_slashes s) \<noteq> CHR ''/''"
proof -
  have "dropWhile (\<lambda>ch. ch = CHR ''/'') (rev s) = []
        \<or> hd (dropWhile (\<lambda>ch. ch = CHR ''/'') (rev s)) \<noteq> CHR ''/''"
    using hd_dropWhile by blast
  then show ?thesis
    by (auto simp: strip_trailing_slashes_def last_rev)
qed
text \<open>
  C7. The constructor stores the same base for \<open>http://h/\<close>, \<open>http://h/api\<close> and
  \<open>http://h///\<close>, namely \<open>http://h/api\<close>. In general the stored base is the input with
  its trailing slashes stripped, followed by \<open>/api\<close> unless it already ends with it; it
  always ends with \<open>/api\<close>, and normalizing it again changes nothing.
\<close>


theorem baseURL_normalization:
  "baseURL (new_StrapiClient ''http://h/'' u t) = ''http://h/api''
   \<and> baseURL (new_StrapiClient ''http://h/api'' u t) = ''http://h/api''
   \<and> baseURL (new_StrapiClient ''http://h///'' u t) = ''http://h/api''
   \<and> baseURL (new_StrapiClient b u t) =
       (if endsWith (strip_trailing_slashes b) ''/api'' then strip_trailing_slashes b
        else strip_trailing_slashes b @ ''/api'')
   \<and> (strip_trailing_slashes b = [] \<or> last (strip_trailing_slashes b) \<noteq> CHR ''/'')
   \<and> endsWith (baseURL (new_StrapiClient b u t)) ''/api''
   \<and> baseURL (new_StrapiClient (baseURL (new_StrapiClient b u t)) u' t')
       = baseURL (new_StrapiClient b u t)"
proof -
  have n: "endsWith (normalize_baseURL b) ''/api''"
    by (simp add: normalize_baseURL_def Let_def endsWith_append)
  have i: "normalize_baseURL (normalize_baseURL b) = normalize_baseURL b"
    using n endsWith_api_strip [OF n] by (simp add: normalize_baseURL_def [of "normalize_baseURL b"] Let_def)
  have c1: "normalize_baseURL ''http://h/'' = ''http://h/api''"
    by (simp add: normalize_baseURL_def strip_trailing_slashes_def endsWith_def)
  have c2: "normalize_baseURL ''http://h/api'' = ''http://h/api''"
    by (simp add: normalize_baseURL_def strip_trailing_slashes_def endsWith_def)
  have c3: "normalize_baseURL ''http://h///'' = ''http://h/api''"
    by (simp add: normalize_baseURL_def strip_trailing_slashes_def endsWith_def)
  have g: "normalize_baseURL b =
       (if endsWith (strip_trailing_slashes b) ''/api'' then strip_trailing_slashes b
        else strip_trailing_slashes b @ ''/api'')"
    by (simp add: normalize_baseURL_def Let_def)
  have b: "\<And>x. baseURL (new_StrapiClient x u t) = normalize_baseURL x"
     "\<And>x. baseURL (new_StrapiClient x u' t') = normalize_baseURL x"
    by (simp_all add: new_StrapiClient_def)
  show ?thesis
    unfolding b using n i c1 c2 c3 g strip_trailing_slashes_no_slash [of b]
    by (simp only: simp_thms if_True if_False)
qed


theorem baseURL_normalization_witness:
  "baseURL (new_StrapiClient ''http://h/api//'' ''articles'' None) = ''http://h/api''
   \<and> baseURL (new_StrapiClient ''http://h/v1/'' ''articles'' None) = ''http://h/v1/api''
   \<and> baseURL (new_StrapiClient ''http://h/v1/api'' ''articles'' None) = ''http://h/v1/api''"
  using baseURL_normalization [of "''articles''" None "''http://h/api//''" "''articles''" None]
    baseURL_normalization [of "''articles''" None "''http://h/v1/''" "''articles''" None]
    baseURL_normalization [of "''articles''" None "''http://h/v1/api''" "''articles''" None]
  by (simp add: strip_trailing_slashes_def endsWith_def)

subsection \<open>Every operation stops at the first failing step\<close>

lemma ok_map_response: "ok (map_response f r) = ok r"
  by (cases r) (simp add: ok_def)

lemma resp_sel_map:
  "resp_status (map_response f r) = resp_status r"
  "resp_statusText (map_response f r) = resp_statusText r"
  "resp_json (map_response f r) = map_json_result f (resp_json r)"
  by (cases r; simp)+

lemma request_snd: "snd (request R c ep opts h) = h @ [request_event R c ep opts h]"
  by (simp add: request_def request_event_def Let_def
           split: fetch_result.split json_result.split)

lemma request_fst:
  "fst (fst (request R c ep opts h)) = step_error (request_event R c ep opts h)"
proof (cases "transport R h \<lparr> call_url = baseURL c @ ''/'' @ strip_leading_slashes ep,
                 call_method = init_method opts, call_body = body opts,
                 call_headers = spread (headers c) (init_headers opts) \<rparr>")
  case (Rejects m)
  then show ?thesis
    by (simp add: request_def request_event_def Let_def step_error_def ok_map_response resp_sel_map)
next
  case (Resolves r)
  show ?thesis
  proof (cases "ok r")
    case False
    with Resolves show ?thesis
      by (simp add: request_def request_event_def Let_def step_error_def ok_map_response resp_sel_map http_failure_def)
  next
    case True
    show ?thesis
    proof (cases "resp_json r")
      case (Parsed d)
      with True Resolves show ?thesis
        by (simp add: request_def request_event_def Let_def step_error_def ok_map_response resp_sel_map
              http_failure_def parse_failure_def)
    next
      case (ParseFailure m)
      with True Resolves show ?thesis
        by (cases "init_method opts = Some DELETE")
           (simp_all add: request_def request_event_def Let_def step_error_def ok_map_response resp_sel_map
              http_failure_def parse_failure_def)
    qed
  qed
qed

lemma request_null_data:
  "fst (fst (request R c ep opts h)) \<noteq> None \<Longrightarrow> snd (fst (request R c ep opts h)) = None"
  by (simp add: request_def Let_def split: fetch_result.splits json_result.splits if_splits)

lemma stops_at_iff:
  "stops_at cls h res h' \<longleftrightarrow>
     (\<exists>new. h' = h @ new \<and> (\<forall>ev \<in> set (butlast new). cls ev = None)
        \<and> (new \<noteq> [] \<longrightarrow> (case cls (last new) of None \<Rightarrow> True
                                | Some e \<Rightarrow> res = Fulfilled (Some e, None))))"
proof
  assume s: "stops_at cls h res h'"
  then have "h' = h @ drop (length h) h'"
    unfolding stops_at_def by (metis append_take_drop_id)
  with s show "\<exists>new. h' = h @ new \<and> (\<forall>ev \<in> set (butlast new). cls ev = None)
        \<and> (new \<noteq> [] \<longrightarrow> (case cls (last new) of None \<Rightarrow> True
                                | Some e \<Rightarrow> res = Fulfilled (Some e, None)))"
    unfolding stops_at_def by blast
next
  assume "\<exists>new. h' = h @ new \<and> (\<forall>ev \<in> set (butlast new). cls ev = None)
        \<and> (new \<noteq> [] \<longrightarrow> (case cls (last new) of None \<Rightarrow> True
                                | Some e \<Rightarrow> res = Fulfilled (Some e, None)))"
  then show "stops_at cls h res h'"
    unfolding stops_at_def by auto
qed

lemma stops_request:
  assumes "request R c ep opts h = (res, h')"
  shows "stops_at step_error h (Fulfilled res) h'"
proof -
  define ev where "ev = request_event R c ep opts h"
  have h': "h' = h @ [ev]"
    using request_snd [of R c ep opts h] assms by (simp add: ev_def)
  have e: "fst res = step_error ev"
    using request_fst [of R c ep opts h] assms by (simp add: ev_def)
  have n: "fst res \<noteq> None \<longrightarrow> snd res = None"
    using request_null_data [of R c ep opts h] assms by simp
  show ?thesis
    unfolding stops_at_iff
  proof (intro exI [of _ "[ev]"] conjI)
    show "h' = h @ [ev]" by (rule h')
    show "\<forall>ev\<in>set (butlast [ev]). step_error ev = None" by simp
    show "[ev] \<noteq> [] \<longrightarrow> (case step_error (last [ev]) of None \<Rightarrow> True
            | Some e \<Rightarrow> Fulfilled res = Fulfilled (Some e, None))"
      using e n by (cases res) (auto split: option.splits)
  qed
qed

lemma clean_run_iff:
  "clean_run cls h h' \<longleftrightarrow> (\<exists>new. h' = h @ new \<and> (\<forall>ev \<in> set new. cls ev = None))"
proof
  assume s: "clean_run cls h h'"
  then have "h' = h @ drop (length h) h'"
    unfolding clean_run_def by (metis append_take_drop_id)
  with s show "\<exists>new. h' = h @ new \<and> (\<forall>ev \<in> set new. cls ev = None)"
    unfolding clean_run_def by blast
next
  assume "\<exists>new. h' = h @ new \<and> (\<forall>ev \<in> set new. cls ev = None)"
  then show "clean_run cls h h'"
    unfolding clean_run_def by auto
qed

lemma stops_clean_run:
  assumes "stops_at cls h (Fulfilled (None, d)) h1"
  shows "clean_run cls h h1"
proof -
  from assms obtain new where n: "h1 = h @ new" "\<forall>ev \<in> set (butlast new). cls ev = None"
    "new \<noteq> [] \<longrightarrow> (case cls (last new) of None \<Rightarrow> True
                    | Some e \<Rightarrow> Fulfilled (None, d) = Fulfilled (Some e, None))"
    unfolding stops_at_iff by blast
  have "\<forall>ev \<in> set new. cls ev = None"
  proof (cases "new = []")
    case True then show ?thesis by simp
  next
    case False
    then have l: "cls (last new) = None" using n(3) by (auto split: option.splits)
    from l n(2) have "\<forall>ev \<in> set (butlast new @ [last new]). cls ev = None" by simp
    moreover from False have "butlast new @ [last new] = new" by (rule append_butlast_last_id)
    ultimately show ?thesis by (simp only:)
  qed
  with n(1) show ?thesis unfolding clean_run_iff by blast
qed

lemma clean_then:
  assumes a: "clean_run cls h h1" and b: "stops_at cls h1 res h2"
  shows "stops_at cls h res h2"
proof -
  from a obtain new1 where
    n1: "h1 = h @ new1" "\<forall>ev \<in> set new1. cls ev = None" unfolding clean_run_iff by blast
  from b obtain new2 where n2: "h2 = h1 @ new2" "\<forall>ev \<in> set (butlast new2). cls ev = None"
    "new2 \<noteq> [] \<longrightarrow> (case cls (last new2) of None \<Rightarrow> True
                    | Some e \<Rightarrow> res = Fulfilled (Some e, None))"
    unfolding stops_at_iff by blast
  show ?thesis
    unfolding stops_at_iff
  proof (intro exI [of _ "new1 @ new2"] conjI)
    show "h2 = h @ new1 @ new2" using n1(1) n2(1) by simp
    show "\<forall>ev\<in>set (butlast (new1 @ new2)). cls ev = None"
      using n1(2) n2(2) by (auto simp: butlast_append dest: in_set_butlastD)
    show "new1 @ new2 \<noteq> [] \<longrightarrow> (case cls (last (new1 @ new2)) of None \<Rightarrow> True
            | Some e \<Rightarrow> res = Fulfilled (Some e, None))"
    proof (cases "new2 = []")
      case True
      then show ?thesis using n1(2) by (auto split: option.splits)
    next
      case False
      then show ?thesis using n2(3) by simp
    qed
  qed
qed

lemma clean_stops:
  assumes "clean_run cls h h1"
  shows "stops_at cls h res h1"
proof -
  from assms obtain new where
    n: "h1 = h @ new" "\<forall>ev \<in> set new. cls ev = None" unfolding clean_run_iff by blast
  show ?thesis
    unfolding stops_at_iff
    by (rule exI [of _ new]) (use n in \<open>auto dest: in_set_butlastD split: option.splits\<close>)
qed

lemma clean_trans:
  assumes "clean_run cls h h1" and "clean_run cls h1 h2"
  shows "clean_run cls h h2"
  using assms unfolding clean_run_iff by auto

lemma stops_err:
  assumes "stops_at cls h (Fulfilled (Some e, d)) h1"
  shows "stops_at cls h (Fulfilled (Some e, None)) h1"
  using assms unfolding stops_at_def by (auto split: option.splits)

lemma stops_weaken:
  assumes "stops_at step_error h res h'"
    and "\<And>ev e. cls ev = Some e \<Longrightarrow> step_error ev = Some e"
  shows "stops_at cls h res h'"
  using assms unfolding stops_at_def
  by (auto split: option.splits) (metis option.distinct(1) option.exhaust)+

lemma request_cases [case_names err ok]:
  obtains e h1 where "request R c ep opts h = ((Some e, None), h1)"
      and "stops_at step_error h (Fulfilled (Some e, None)) h1"
  | d h1 where "request R c ep opts h = ((None, d), h1)"
      and "clean_run step_error h h1"
proof -
  define X where "X = request R c ep opts h"
  have X: "X = ((fst (fst X), snd (fst X)), snd X)" by simp
  have s: "stops_at step_error h (Fulfilled (fst X)) (snd X)"
    by (rule stops_request [of R c ep opts h]) (simp add: X_def)
  show thesis
  proof (cases "fst (fst X)")
    case None
    then have eq: "X = ((None, snd (fst X)), snd X)" by (simp add: prod_eq_iff)
    from s None have "stops_at step_error h (Fulfilled (None, snd (fst X))) (snd X)"
      by (metis prod.collapse)
    then have "clean_run step_error h (snd X)"
      by (rule stops_clean_run)
    with eq that(2) show thesis unfolding X_def by blast
  next
    case (Some e)
    then have "snd (fst X) = None"
      using request_null_data [of R c ep opts h] by (simp add: X_def)
    with Some have f: "fst X = (Some e, None)" by (simp add: prod_eq_iff)
    then have eq: "X = ((Some e, None), snd X)" by (simp add: prod_eq_iff)
    from s f have "stops_at step_error h (Fulfilled (Some e, snd (fst X))) (snd X)"
      by simp
    then have "stops_at step_error h (Fulfilled (Some e, None)) (snd X)"
      by (rule stops_err)
    with eq that(1) show thesis unfolding X_def by blast
  qed
qed

lemma findMany_stops:
  "stops_at step_error h (Fulfilled (fst (findMany env c params locale h)))
     (snd (findMany env c params locale h))"
  by (cases rule: request_cases [of "as_StrapiResponse env" c
        "uid c @ getQueryString env (Some (spread (obj_of params) (locale_entry locale)))"
        "\<lparr> init_method = Some GET, body = None, init_headers = [] \<rparr>" h])
     (simp_all add: clean_stops findMany_def Let_def)

lemma findMany_cases [case_names err ok]:
  obtains e h1 where "findMany env c params locale h = ((Some e, None), h1)"
      and "stops_at step_error h (Fulfilled (Some e, None) :: entity completion) h1"
  | xs h1 where "findMany env c params locale h = ((None, Some xs), h1)"
      and "clean_run step_error h h1"
  by (cases rule: request_cases [of "as_StrapiResponse env" c
        "uid c @ getQueryString env (Some (spread (obj_of params) (locale_entry locale)))"
        "\<lparr> init_method = Some GET, body = None, init_headers = [] \<rparr>" h])
     (simp_all add: findMany_def Let_def)

lemma find_stops:
  "stops_at step_error h (Fulfilled (fst (find_op env c id0 params locale h)))
     (snd (find_op env c id0 params locale h))"
proof (cases "truthy_id id0")
  case True
  then show ?thesis
    by (cases rule: request_cases [of "as_StrapiSingleResponse env" c
        "uid c @ ''/'' @ template_id id0
           @ getQueryString env (Some (spread (obj_of params) (locale_entry locale)))"
        "\<lparr> init_method = Some GET, body = None, init_headers = [] \<rparr>" h])
     (simp_all add: clean_stops find_op_def Let_def)
next
  case False
  then show ?thesis
    by (cases rule: findMany_cases [of env c params "locale" h])
       (simp_all add: clean_stops find_op_def Let_def)
qed

lemma update_000_stops:
  "stops_at step_error h (Fulfilled (fst (update_000 env c id0 payload params locale h)))
     (snd (update_000 env c id0 payload params locale h))"
  by (cases rule: request_cases [of "as_StrapiSingleResponse env" c
        "uid c @ ''/'' @ template_id id0 @ getQueryString env
             (Some (spread (obj_of params)
                (locale_entry (Some (case locale of None \<Rightarrow> ''en'' | Some l \<Rightarrow> l)))))"
        "\<lparr> init_method = Some PUT, body = Some (JSON_stringify payload), init_headers = [] \<rparr>" h])
     (simp_all add: clean_stops update_000_def Let_def)

lemma update_001_stops:
  "stops_at step_error h (Fulfilled (fst (update_001 env c id0 payload params locale h)))
     (snd (update_001 env c id0 payload params locale h))"
  by (cases rule: request_cases [of "as_StrapiSingleResponse env" c
        "if (case locale of None \<Rightarrow> ''en'' | Some l \<Rightarrow> l) = ''en''
           then uid c @ ''/'' @ template_id id0
           else uid c @ ''/'' @ template_id id0 @ ''?locale=''
                  @ (case locale of None \<Rightarrow> ''en'' | Some l \<Rightarrow> l)"
        "\<lparr> init_method = Some PUT, body = Some (JSON_stringify payload), init_headers = [] \<rparr>" h])
     (simp_all add: clean_stops update_001_def Let_def)

lemma delete_000_stops:
  "stops_at step_error h (Fulfilled (fst (delete_000 env c id0 locale h)))
     (snd (delete_000 env c id0 locale h))"
  by (cases rule: request_cases [of "as_StrapiSingleResponse env" c
        "uid c @ ''/'' @ template_id id0
             @ getQueryString env (Some (spread [] (locale_entry locale)))"
        "\<lparr> init_method = Some DELETE, body = None, init_headers = [] \<rparr>" h])
     (simp_all add: clean_stops delete_000_def Let_def)

lemma delete_001_stops:
  "stops_at step_error h (Fulfilled (fst (delete_001 env c id0 h)))
     (snd (delete_001 env c id0 h))"
  by (cases rule: request_cases [of "as_StrapiSingleResponse env" c
        "uid c @ ''/'' @ template_id id0"
        "\<lparr> init_method = Some DELETE, body = None, init_headers = [] \<rparr>" h])
     (simp_all add: clean_stops delete_001_def Let_def)

lemma discover_000_cases [case_names err ok]:
  obtains e h1 where "discover_000 env c params filters h = ((Some e, None), h1)"
      and "stops_at step_error h (Fulfilled (Some e, None) :: entity completion) h1"
  | d h1 where "discover_000 env c params filters h = ((None, d), h1)"
      and "clean_run step_error h h1"
  unfolding discover_000_def Let_def by (rule request_cases)

lemma post_collection_000_cases [case_names err ok]:
  obtains e h1 where "post_collection_000 env c payload q h = ((Some e, None), h1)"
      and "stops_at step_error h (Fulfilled (Some e, None) :: entity completion) h1"
  | d h1 where "post_collection_000 env c payload q h = ((None, d), h1)"
      and "clean_run step_error h h1"
  unfolding post_collection_000_def Let_def by (rule request_cases)

lemma attach_000_cases [case_names err ok]:
  obtains e h1 where "attach_000 env c payload params l b h = ((Some e, None), h1)"
      and "stops_at step_error h (Fulfilled (Some e, None) :: entity completion) h1"
  | d h1 where "attach_000 env c payload params l b h = ((None, d), h1)"
      and "clean_run step_error h h1"
  unfolding attach_000_def Let_def by (rule request_cases)

lemma create_000_stops:
  "stops_at step_error h (fst (create_000 env c payload params0 locale0 filters h))
     (snd (create_000 env c payload params0 locale0 filters h))"
proof -
  define l where "l = (case locale0 of None \<Rightarrow> ''en'' | Some l \<Rightarrow> l)"
  define q where "q = getQueryString env (Some (obj_of params0))"
  show ?thesis
  proof (cases "l = ''en''")
    case True
    then show ?thesis
      unfolding l_def
      by (cases rule: post_collection_000_cases [of env c payload q h])
         (simp_all add: clean_stops create_000_def Let_def q_def)
  next
    case False
    show ?thesis
    proof (cases rule: discover_000_cases [of env c "obj_of params0" filters h])
      case (err e h1)
      with False show ?thesis
        by (simp add: create_000_def Let_def l_def)
    next
      case D: (ok en h1)
      show ?thesis
      proof (cases "base_documentId en")
        case (Some b)
        show ?thesis
        proof (cases rule: attach_000_cases [of env c payload "obj_of params0" l b h1])
          case (err e h3)
          from clean_then [OF D(2) err(2)] False D(1) Some err(1) show ?thesis
            by (simp add: create_000_def Let_def l_def)
        next
          case (ok d h3)
          from clean_stops [OF clean_trans [OF D(2) ok(2)]] False D(1) Some ok(1) show ?thesis
            by (simp add: create_000_def Let_def l_def)
        qed
      next
        case None
        show ?thesis
        proof (cases rule: post_collection_000_cases [of env c payload q h1])
          case (err e h2)
          from clean_then [OF D(2) err(2)] False D(1) None err(1) show ?thesis
            by (simp add: create_000_def Let_def l_def q_def)
        next
          case P: (ok r h2)
          note early = clean_trans [OF D(2) P(2)]
          show ?thesis
          proof (cases "\<exists>x. r = Some x \<and> (\<exists>e. item_data x = Some e \<and> truthy_str (documentId e))")
            case no: False
            from clean_stops [OF early] False D(1) None P(1) no show ?thesis
              by (auto simp add: create_000_def Let_def l_def q_def split: option.splits)
          next
            case True
            then obtain x e where x: "r = Some x" "item_data x = Some e" "truthy_str (documentId e)"
              by blast
            show ?thesis
            proof (cases rule: attach_000_cases [of env c payload "obj_of params0" l
                      "the (documentId e)" h2])
              case (err e' h3)
              from clean_then [OF early err(2)] False D(1) None P(1) x err(1) show ?thesis
                by (simp add: create_000_def Let_def l_def q_def)
            next
              case (ok d h3)
              from clean_stops [OF clean_trans [OF early ok(2)]] False D(1) None P(1) x ok(1) show ?thesis
                by (simp add: create_000_def Let_def l_def q_def)
            qed
          qed
        qed
      qed
    qed
  qed
qed

lemma discover_001_cases [case_names err ok]:
  obtains e h1 where "discover_001 env c params filters h = ((Some e, None), h1)"
      and "stops_at step_error h (Fulfilled (Some e, None) :: entity completion) h1"
  | d h1 where "discover_001 env c params filters h = ((None, d), h1)"
      and "clean_run step_error h h1"
  unfolding discover_001_def Let_def by (rule request_cases)

lemma post_collection_001_cases [case_names err ok]:
  obtains e h1 where "post_collection_001 env c payload h = ((Some e, None), h1)"
      and "stops_at step_error h (Fulfilled (Some e, None) :: entity completion) h1"
  | d h1 where "post_collection_001 env c payload h = ((None, d), h1)"
      and "clean_run step_error h h1"
  unfolding post_collection_001_def Let_def by (rule request_cases)

lemma attach_001_cases [case_names err ok]:
  obtains e h1 where "attach_001 env c payload l b h = ((Some e, None), h1)"
      and "stops_at step_error h (Fulfilled (Some e, None) :: entity completion) h1"
  | d h1 where "attach_001 env c payload l b h = ((None, d), h1)"
      and "clean_run step_error h h1"
  unfolding attach_001_def Let_def by (rule request_cases)

lemma create_001_stops:
  "stops_at step_error h (fst (create_001 env c payload params0 locale0 filters h))
     (snd (create_001 env c payload params0 locale0 filters h))"
proof -
  define l where "l = (case locale0 of None \<Rightarrow> ''en'' | Some l \<Rightarrow> l)"
  define p' where "p' = payload\<lparr> data := spread (data payload) [(''locale'', QStr ''en'')] \<rparr>"
  show ?thesis
  proof (cases "l = ''en''")
    case True
    then show ?thesis
      unfolding l_def
      by (cases rule: post_collection_001_cases [of env c payload h])
         (simp_all add: clean_stops create_001_def Let_def)
  next
    case False
    show ?thesis
    proof (cases rule: discover_001_cases [of env c "obj_of params0" filters h])
      case (err e h1)
      with False show ?thesis
        by (simp add: create_001_def Let_def l_def)
    next
      case D: (ok en h1)
      show ?thesis
      proof (cases "base_documentId en")
        case (Some b)
        show ?thesis
        proof (cases rule: attach_001_cases [of env c payload l b h1])
          case (err e h3)
          from clean_then [OF D(2) err(2)] False D(1) Some err(1) show ?thesis
            by (simp add: create_001_def Let_def l_def)
        next
          case (ok d h3)
          from clean_stops [OF clean_trans [OF D(2) ok(2)]] False D(1) Some ok(1) show ?thesis
            by (auto simp add: create_001_def Let_def l_def split: option.splits)
        qed
      next
        case None
        show ?thesis
        proof (cases rule: post_collection_001_cases [of env c p' h1])
          case (err e h2)
          from clean_then [OF D(2) err(2)] False D(1) None err(1) show ?thesis
            by (simp add: create_001_def Let_def l_def p'_def)
        next
          case P: (ok r h2)
          note early = clean_trans [OF D(2) P(2)]
          show ?thesis
          proof (cases "\<exists>x. r = Some x \<and> (\<exists>e. item_data x = Some e \<and> truthy_str (documentId e))")
            case no: False
            from clean_stops [OF early] False D(1) None P(1) no show ?thesis
              by (auto simp add: create_001_def Let_def l_def p'_def split: option.splits)
          next
            case True
            then obtain x e where x: "r = Some x" "item_data x = Some e" "truthy_str (documentId e)"
              by blast
            show ?thesis
            proof (cases rule: attach_001_cases [of env c payload l "the (documentId e)" h2])
              case (err e' h3)
              from clean_then [OF early err(2)] False D(1) None P(1) x err(1) show ?thesis
                by (simp add: create_001_def Let_def l_def p'_def)
            next
              case (ok d h3)
              from clean_stops [OF clean_trans [OF early ok(2)]] False D(1) None P(1) x ok(1)
              show ?thesis
                by (auto simp add: create_001_def Let_def l_def p'_def split: option.splits)
            qed
          qed
        qed
      qed
    qed
  qed
qed

lemma upsert_000_stops:
  "stops_at step_error h (fst (upsert_000 env c locale0 payload filters params0 h))
     (snd (upsert_000 env c locale0 payload filters params0 h))"
proof -
  define l where "l = (case locale0 of None \<Rightarrow> ''en'' | Some l \<Rightarrow> l)"
  define sp where "sp = spread (spread (spread (obj_of params0) (filters_entry filters))
                      [(''pagination'', QObj [(''pageSize'', QNum 1)])])
              (locale_entry (Some l))"
  show ?thesis
  proof (cases rule: findMany_cases [of env c "Some sp" "Some l" h])
    case (err e h1)
    then show ?thesis
      by (simp add: upsert_000_def Let_def l_def sp_def)
  next
    case F: (ok xs h1)
    show ?thesis
    proof (cases xs)
      case Nil
      from clean_then [OF F(2) create_000_stops [of h1 env c payload "Some (obj_of params0)"
            "Some l" filters]] F(1) Nil
      show ?thesis
        by (simp add: upsert_000_def Let_def l_def sp_def)
    next
      case (Cons x rest)
      define i where "i = (case documentId x of Some d \<Rightarrow> IdStr d
                   | None \<Rightarrow> (case documentId x of Some d \<Rightarrow> IdStr d | None \<Rightarrow> IdUndefined))"
      from clean_then [OF F(2) update_000_stops [of h1 env c i payload "Some (obj_of params0)"
            "Some l"]] F(1) Cons
      show ?thesis
        by (simp add: upsert_000_def Let_def l_def sp_def i_def split_beta)
    qed
  qed
qed

lemma upsert_001_stops:
  "stops_at step_error h (fst (upsert_001 env c payload filters params0 locale0 h))
     (snd (upsert_001 env c payload filters params0 locale0 h))"
proof -
  define l where "l = (case locale0 of None \<Rightarrow> ''en'' | Some l \<Rightarrow> l)"
  define sp where "sp = spread (spread (spread (obj_of params0) (filters_entry filters))
                      [(''pagination'', QObj [(''pageSize'', QNum 1)])])
              (locale_entry (Some l))"
  show ?thesis
  proof (cases rule: findMany_cases [of env c "Some sp" "Some l" h])
    case (err e h1)
    then show ?thesis
      by (simp add: upsert_001_def Let_def l_def sp_def)
  next
    case F: (ok xs h1)
    show ?thesis
    proof (cases xs)
      case Nil
      from clean_then [OF F(2) create_001_stops [of h1 env c payload "Some (obj_of params0)"
            "Some l" filters]] F(1) Nil
      show ?thesis
        by (simp add: upsert_001_def Let_def l_def sp_def)
    next
      case (Cons x rest)
      define i where "i = (case documentId x of Some d \<Rightarrow> IdStr d | None \<Rightarrow> entity_id x)"
      from clean_then [OF F(2) update_001_stops [of h1 env c i payload "Some (obj_of params0)"
            "Some l"]] F(1) Cons
      show ?thesis
        by (simp add: upsert_001_def Let_def l_def sp_def i_def split_beta)
    qed
  qed
qed

subsection \<open>The URL of a request\<close>

lemma requested_urls_request:
  "requested_urls h (snd (request R c ep opts h)) = [baseURL c @ ''/'' @ strip_leading_slashes ep]"
  by (simp add: requested_urls_def request_snd request_event_def Let_def)

lemma findMany_url:
  "requested_urls h (snd (findMany env c params loc h))
     = [baseURL c @ ''/'' @ strip_leading_slashes
          (uid c @ getQueryString env (Some (spread (obj_of params) (locale_entry loc))))]"
  by (simp add: findMany_def Let_def split_beta requested_urls_request split: option.split)

lemma strip_leading_slashes_query:
  "strip_leading_slashes (a @ ''?'' @ s) = strip_leading_slashes a @ ''?'' @ s"
proof (cases "\<forall>x \<in> set a. x = CHR ''/''")
  case True
  then have "dropWhile (\<lambda>ch. ch = CHR ''/'') a = []" by simp
  moreover from True have "dropWhile (\<lambda>ch. ch = CHR ''/'') (a @ ''?'' @ s)
                           = dropWhile (\<lambda>ch. ch = CHR ''/'') (''?'' @ s)"
    by (intro dropWhile_append2) simp
  ultimately show ?thesis by (simp add: strip_leading_slashes_def)
next
  case False
  then obtain x where "x \<in> set a" "x \<noteq> CHR ''/''" by blast
  then show ?thesis
    unfolding strip_leading_slashes_def by (intro dropWhile_append1) simp_all
qed

lemma delete_000_url:
  "requested_urls h (snd (delete_000 env c i loc h))
     = [baseURL c @ ''/'' @ strip_leading_slashes
          (uid c @ ''/'' @ template_id i
             @ getQueryString env (Some (spread [] (locale_entry loc))))]"
  by (simp add: delete_000_def Let_def split_beta requested_urls_request split: option.split)

lemma delete_001_url:
  "requested_urls h (snd (delete_001 env c i h))
     = [baseURL c @ ''/'' @ strip_leading_slashes (uid c @ ''/'' @ template_id i)]"
  by (simp add: delete_001_def Let_def split_beta requested_urls_request split: option.split)

lemma obj_of_Some: "obj_of (Some p) = p"
  by (simp add: obj_of_def)

subsection \<open>Responses with a non-success status\<close>

lemma request_not_ok:
  assumes "transport R h fc = Resolves r" and "\<not> ok r"
    and "fc = \<lparr> call_url = baseURL c @ ''/'' @ strip_leading_slashes endpoint,
                call_method = init_method options, call_body = body options,
                call_headers = spread (headers c) (init_headers options) \<rparr>"
  shows "request R c endpoint options h =
           ((Some \<lparr> message = ''Strapi API error: '' @ show_nat (resp_status r) @ '' ''
                               @ resp_statusText r,
                    status = Some (resp_status r) \<rparr>, None),
            h @ [\<lparr> call = fc, outcome = Resolves (map_response (\<lambda>_. ()) r)
                  \<rparr>])"
proof -
  from assms(1) have "transport R h \<lparr> call_url = baseURL c @ ''/'' @ strip_leading_slashes
        endpoint,
                call_method = init_method options, call_body = body options,
                call_headers = spread (headers c) (init_headers options) \<rparr> = Resolves r"
    unfolding assms(3) .
  with assms(2) show ?thesis
    unfolding assms(3) by (simp add: request_def Let_def)
qed

lemma request_http_failure:
  assumes "transport R h (fetch_call_of c ep opts) = Resolves r" and "\<not> ok r"
  shows "request R c ep opts h
           = ((Some (http_error r), None), h @ [answered (fetch_call_of c ep opts) r])"
  using request_not_ok [OF assms, of c ep opts]
  by (simp add: fetch_call_of_def http_error_def answered_def)

lemma findMany_http_failure:
  "(fc = fetch_call_of c (uid c @ getQueryString env (Some (spread (obj_of params) (locale_entry
        loc)))) \<lparr> init_method = Some GET, body = None, init_headers = [] \<rparr>
    \<and> fetch_list env h fc = Resolves rl
    \<and> \<not> ok rl
   \<longrightarrow> findMany env c params loc h = ((Some (http_error rl), None), h @ [answered fc
         rl]))"
proof (intro impI, elim conjE)
  assume fc: "fc = fetch_call_of c (uid c @ getQueryString env (Some (spread (obj_of params)
        (locale_entry loc)))) \<lparr> init_method = Some GET, body = None, init_headers = []
        \<rparr>"
  assume t: "fetch_list env h fc = Resolves rl"
  assume n: "\<not> ok rl"
  have q: "request (as_StrapiResponse env) c (uid c @ getQueryString env (Some (spread (obj_of
        params) (locale_entry loc)))) \<lparr> init_method = Some GET, body = None, init_headers =
        [] \<rparr> h
           = ((Some (http_error rl), None), h @ [answered fc rl])"
    unfolding fc by (rule request_http_failure) (use t [unfolded fc] n in \<open>simp_all add:
          as_StrapiResponse_def\<close>)
  from q  show "findMany env c params loc h = ((Some (http_error rl), None), h @ [answered fc
        rl])"
    by (simp add: findMany_def Let_def effective_locale_def)
qed

lemma find_id_http_failure:
  "(truthy_id i
    \<and> fc = fetch_call_of c (uid c @ ''/'' @ template_id i @ getQueryString env (Some (spread
          (obj_of params) (locale_entry loc)))) \<lparr> init_method = Some GET, body = None,
          init_headers = [] \<rparr>
    \<and> fetch_item env h fc = Resolves ri
    \<and> \<not> ok ri
   \<longrightarrow> find_op env c i params loc h = ((Some (http_error ri), None), h @ [answered
         fc ri]))"
proof (intro impI, elim conjE)
  assume p0: "truthy_id i"
  assume fc: "fc = fetch_call_of c (uid c @ ''/'' @ template_id i @ getQueryString env (Some
        (spread (obj_of params) (locale_entry loc)))) \<lparr> init_method = Some GET, body =
        None, init_headers = [] \<rparr>"
  assume t: "fetch_item env h fc = Resolves ri"
  assume n: "\<not> ok ri"
  have q: "request (as_StrapiSingleResponse env) c (uid c @ ''/'' @ template_id i @ getQueryString
        env (Some (spread (obj_of params) (locale_entry loc)))) \<lparr> init_method = Some GET,
        body = None, init_headers = [] \<rparr> h
           = ((Some (http_error ri), None), h @ [answered fc ri])"
    unfolding fc by (rule request_http_failure) (use t [unfolded fc] n in \<open>simp_all add:
          as_StrapiSingleResponse_def\<close>)
  from q p0 show "find_op env c i params loc h = ((Some (http_error ri), None), h @ [answered fc
        ri])"
    by (simp add: find_op_def Let_def effective_locale_def)
qed

lemma find_no_id_http_failure:
  "(\<not> truthy_id i
    \<and> fc = fetch_call_of c (uid c @ getQueryString env (Some (spread (obj_of params)
          (locale_entry loc)))) \<lparr> init_method = Some GET, body = None, init_headers = []
          \<rparr>
    \<and> fetch_list env h fc = Resolves rl
    \<and> \<not> ok rl
   \<longrightarrow> find_op env c i params loc h = ((Some (http_error rl), None), h @ [answered
         fc rl]))"
proof (intro impI, elim conjE)
  assume p0: "\<not> truthy_id i"
  assume fc: "fc = fetch_call_of c (uid c @ getQueryString env (Some (spread (obj_of params)
        (locale_entry loc)))) \<lparr> init_method = Some GET, body = None, init_headers = []
        \<rparr>"
  assume t: "fetch_list env h fc = Resolves rl"
  assume n: "\<not> ok rl"
  have q: "request (as_StrapiResponse env) c (uid c @ getQueryString env (Some (spread (obj_of
        params) (locale_entry loc)))) \<lparr> init_method = Some GET, body = None, init_headers =
        [] \<rparr> h
           = ((Some (http_error rl), None), h @ [answered fc rl])"
    unfolding fc by (rule request_http_failure) (use t [unfolded fc] n in \<open>simp_all add:
          as_StrapiResponse_def\<close>)
  from q p0 show "find_op env c i params loc h = ((Some (http_error rl), None), h @ [answered fc
        rl])"
    by (simp add: find_op_def findMany_def Let_def effective_locale_def)
qed

lemma update_000_http_failure:
  "(fc = fetch_call_of c (uid c @ ''/'' @ template_id i @ getQueryString env (Some (spread (obj_of
        params) (locale_entry (Some (effective_locale loc)))))) \<lparr> init_method = Some PUT,
        body = Some (JSON_stringify payload), init_headers = [] \<rparr>
    \<and> fetch_item env h fc = Resolves ri
    \<and> \<not> ok ri
   \<longrightarrow> update_000 env c i payload params loc h = ((Some (http_error ri), None), h @
         [answered fc ri]))"
proof (intro impI, elim conjE)
  assume fc: "fc = fetch_call_of c (uid c @ ''/'' @ template_id i @ getQueryString env (Some
        (spread (obj_of params) (locale_entry (Some (effective_locale loc)))))) \<lparr>
        init_method = Some PUT, body = Some (JSON_stringify payload), init_headers = [] \<rparr>"
  assume t: "fetch_item env h fc = Resolves ri"
  assume n: "\<not> ok ri"
  have q: "request (as_StrapiSingleResponse env) c (uid c @ ''/'' @ template_id i @ getQueryString
        env (Some (spread (obj_of params) (locale_entry (Some (effective_locale loc)))))) \<lparr>
        init_method = Some PUT, body = Some (JSON_stringify payload), init_headers = [] \<rparr> h
           = ((Some (http_error ri), None), h @ [answered fc ri])"
    unfolding fc by (rule request_http_failure) (use t [unfolded fc] n in \<open>simp_all add:
          as_StrapiSingleResponse_def\<close>)
  from q  show "update_000 env c i payload params loc h = ((Some (http_error ri), None), h @
        [answered fc ri])"
    by (simp add: update_000_def Let_def effective_locale_def)
qed

lemma delete_000_http_failure:
  "(fc = fetch_call_of c (uid c @ ''/'' @ template_id i @ getQueryString env (Some (spread []
        (locale_entry loc)))) \<lparr> init_method = Some DELETE, body = None, init_headers = []
        \<rparr>
    \<and> fetch_item env h fc = Resolves ri
    \<and> \<not> ok ri
   \<longrightarrow> delete_000 env c i loc h = ((Some (http_error ri), None), h @ [answered fc
         ri]))"
proof (intro impI, elim conjE)
  assume fc: "fc = fetch_call_of c (uid c @ ''/'' @ template_id i @ getQueryString env (Some
        (spread [] (locale_entry loc)))) \<lparr> init_method = Some DELETE, body = None,
        init_headers = [] \<rparr>"
  assume t: "fetch_item env h fc = Resolves ri"
  assume n: "\<not> ok ri"
  have q: "request (as_StrapiSingleResponse env) c (uid c @ ''/'' @ template_id i @ getQueryString
        env (Some (spread [] (locale_entry loc)))) \<lparr> init_method = Some DELETE, body =
        None, init_headers = [] \<rparr> h
           = ((Some (http_error ri), None), h @ [answered fc ri])"
    unfolding fc by (rule request_http_failure) (use t [unfolded fc] n in \<open>simp_all add:
          as_StrapiSingleResponse_def\<close>)
  from q  show "delete_000 env c i loc h = ((Some (http_error ri), None), h @ [answered fc ri])"
    by (simp add: delete_000_def Let_def effective_locale_def)
qed

lemma update_001_http_failure:
  "(fc = fetch_call_of c ((if (effective_locale loc) = ''en'' then uid c @ ''/'' @ template_id i
        else uid c @ ''/'' @ template_id i @ ''?locale='' @ (effective_locale loc))) \<lparr>
        init_method = Some PUT, body = Some (JSON_stringify payload), init_headers = [] \<rparr>
    \<and> fetch_item env h fc = Resolves ri
    \<and> \<not> ok ri
   \<longrightarrow> update_001 env c i payload params loc h = ((Some (http_error ri), None), h @
         [answered fc ri]))"
proof (intro impI, elim conjE)
  assume fc: "fc = fetch_call_of c ((if (effective_locale loc) = ''en'' then uid c @ ''/'' @
        template_id i else uid c @ ''/'' @ template_id i @ ''?locale='' @ (effective_locale loc)))
        \<lparr> init_method = Some PUT, body = Some (JSON_stringify payload), init_headers = []
        \<rparr>"
  assume t: "fetch_item env h fc = Resolves ri"
  assume n: "\<not> ok ri"
  have q: "request (as_StrapiSingleResponse env) c ((if (effective_locale loc) = ''en'' then uid c
        @ ''/'' @ template_id i else uid c @ ''/'' @ template_id i @ ''?locale='' @
        (effective_locale loc))) \<lparr> init_method = Some PUT, body = Some (JSON_stringify
        payload), init_headers = [] \<rparr> h
           = ((Some (http_error ri), None), h @ [answered fc ri])"
    unfolding fc by (rule request_http_failure) (use t [unfolded fc] n in \<open>simp_all add:
          as_StrapiSingleResponse_def\<close>)
  from q  show "update_001 env c i payload params loc h = ((Some (http_error ri), None), h @
        [answered fc ri])"
    by (cases "effective_locale loc = ''en''") (simp_all add: update_001_def Let_def
          effective_locale_def)
qed

lemma delete_001_http_failure:
  "(fc = fetch_call_of c (uid c @ ''/'' @ template_id i) \<lparr> init_method = Some DELETE, body
        = None, init_headers = [] \<rparr>
    \<and> fetch_item env h fc = Resolves ri
    \<and> \<not> ok ri
   \<longrightarrow> delete_001 env c i h = ((Some (http_error ri), None), h @ [answered fc ri]))"
proof (intro impI, elim conjE)
  assume fc: "fc = fetch_call_of c (uid c @ ''/'' @ template_id i) \<lparr> init_method = Some
        DELETE, body = None, init_headers = [] \<rparr>"
  assume t: "fetch_item env h fc = Resolves ri"
  assume n: "\<not> ok ri"
  have q: "request (as_StrapiSingleResponse env) c (uid c @ ''/'' @ template_id i) \<lparr>
        init_method = Some DELETE, body = None, init_headers = [] \<rparr> h
           = ((Some (http_error ri), None), h @ [answered fc ri])"
    unfolding fc by (rule request_http_failure) (use t [unfolded fc] n in \<open>simp_all add:
          as_StrapiSingleResponse_def\<close>)
  from q  show "delete_001 env c i h = ((Some (http_error ri), None), h @ [answered fc ri])"
    by (simp add: delete_001_def Let_def effective_locale_def)
qed

lemma create_000_default_http_failure:
  "((effective_locale loc) = ''en''
    \<and> fc = fetch_call_of c (uid c @ getQueryString env (Some (obj_of params))) \<lparr>
          init_method = Some POST, body = Some (JSON_stringify payload), init_headers = []
          \<rparr>
    \<and> fetch_item env h fc = Resolves ri
    \<and> \<not> ok ri
   \<longrightarrow> create_000 env c payload params loc filters h = (Fulfilled (Some (http_error
         ri), None), h @ [answered fc ri]))"
proof (intro impI, elim conjE)
  assume p0: "(effective_locale loc) = ''en''"
  assume fc: "fc = fetch_call_of c (uid c @ getQueryString env (Some (obj_of params))) \<lparr>
        init_method = Some POST, body = Some (JSON_stringify payload), init_headers = [] \<rparr>"
  assume t: "fetch_item env h fc = Resolves ri"
  assume n: "\<not> ok ri"
  have q: "request (as_StrapiSingleResponse env) c (uid c @ getQueryString env (Some (obj_of
        params))) \<lparr> init_method = Some POST, body = Some (JSON_stringify payload),
        init_headers = [] \<rparr> h
           = ((Some (http_error ri), None), h @ [answered fc ri])"
    unfolding fc by (rule request_http_failure) (use t [unfolded fc] n in \<open>simp_all add:
          as_StrapiSingleResponse_def\<close>)
  from q p0 show "create_000 env c payload params loc filters h = (Fulfilled (Some (http_error
        ri), None), h @ [answered fc ri])"
    by (simp add: create_000_def discover_000_def post_collection_000_def attach_000_def Let_def
          effective_locale_def)
qed

lemma create_000_search_http_failure:
  "((effective_locale loc) \<noteq> ''en''
    \<and> fc = fetch_call_of c (uid c @ getQueryString env (Some (spread (obj_of params)
          (filters_entry filters)))) \<lparr> init_method = None, body = None, init_headers = []
          \<rparr>
    \<and> fetch_list env h fc = Resolves rl
    \<and> \<not> ok rl
   \<longrightarrow> create_000 env c payload params loc filters h = (Fulfilled (Some (http_error
         rl), None), h @ [answered fc rl]))"
proof (intro impI, elim conjE)
  assume p0: "(effective_locale loc) \<noteq> ''en''"
  assume fc: "fc = fetch_call_of c (uid c @ getQueryString env (Some (spread (obj_of params)
        (filters_entry filters)))) \<lparr> init_method = None, body = None, init_headers = []
        \<rparr>"
  assume t: "fetch_list env h fc = Resolves rl"
  assume n: "\<not> ok rl"
  have q: "request (as_StrapiResponse env) c (uid c @ getQueryString env (Some (spread (obj_of
        params) (filters_entry filters)))) \<lparr> init_method = None, body = None, init_headers
        = [] \<rparr> h
           = ((Some (http_error rl), None), h @ [answered fc rl])"
    unfolding fc by (rule request_http_failure) (use t [unfolded fc] n in \<open>simp_all add:
          as_StrapiResponse_def\<close>)
  from q p0 show "create_000 env c payload params loc filters h = (Fulfilled (Some (http_error
        rl), None), h @ [answered fc rl])"
    by (simp add: create_000_def discover_000_def post_collection_000_def attach_000_def Let_def
          effective_locale_def)
qed

lemma create_000_base_http_failure:
  "((effective_locale loc) \<noteq> ''en''
    \<and> discover_000 env c (obj_of params) filters h = ((None, enResponse), ha)
    \<and> base_documentId enResponse = None
    \<and> fc = fetch_call_of c (uid c @ getQueryString env (Some (obj_of params))) \<lparr>
          init_method = Some POST, body = Some (JSON_stringify payload), init_headers = []
          \<rparr>
    \<and> fetch_item env ha fc = Resolves ri
    \<and> \<not> ok ri
   \<longrightarrow> create_000 env c payload params loc filters h = (Fulfilled (Some (http_error
         ri), None), ha @ [answered fc ri]))"
proof (intro impI, elim conjE)
  assume p0: "(effective_locale loc) \<noteq> ''en''"
  assume p1: "discover_000 env c (obj_of params) filters h = ((None, enResponse), ha)"
  assume p2: "base_documentId enResponse = None"
  assume fc: "fc = fetch_call_of c (uid c @ getQueryString env (Some (obj_of params))) \<lparr>
        init_method = Some POST, body = Some (JSON_stringify payload), init_headers = [] \<rparr>"
  assume t: "fetch_item env ha fc = Resolves ri"
  assume n: "\<not> ok ri"
  have q: "request (as_StrapiSingleResponse env) c (uid c @ getQueryString env (Some (obj_of
        params))) \<lparr> init_method = Some POST, body = Some (JSON_stringify payload),
        init_headers = [] \<rparr> ha
           = ((Some (http_error ri), None), ha @ [answered fc ri])"
    unfolding fc by (rule request_http_failure) (use t [unfolded fc] n in \<open>simp_all add:
          as_StrapiSingleResponse_def\<close>)
  from q p0 p1 p2 show "create_000 env c payload params loc filters h = (Fulfilled (Some
        (http_error ri), None), ha @ [answered fc ri])"
    by (simp add: create_000_def discover_000_def post_collection_000_def attach_000_def Let_def
          effective_locale_def)
qed

lemma create_000_attach_found_http_failure:
  "((effective_locale loc) \<noteq> ''en''
    \<and> discover_000 env c (obj_of params) filters h = ((None, enResponse), ha)
    \<and> base_documentId enResponse = Some d
    \<and> fc = fetch_call_of c (uid c @ ''/'' @ d @ getQueryString env (Some (spread (obj_of
          params) [(''locale'', QStr (effective_locale loc))]))) \<lparr> init_method = Some POST,
          body = Some (JSON_stringify payload), init_headers = [] \<rparr>
    \<and> fetch_item env ha fc = Resolves ri
    \<and> \<not> ok ri
   \<longrightarrow> create_000 env c payload params loc filters h = (Fulfilled (Some (http_error
         ri), None), ha @ [answered fc ri]))"
proof (intro impI, elim conjE)
  assume p0: "(effective_locale loc) \<noteq> ''en''"
  assume p1: "discover_000 env c (obj_of params) filters h = ((None, enResponse), ha)"
  assume p2: "base_documentId enResponse = Some d"
  assume fc: "fc = fetch_call_of c (uid c @ ''/'' @ d @ getQueryString env (Some (spread (obj_of
        params) [(''locale'', QStr (effective_locale loc))]))) \<lparr> init_method = Some POST,
        body = Some (JSON_stringify payload), init_headers = [] \<rparr>"
  assume t: "fetch_item env ha fc = Resolves ri"
  assume n: "\<not> ok ri"
  have q: "request (as_StrapiSingleResponse env) c (uid c @ ''/'' @ d @ getQueryString env (Some
        (spread (obj_of params) [(''locale'', QStr (effective_locale loc))]))) \<lparr>
        init_method = Some POST, body = Some (JSON_stringify payload), init_headers = [] \<rparr>
        ha
           = ((Some (http_error ri), None), ha @ [answered fc ri])"
    unfolding fc by (rule request_http_failure) (use t [unfolded fc] n in \<open>simp_all add:
          as_StrapiSingleResponse_def\<close>)
  from q p0 p1 p2 show "create_000 env c payload params loc filters h = (Fulfilled (Some
        (http_error ri), None), ha @ [answered fc ri])"
    by (simp add: create_000_def discover_000_def post_collection_000_def attach_000_def Let_def
          effective_locale_def)
qed

lemma create_000_attach_created_http_failure:
  "((effective_locale loc) \<noteq> ''en''
    \<and> discover_000 env c (obj_of params) filters h = ((None, enResponse), ha)
    \<and> base_documentId enResponse = None
    \<and> post_collection_000 env c payload (getQueryString env (Some (obj_of params))) ha =
          ((None, Some x), hb)
    \<and> item_data x = Some ent
    \<and> truthy_str (documentId ent)
    \<and> fc = fetch_call_of c (uid c @ ''/'' @ the (documentId ent) @ getQueryString env (Some
          (spread (obj_of params) [(''locale'', QStr (effective_locale loc))]))) \<lparr>
          init_method = Some POST, body = Some (JSON_stringify payload), init_headers = []
          \<rparr>
    \<and> fetch_item env hb fc = Resolves ri
    \<and> \<not> ok ri
   \<longrightarrow> create_000 env c payload params loc filters h = (Fulfilled (Some (http_error
         ri), None), hb @ [answered fc ri]))"
proof (intro impI, elim conjE)
  assume p0: "(effective_locale loc) \<noteq> ''en''"
  assume p1: "discover_000 env c (obj_of params) filters h = ((None, enResponse), ha)"
  assume p2: "base_documentId enResponse = None"
  assume p3: "post_collection_000 env c payload (getQueryString env (Some (obj_of params))) ha =
        ((None, Some x), hb)"
  assume p4: "item_data x = Some ent"
  assume p5: "truthy_str (documentId ent)"
  assume fc: "fc = fetch_call_of c (uid c @ ''/'' @ the (documentId ent) @ getQueryString env
        (Some (spread (obj_of params) [(''locale'', QStr (effective_locale loc))]))) \<lparr>
        init_method = Some POST, body = Some (JSON_stringify payload), init_headers = [] \<rparr>"
  assume t: "fetch_item env hb fc = Resolves ri"
  assume n: "\<not> ok ri"
  have q: "request (as_StrapiSingleResponse env) c (uid c @ ''/'' @ the (documentId ent) @
        getQueryString env (Some (spread (obj_of params) [(''locale'', QStr (effective_locale
        loc))]))) \<lparr> init_method = Some POST, body = Some (JSON_stringify payload),
        init_headers = [] \<rparr> hb
           = ((Some (http_error ri), None), hb @ [answered fc ri])"
    unfolding fc by (rule request_http_failure) (use t [unfolded fc] n in \<open>simp_all add:
          as_StrapiSingleResponse_def\<close>)
  from q p0 p1 p2 p3 p4 p5 show "create_000 env c payload params loc filters h = (Fulfilled (Some
        (http_error ri), None), hb @ [answered fc ri])"
    by (simp add: create_000_def discover_000_def post_collection_000_def attach_000_def Let_def
          effective_locale_def)
qed

lemma create_001_default_http_failure:
  "((effective_locale loc) = ''en''
    \<and> fc = fetch_call_of c (uid c) \<lparr> init_method = Some POST, body = Some
          (JSON_stringify payload), init_headers = [] \<rparr>
    \<and> fetch_item env h fc = Resolves ri
    \<and> \<not> ok ri
   \<longrightarrow> create_001 env c payload params loc filters h = (Fulfilled (Some (http_error
         ri), None), h @ [answered fc ri]))"
proof (intro impI, elim conjE)
  assume p0: "(effective_locale loc) = ''en''"
  assume fc: "fc = fetch_call_of c (uid c) \<lparr> init_method = Some POST, body = Some
        (JSON_stringify payload), init_headers = [] \<rparr>"
  assume t: "fetch_item env h fc = Resolves ri"
  assume n: "\<not> ok ri"
  have q: "request (as_StrapiSingleResponse env) c (uid c) \<lparr> init_method = Some POST, body
        = Some (JSON_stringify payload), init_headers = [] \<rparr> h
           = ((Some (http_error ri), None), h @ [answered fc ri])"
    unfolding fc by (rule request_http_failure) (use t [unfolded fc] n in \<open>simp_all add:
          as_StrapiSingleResponse_def\<close>)
  from q p0 show "create_001 env c payload params loc filters h = (Fulfilled (Some (http_error
        ri), None), h @ [answered fc ri])"
    by (simp add: create_001_def discover_001_def post_collection_001_def attach_001_def Let_def
          effective_locale_def)
qed

lemma create_001_search_http_failure:
  "((effective_locale loc) \<noteq> ''en''
    \<and> fc = fetch_call_of c (uid c @ getQueryString env (Some (spread (spread (obj_of params)
          (filters_entry filters)) [(''locale'', QStr ''en'')]))) \<lparr> init_method = None,
          body = None, init_headers = [] \<rparr>
    \<and> fetch_list env h fc = Resolves rl
    \<and> \<not> ok rl
   \<longrightarrow> create_001 env c payload params loc filters h = (Fulfilled (Some (http_error
         rl), None), h @ [answered fc rl]))"
proof (intro impI, elim conjE)
  assume p0: "(effective_locale loc) \<noteq> ''en''"
  assume fc: "fc = fetch_call_of c (uid c @ getQueryString env (Some (spread (spread (obj_of
        params) (filters_entry filters)) [(''locale'', QStr ''en'')]))) \<lparr> init_method =
        None, body = None, init_headers = [] \<rparr>"
  assume t: "fetch_list env h fc = Resolves rl"
  assume n: "\<not> ok rl"
  have q: "request (as_StrapiResponse env) c (uid c @ getQueryString env (Some (spread (spread
        (obj_of params) (filters_entry filters)) [(''locale'', QStr ''en'')]))) \<lparr>
        init_method = None, body = None, init_headers = [] \<rparr> h
           = ((Some (http_error rl), None), h @ [answered fc rl])"
    unfolding fc by (rule request_http_failure) (use t [unfolded fc] n in \<open>simp_all add:
          as_StrapiResponse_def\<close>)
  from q p0 show "create_001 env c payload params loc filters h = (Fulfilled (Some (http_error
        rl), None), h @ [answered fc rl])"
    by (simp add: create_001_def discover_001_def post_collection_001_def attach_001_def Let_def
          effective_locale_def)
qed

lemma create_001_base_http_failure:
  "((effective_locale loc) \<noteq> ''en''
    \<and> discover_001 env c (obj_of params) filters h = ((None, enResponse), ha)
    \<and> base_documentId enResponse = None
    \<and> fc = fetch_call_of c (uid c) \<lparr> init_method = Some POST, body = Some
          (JSON_stringify (payload\<lparr> data := spread (data payload) [(''locale'', QStr
          ''en'')] \<rparr>)), init_headers = [] \<rparr>
    \<and> fetch_item env ha fc = Resolves ri
    \<and> \<not> ok ri
   \<longrightarrow> create_001 env c payload params loc filters h = (Fulfilled (Some (http_error
         ri), None), ha @ [answered fc ri]))"
proof (intro impI, elim conjE)
  assume p0: "(effective_locale loc) \<noteq> ''en''"
  assume p1: "discover_001 env c (obj_of params) filters h = ((None, enResponse), ha)"
  assume p2: "base_documentId enResponse = None"
  assume fc: "fc = fetch_call_of c (uid c) \<lparr> init_method = Some POST, body = Some
        (JSON_stringify (payload\<lparr> data := spread (data payload) [(''locale'', QStr ''en'')]
        \<rparr>)), init_headers = [] \<rparr>"
  assume t: "fetch_item env ha fc = Resolves ri"
  assume n: "\<not> ok ri"
  have q: "request (as_StrapiSingleResponse env) c (uid c) \<lparr> init_method = Some POST, body
        = Some (JSON_stringify (payload\<lparr> data := spread (data payload) [(''locale'', QStr
        ''en'')] \<rparr>)), init_headers = [] \<rparr> ha
           = ((Some (http_error ri), None), ha @ [answered fc ri])"
    unfolding fc by (rule request_http_failure) (use t [unfolded fc] n in \<open>simp_all add:
          as_StrapiSingleResponse_def\<close>)
  from q p0 p1 p2 show "create_001 env c payload params loc filters h = (Fulfilled (Some
        (http_error ri), None), ha @ [answered fc ri])"
    by (simp add: create_001_def discover_001_def post_collection_001_def attach_001_def Let_def
          effective_locale_def)
qed

lemma create_001_attach_found_http_failure:
  "((effective_locale loc) \<noteq> ''en''
    \<and> discover_001 env c (obj_of params) filters h = ((None, enResponse), ha)
    \<and> base_documentId enResponse = Some d
    \<and> fc = fetch_call_of c (uid c @ ''/'' @ d @ ''?locale='' @ (effective_locale loc))
          \<lparr> init_method = Some PUT, body = Some (JSON_stringify payload), init_headers = []
          \<rparr>
    \<and> fetch_item env ha fc = Resolves ri
    \<and> \<not> ok ri
   \<longrightarrow> create_001 env c payload params loc filters h = (Fulfilled (Some (http_error
         ri), None), ha @ [answered fc ri]))"
proof (intro impI, elim conjE)
  assume p0: "(effective_locale loc) \<noteq> ''en''"
  assume p1: "discover_001 env c (obj_of params) filters h = ((None, enResponse), ha)"
  assume p2: "base_documentId enResponse = Some d"
  assume fc: "fc = fetch_call_of c (uid c @ ''/'' @ d @ ''?locale='' @ (effective_locale loc))
        \<lparr> init_method = Some PUT, body = Some (JSON_stringify payload), init_headers = []
        \<rparr>"
  assume t: "fetch_item env ha fc = Resolves ri"
  assume n: "\<not> ok ri"
  have q: "request (as_StrapiSingleResponse env) c (uid c @ ''/'' @ d @ ''?locale='' @
        (effective_locale loc)) \<lparr> init_method = Some PUT, body = Some (JSON_stringify
        payload), init_headers = [] \<rparr> ha
           = ((Some (http_error ri), None), ha @ [answered fc ri])"
    unfolding fc by (rule request_http_failure) (use t [unfolded fc] n in \<open>simp_all add:
          as_StrapiSingleResponse_def\<close>)
  from q p0 p1 p2 show "create_001 env c payload params loc filters h = (Fulfilled (Some
        (http_error ri), None), ha @ [answered fc ri])"
    by (simp add: create_001_def discover_001_def post_collection_001_def attach_001_def Let_def
          effective_locale_def)
qed

lemma create_001_attach_created_http_failure:
  "((effective_locale loc) \<noteq> ''en''
    \<and> discover_001 env c (obj_of params) filters h = ((None, enResponse), ha)
    \<and> base_documentId enResponse = None
    \<and> post_collection_001 env c (payload\<lparr> data := spread (data payload) [(''locale'',
          QStr ''en'')] \<rparr>) ha = ((None, Some x), hb)
    \<and> item_data x = Some ent
    \<and> truthy_str (documentId ent)
    \<and> fc = fetch_call_of c (uid c @ ''/'' @ the (documentId ent) @ ''?locale='' @
          (effective_locale loc)) \<lparr> init_method = Some PUT, body = Some (JSON_stringify
          payload), init_headers = [] \<rparr>
    \<and> fetch_item env hb fc = Resolves ri
    \<and> \<not> ok ri
   \<longrightarrow> create_001 env c payload params loc filters h = (Fulfilled (Some (http_error
         ri), None), hb @ [answered fc ri]))"
proof (intro impI, elim conjE)
  assume p0: "(effective_locale loc) \<noteq> ''en''"
  assume p1: "discover_001 env c (obj_of params) filters h = ((None, enResponse), ha)"
  assume p2: "base_documentId enResponse = None"
  assume p3: "post_collection_001 env c (payload\<lparr> data := spread (data payload)
        [(''locale'', QStr ''en'')] \<rparr>) ha = ((None, Some x), hb)"
  assume p4: "item_data x = Some ent"
  assume p5: "truthy_str (documentId ent)"
  assume fc: "fc = fetch_call_of c (uid c @ ''/'' @ the (documentId ent) @ ''?locale='' @
        (effective_locale loc)) \<lparr> init_method = Some PUT, body = Some (JSON_stringify
        payload), init_headers = [] \<rparr>"
  assume t: "fetch_item env hb fc = Resolves ri"
  assume n: "\<not> ok ri"
  have q: "request (as_StrapiSingleResponse env) c (uid c @ ''/'' @ the (documentId ent) @
        ''?locale='' @ (effective_locale loc)) \<lparr> init_method = Some PUT, body = Some
        (JSON_stringify payload), init_headers = [] \<rparr> hb
           = ((Some (http_error ri), None), hb @ [answered fc ri])"
    unfolding fc by (rule request_http_failure) (use t [unfolded fc] n in \<open>simp_all add:
          as_StrapiSingleResponse_def\<close>)
  from q p0 p1 p2 p3 p4 p5 show "create_001 env c payload params loc filters h = (Fulfilled (Some
        (http_error ri), None), hb @ [answered fc ri])"
    by (simp add: create_001_def discover_001_def post_collection_001_def attach_001_def Let_def
          effective_locale_def)
qed

lemma upsert_000_search_http_failure:
  "(fc = fetch_call_of c (uid c @ getQueryString env (Some (spread (obj_of (Some (spread (spread
        (spread (obj_of params) (filters_entry filters)) [(''pagination'', QObj [(''pageSize'',
        QNum 1)])]) (locale_entry (Some (effective_locale loc)))))) (locale_entry (Some
        (effective_locale loc)))))) \<lparr> init_method = Some GET, body = None, init_headers =
        [] \<rparr>
    \<and> fetch_list env h fc = Resolves rl
    \<and> \<not> ok rl
   \<longrightarrow> upsert_000 env c loc payload filters params h = (Fulfilled (Some (http_error
         rl), None), h @ [answered fc rl]))"
proof (intro impI, elim conjE)
  assume fc: "fc = fetch_call_of c (uid c @ getQueryString env (Some (spread (obj_of (Some (spread
        (spread (spread (obj_of params) (filters_entry filters)) [(''pagination'', QObj
        [(''pageSize'', QNum 1)])]) (locale_entry (Some (effective_locale loc)))))) (locale_entry
        (Some (effective_locale loc)))))) \<lparr> init_method = Some GET, body = None,
        init_headers = [] \<rparr>"
  assume t: "fetch_list env h fc = Resolves rl"
  assume n: "\<not> ok rl"
  have q: "request (as_StrapiResponse env) c (uid c @ getQueryString env (Some (spread (obj_of
        (Some (spread (spread (spread (obj_of params) (filters_entry filters)) [(''pagination'',
        QObj [(''pageSize'', QNum 1)])]) (locale_entry (Some (effective_locale loc))))))
        (locale_entry (Some (effective_locale loc)))))) \<lparr> init_method = Some GET, body =
        None, init_headers = [] \<rparr> h
           = ((Some (http_error rl), None), h @ [answered fc rl])"
    unfolding fc by (rule request_http_failure) (use t [unfolded fc] n in \<open>simp_all add:
          as_StrapiResponse_def\<close>)
  from q  show "upsert_000 env c loc payload filters params h = (Fulfilled (Some (http_error rl),
        None), h @ [answered fc rl])"
    by (simp add: upsert_000_def findMany_def Let_def effective_locale_def)
qed

lemma upsert_000_update_http_failure:
  "(findMany env c (Some (spread (spread (spread (obj_of params) (filters_entry filters))
        [(''pagination'', QObj [(''pageSize'', QNum 1)])]) (locale_entry (Some (effective_locale
        loc))))) (Some (effective_locale loc)) h = ((None, Some (m # rest)), ha)
    \<and> fc = fetch_call_of c (uid c @ ''/'' @ template_id (case documentId m of Some d
          \<Rightarrow> IdStr d | None \<Rightarrow> IdUndefined) @ getQueryString env (Some
          (spread (obj_of params) (locale_entry (Some (effective_locale loc)))))) \<lparr>
          init_method = Some PUT, body = Some (JSON_stringify payload), init_headers = [] \<rparr>
    \<and> fetch_item env ha fc = Resolves ri
    \<and> \<not> ok ri
   \<longrightarrow> upsert_000 env c loc payload filters params h = (Fulfilled (Some (http_error
         ri), None), ha @ [answered fc ri]))"
proof (intro impI, elim conjE)
  assume p0: "findMany env c (Some (spread (spread (spread (obj_of params) (filters_entry
        filters)) [(''pagination'', QObj [(''pageSize'', QNum 1)])]) (locale_entry (Some
        (effective_locale loc))))) (Some (effective_locale loc)) h = ((None, Some (m # rest)),
        ha)"
  assume fc: "fc = fetch_call_of c (uid c @ ''/'' @ template_id (case documentId m of Some d
        \<Rightarrow> IdStr d | None \<Rightarrow> IdUndefined) @ getQueryString env (Some (spread
        (obj_of params) (locale_entry (Some (effective_locale loc)))))) \<lparr> init_method =
        Some PUT, body = Some (JSON_stringify payload), init_headers = [] \<rparr>"
  assume t: "fetch_item env ha fc = Resolves ri"
  assume n: "\<not> ok ri"
  have q: "request (as_StrapiSingleResponse env) c (uid c @ ''/'' @ template_id (case documentId m
        of Some d \<Rightarrow> IdStr d | None \<Rightarrow> IdUndefined) @ getQueryString env
        (Some (spread (obj_of params) (locale_entry (Some (effective_locale loc)))))) \<lparr>
        init_method = Some PUT, body = Some (JSON_stringify payload), init_headers = [] \<rparr>
        ha
           = ((Some (http_error ri), None), ha @ [answered fc ri])"
    unfolding fc by (rule request_http_failure) (use t [unfolded fc] n in \<open>simp_all add:
          as_StrapiSingleResponse_def\<close>)
  from q p0 show "upsert_000 env c loc payload filters params h = (Fulfilled (Some (http_error
        ri), None), ha @ [answered fc ri])"
    by (cases "documentId m") (simp_all add: upsert_000_def update_000_def obj_of_Some Let_def
          effective_locale_def)
qed

lemma upsert_000_delegates_create:
  "(findMany env c (Some (spread (spread (spread (obj_of params) (filters_entry filters))
        [(''pagination'', QObj [(''pageSize'', QNum 1)])]) (locale_entry (Some (effective_locale
        loc))))) (Some (effective_locale loc)) h = ((None, Some []), ha)
   \<longrightarrow> upsert_000 env c loc payload filters params h = create_000 env c payload
         (Some (obj_of params)) (Some (effective_locale loc)) filters ha)"
  by (simp add: upsert_000_def Let_def effective_locale_def)

lemma upsert_001_search_http_failure:
  "(fc = fetch_call_of c (uid c @ getQueryString env (Some (spread (obj_of (Some (spread (spread
        (spread (obj_of params) (filters_entry filters)) [(''pagination'', QObj [(''pageSize'',
        QNum 1)])]) (locale_entry (Some (effective_locale loc)))))) (locale_entry (Some
        (effective_locale loc)))))) \<lparr> init_method = Some GET, body = None, init_headers =
        [] \<rparr>
    \<and> fetch_list env h fc = Resolves rl
    \<and> \<not> ok rl
   \<longrightarrow> upsert_001 env c payload filters params loc h = (Fulfilled (Some (http_error
         rl), None), h @ [answered fc rl]))"
proof (intro impI, elim conjE)
  assume fc: "fc = fetch_call_of c (uid c @ getQueryString env (Some (spread (obj_of (Some (spread
        (spread (spread (obj_of params) (filters_entry filters)) [(''pagination'', QObj
        [(''pageSize'', QNum 1)])]) (locale_entry (Some (effective_locale loc)))))) (locale_entry
        (Some (effective_locale loc)))))) \<lparr> init_method = Some GET, body = None,
        init_headers = [] \<rparr>"
  assume t: "fetch_list env h fc = Resolves rl"
  assume n: "\<not> ok rl"
  have q: "request (as_StrapiResponse env) c (uid c @ getQueryString env (Some (spread (obj_of
        (Some (spread (spread (spread (obj_of params) (filters_entry filters)) [(''pagination'',
        QObj [(''pageSize'', QNum 1)])]) (locale_entry (Some (effective_locale loc))))))
        (locale_entry (Some (effective_locale loc)))))) \<lparr> init_method = Some GET, body =
        None, init_headers = [] \<rparr> h
           = ((Some (http_error rl), None), h @ [answered fc rl])"
    unfolding fc by (rule request_http_failure) (use t [unfolded fc] n in \<open>simp_all add:
          as_StrapiResponse_def\<close>)
  from q  show "upsert_001 env c payload filters params loc h = (Fulfilled (Some (http_error rl),
        None), h @ [answered fc rl])"
    by (simp add: upsert_001_def findMany_def Let_def effective_locale_def)
qed

lemma upsert_001_update_http_failure:
  "(findMany env c (Some (spread (spread (spread (obj_of params) (filters_entry filters))
        [(''pagination'', QObj [(''pageSize'', QNum 1)])]) (locale_entry (Some (effective_locale
        loc))))) (Some (effective_locale loc)) h = ((None, Some (m # rest)), ha)
    \<and> fc = fetch_call_of c ((if (effective_locale loc) = ''en'' then uid c @ ''/'' @
          template_id (case documentId m of Some d \<Rightarrow> IdStr d | None \<Rightarrow>
          entity_id m) else uid c @ ''/'' @ template_id (case documentId m of Some d \<Rightarrow>
          IdStr d | None \<Rightarrow> entity_id m) @ ''?locale='' @ (effective_locale loc)))
          \<lparr> init_method = Some PUT, body = Some (JSON_stringify payload), init_headers = []
          \<rparr>
    \<and> fetch_item env ha fc = Resolves ri
    \<and> \<not> ok ri
   \<longrightarrow> upsert_001 env c payload filters params loc h = (Fulfilled (Some (http_error
         ri), None), ha @ [answered fc ri]))"
proof (intro impI, elim conjE)
  assume p0: "findMany env c (Some (spread (spread (spread (obj_of params) (filters_entry
        filters)) [(''pagination'', QObj [(''pageSize'', QNum 1)])]) (locale_entry (Some
        (effective_locale loc))))) (Some (effective_locale loc)) h = ((None, Some (m # rest)),
        ha)"
  assume fc: "fc = fetch_call_of c ((if (effective_locale loc) = ''en'' then uid c @ ''/'' @
        template_id (case documentId m of Some d \<Rightarrow> IdStr d | None \<Rightarrow>
        entity_id m) else uid c @ ''/'' @ template_id (case documentId m of Some d \<Rightarrow>
        IdStr d | None \<Rightarrow> entity_id m) @ ''?locale='' @ (effective_locale loc)))
        \<lparr> init_method = Some PUT, body = Some (JSON_stringify payload), init_headers = []
        \<rparr>"
  assume t: "fetch_item env ha fc = Resolves ri"
  assume n: "\<not> ok ri"
  have q: "request (as_StrapiSingleResponse env) c ((if (effective_locale loc) = ''en'' then uid c
        @ ''/'' @ template_id (case documentId m of Some d \<Rightarrow> IdStr d | None
        \<Rightarrow> entity_id m) else uid c @ ''/'' @ template_id (case documentId m of Some d
        \<Rightarrow> IdStr d | None \<Rightarrow> entity_id m) @ ''?locale='' @ (effective_locale
        loc))) \<lparr> init_method = Some PUT, body = Some (JSON_stringify payload), init_headers
        = [] \<rparr> ha
           = ((Some (http_error ri), None), ha @ [answered fc ri])"
    unfolding fc by (rule request_http_failure) (use t [unfolded fc] n in \<open>simp_all add:
          as_StrapiSingleResponse_def\<close>)
  from q p0 show "upsert_001 env c payload filters params loc h = (Fulfilled (Some (http_error
        ri), None), ha @ [answered fc ri])"
    by (cases "effective_locale loc = ''en''") (simp_all add: upsert_001_def update_001_def
          obj_of_Some Let_def effective_locale_def)
qed

lemma upsert_001_delegates_create:
  "(findMany env c (Some (spread (spread (spread (obj_of params) (filters_entry filters))
        [(''pagination'', QObj [(''pageSize'', QNum 1)])]) (locale_entry (Some (effective_locale
        loc))))) (Some (effective_locale loc)) h = ((None, Some []), ha)
   \<longrightarrow> upsert_001 env c payload filters params loc h = create_001 env c payload
         (Some (obj_of params)) (Some (effective_locale loc)) filters ha)"
  by (simp add: upsert_001_def Let_def effective_locale_def)

text \<open>
  C4. A response whose status is outside 200..299 makes \<open>request\<close> return, after
  exactly one call of the transport, an error whose status is that code and whose
  message is \<open>Strapi API error: <code> <status text>\<close>, with null data. Every
  operation of both variants stops at the first such step: no call follows it, and the
  operation returns that step's error with null data. For each operation and each of its
  steps this is stated from the transport's own answer: when the transport answers the
  call of that step with such a response, the operation returns the error built from that
  response with null data, and its log is the log before that call followed by the one
  event of that call. An upsert whose search finds nothing continues as the create.
\<close>

theorem http_failure_returned_once:
  "(transport R h fc = Resolves r \<and> \<not> ok r
      \<and> fc = \<lparr> call_url = baseURL c @ ''/'' @ strip_leading_slashes endpoint,
                call_method = init_method options, call_body = body options,
                call_headers = spread (headers c) (init_headers options) \<rparr>
     \<longrightarrow> request R c endpoint options h =
           ((Some \<lparr> message = ''Strapi API error: '' @ show_nat (resp_status r) @ '' ''
                               @ resp_statusText r,
                    status = Some (resp_status r) \<rparr>, None),
            h @ [\<lparr> call = fc, outcome = Resolves (map_response (\<lambda>_. ()) r)
                  \<rparr>]))
   \<and> stops_at http_failure h (Fulfilled (fst (findMany env c params loc h)))
         (snd (findMany env c params loc h))
   \<and> stops_at http_failure h (Fulfilled (fst (find_op env c id0 params loc h)))
         (snd (find_op env c id0 params loc h))
   \<and> stops_at http_failure h (fst (create_000 env c payload params loc filters h))
         (snd (create_000 env c payload params loc filters h))
   \<and> stops_at http_failure h (Fulfilled (fst (update_000 env c id0 payload params loc h)))
         (snd (update_000 env c id0 payload params loc h))
   \<and> stops_at http_failure h (Fulfilled (fst (delete_000 env c id0 loc h)))
         (snd (delete_000 env c id0 loc h))
   \<and> stops_at http_failure h (fst (upsert_000 env c loc payload filters params h))
         (snd (upsert_000 env c loc payload filters params h))
   \<and> stops_at http_failure h (fst (create_001 env c payload params loc filters h))
         (snd (create_001 env c payload params loc filters h))
   \<and> stops_at http_failure h (Fulfilled (fst (update_001 env c id0 payload params loc h)))
         (snd (update_001 env c id0 payload params loc h))
   \<and> stops_at http_failure h (Fulfilled (fst (delete_001 env c id0 h)))
         (snd (delete_001 env c id0 h))
   \<and> stops_at http_failure h (fst (upsert_001 env c payload filters params loc h))
         (snd (upsert_001 env c payload filters params loc h))
   \<and> (fc = fetch_call_of c (uid c @ getQueryString env (Some (spread (obj_of params)
         (locale_entry loc)))) \<lparr> init_method = Some GET, body = None, init_headers = []
         \<rparr>
     \<and> fetch_list env h fc = Resolves rl
     \<and> \<not> ok rl
    \<longrightarrow> findMany env c params loc h = ((Some (http_error rl), None), h @ [answered
          fc rl]))
   \<and> (truthy_id i
     \<and> fc = fetch_call_of c (uid c @ ''/'' @ template_id i @ getQueryString env (Some (spread
           (obj_of params) (locale_entry loc)))) \<lparr> init_method = Some GET, body = None,
           init_headers = [] \<rparr>
     \<and> fetch_item env h fc = Resolves ri
     \<and> \<not> ok ri
    \<longrightarrow> find_op env c i params loc h = ((Some (http_error ri), None), h @ [answered
          fc ri]))
   \<and> (\<not> truthy_id i
     \<and> fc = fetch_call_of c (uid c @ getQueryString env (Some (spread (obj_of params)
           (locale_entry loc)))) \<lparr> init_method = Some GET, body = None, init_headers = []
           \<rparr>
     \<and> fetch_list env h fc = Resolves rl
     \<and> \<not> ok rl
    \<longrightarrow> find_op env c i params loc h = ((Some (http_error rl), None), h @ [answered
          fc rl]))
   \<and> (fc = fetch_call_of c (uid c @ ''/'' @ template_id i @ getQueryString env (Some (spread
         (obj_of params) (locale_entry (Some (effective_locale loc)))))) \<lparr> init_method =
         Some PUT, body = Some (JSON_stringify payload), init_headers = [] \<rparr>
     \<and> fetch_item env h fc = Resolves ri
     \<and> \<not> ok ri
    \<longrightarrow> update_000 env c i payload params loc h = ((Some (http_error ri), None), h @
          [answered fc ri]))
   \<and> (fc = fetch_call_of c (uid c @ ''/'' @ template_id i @ getQueryString env (Some (spread
         [] (locale_entry loc)))) \<lparr> init_method = Some DELETE, body = None, init_headers =
         [] \<rparr>
     \<and> fetch_item env h fc = Resolves ri
     \<and> \<not> ok ri
    \<longrightarrow> delete_000 env c i loc h = ((Some (http_error ri), None), h @ [answered fc
          ri]))
   \<and> (fc = fetch_call_of c ((if (effective_locale loc) = ''en'' then uid c @ ''/'' @
         template_id i else uid c @ ''/'' @ template_id i @ ''?locale='' @ (effective_locale
         loc))) \<lparr> init_method = Some PUT, body = Some (JSON_stringify payload),
         init_headers = [] \<rparr>
     \<and> fetch_item env h fc = Resolves ri
     \<and> \<not> ok ri
    \<longrightarrow> update_001 env c i payload params loc h = ((Some (http_error ri), None), h @
          [answered fc ri]))
   \<and> (fc = fetch_call_of c (uid c @ ''/'' @ template_id i) \<lparr> init_method = Some
         DELETE, body = None, init_headers = [] \<rparr>
     \<and> fetch_item env h fc = Resolves ri
     \<and> \<not> ok ri
    \<longrightarrow> delete_001 env c i h = ((Some (http_error ri), None), h @ [answered fc ri]))
   \<and> ((effective_locale loc) = ''en''
     \<and> fc = fetch_call_of c (uid c @ getQueryString env (Some (obj_of params))) \<lparr>
           init_method = Some POST, body = Some (JSON_stringify payload), init_headers = []
           \<rparr>
     \<and> fetch_item env h fc = Resolves ri
     \<and> \<not> ok ri
    \<longrightarrow> create_000 env c payload params loc filters h = (Fulfilled (Some (http_error
          ri), None), h @ [answered fc ri]))
   \<and> ((effective_locale loc) \<noteq> ''en''
     \<and> fc = fetch_call_of c (uid c @ getQueryString env (Some (spread (obj_of params)
           (filters_entry filters)))) \<lparr> init_method = None, body = None, init_headers = []
           \<rparr>
     \<and> fetch_list env h fc = Resolves rl
     \<and> \<not> ok rl
    \<longrightarrow> create_000 env c payload params loc filters h = (Fulfilled (Some (http_error
          rl), None), h @ [answered fc rl]))
   \<and> ((effective_locale loc) \<noteq> ''en''
     \<and> discover_000 env c (obj_of params) filters h = ((None, enResponse), ha)
     \<and> base_documentId enResponse = None
     \<and> fc = fetch_call_of c (uid c @ getQueryString env (Some (obj_of params))) \<lparr>
           init_method = Some POST, body = Some (JSON_stringify payload), init_headers = []
           \<rparr>
     \<and> fetch_item env ha fc = Resolves ri
     \<and> \<not> ok ri
    \<longrightarrow> create_000 env c payload params loc filters h = (Fulfilled (Some (http_error
          ri), None), ha @ [answered fc ri]))
   \<and> ((effective_locale loc) \<noteq> ''en''
     \<and> discover_000 env c (obj_of params) filters h = ((None, enResponse), ha)
     \<and> base_documentId enResponse = Some d
     \<and> fc = fetch_call_of c (uid c @ ''/'' @ d @ getQueryString env (Some (spread (obj_of
           params) [(''locale'', QStr (effective_locale loc))]))) \<lparr> init_method = Some
           POST, body = Some (JSON_stringify payload), init_headers = [] \<rparr>
     \<and> fetch_item env ha fc = Resolves ri
     \<and> \<not> ok ri
    \<longrightarrow> create_000 env c payload params loc filters h = (Fulfilled (Some (http_error
          ri), None), ha @ [answered fc ri]))
   \<and> ((effective_locale loc) \<noteq> ''en''
     \<and> discover_000 env c (obj_of params) filters h = ((None, enResponse), ha)
     \<and> base_documentId enResponse = None
     \<and> post_collection_000 env c payload (getQueryString env (Some (obj_of params))) ha =
           ((None, Some x), hb)
     \<and> item_data x = Some ent
     \<and> truthy_str (documentId ent)
     \<and> fc = fetch_call_of c (uid c @ ''/'' @ the (documentId ent) @ getQueryString env (Some
           (spread (obj_of params) [(''locale'', QStr (effective_locale loc))]))) \<lparr>
           init_method = Some POST, body = Some (JSON_stringify payload), init_headers = []
           \<rparr>
     \<and> fetch_item env hb fc = Resolves ri
     \<and> \<not> ok ri
    \<longrightarrow> create_000 env c payload params loc filters h = (Fulfilled (Some (http_error
          ri), None), hb @ [answered fc ri]))
   \<and> ((effective_locale loc) = ''en''
     \<and> fc = fetch_call_of c (uid c) \<lparr> init_method = Some POST, body = Some
           (JSON_stringify payload), init_headers = [] \<rparr>
     \<and> fetch_item env h fc = Resolves ri
     \<and> \<not> ok ri
    \<longrightarrow> create_001 env c payload params loc filters h = (Fulfilled (Some (http_error
          ri), None), h @ [answered fc ri]))
   \<and> ((effective_locale loc) \<noteq> ''en''
     \<and> fc = fetch_call_of c (uid c @ getQueryString env (Some (spread (spread (obj_of params)
           (filters_entry filters)) [(''locale'', QStr ''en'')]))) \<lparr> init_method = None,
           body = None, init_headers = [] \<rparr>
     \<and> fetch_list env h fc = Resolves rl
     \<and> \<not> ok rl
    \<longrightarrow> create_001 env c payload params loc filters h = (Fulfilled (Some (http_error
          rl), None), h @ [answered fc rl]))
   \<and> ((effective_locale loc) \<noteq> ''en''
     \<and> discover_001 env c (obj_of params) filters h = ((None, enResponse), ha)
     \<and> base_documentId enResponse = None
     \<and> fc = fetch_call_of c (uid c) \<lparr> init_method = Some POST, body = Some
           (JSON_stringify (payload\<lparr> data := spread (data payload) [(''locale'', QStr
           ''en'')] \<rparr>)), init_headers = [] \<rparr>
     \<and> fetch_item env ha fc = Resolves ri
     \<and> \<not> ok ri
    \<longrightarrow> create_001 env c payload params loc filters h = (Fulfilled (Some (http_error
          ri), None), ha @ [answered fc ri]))
   \<and> ((effective_locale loc) \<noteq> ''en''
     \<and> discover_001 env c (obj_of params) filters h = ((None, enResponse), ha)
     \<and> base_documentId enResponse = Some d
     \<and> fc = fetch_call_of c (uid c @ ''/'' @ d @ ''?locale='' @ (effective_locale loc))
           \<lparr> init_method = Some PUT, body = Some (JSON_stringify payload), init_headers =
           [] \<rparr>
     \<and> fetch_item env ha fc = Resolves ri
     \<and> \<not> ok ri
    \<longrightarrow> create_001 env c payload params loc filters h = (Fulfilled (Some (http_error
          ri), None), ha @ [answered fc ri]))
   \<and> ((effective_locale loc) \<noteq> ''en''
     \<and> discover_001 env c (obj_of params) filters h = ((None, enResponse), ha)
     \<and> base_documentId enResponse = None
     \<and> post_collection_001 env c (payload\<lparr> data := spread (data payload) [(''locale'',
           QStr ''en'')] \<rparr>) ha = ((None, Some x), hb)
     \<and> item_data x = Some ent
     \<and> truthy_str (documentId ent)
     \<and> fc = fetch_call_of c (uid c @ ''/'' @ the (documentId ent) @ ''?locale='' @
           (effective_locale loc)) \<lparr> init_method = Some PUT, body = Some (JSON_stringify
           payload), init_headers = [] \<rparr>
     \<and> fetch_item env hb fc = Resolves ri
     \<and> \<not> ok ri
    \<longrightarrow> create_001 env c payload params loc filters h = (Fulfilled (Some (http_error
          ri), None), hb @ [answered fc ri]))
   \<and> (fc = fetch_call_of c (uid c @ getQueryString env (Some (spread (obj_of (Some (spread
         (spread (spread (obj_of params) (filters_entry filters)) [(''pagination'', QObj
         [(''pageSize'', QNum 1)])]) (locale_entry (Some (effective_locale loc)))))) (locale_entry
         (Some (effective_locale loc)))))) \<lparr> init_method = Some GET, body = None,
         init_headers = [] \<rparr>
     \<and> fetch_list env h fc = Resolves rl
     \<and> \<not> ok rl
    \<longrightarrow> upsert_000 env c loc payload filters params h = (Fulfilled (Some (http_error
          rl), None), h @ [answered fc rl]))
   \<and> (findMany env c (Some (spread (spread (spread (obj_of params) (filters_entry filters))
         [(''pagination'', QObj [(''pageSize'', QNum 1)])]) (locale_entry (Some (effective_locale
         loc))))) (Some (effective_locale loc)) h = ((None, Some (m # rest)), ha)
     \<and> fc = fetch_call_of c (uid c @ ''/'' @ template_id (case documentId m of Some d
           \<Rightarrow> IdStr d | None \<Rightarrow> IdUndefined) @ getQueryString env (Some
           (spread (obj_of params) (locale_entry (Some (effective_locale loc)))))) \<lparr>
           init_method = Some PUT, body = Some (JSON_stringify payload), init_headers = []
           \<rparr>
     \<and> fetch_item env ha fc = Resolves ri
     \<and> \<not> ok ri
    \<longrightarrow> upsert_000 env c loc payload filters params h = (Fulfilled (Some (http_error
          ri), None), ha @ [answered fc ri]))
   \<and> (findMany env c (Some (spread (spread (spread (obj_of params) (filters_entry filters))
         [(''pagination'', QObj [(''pageSize'', QNum 1)])]) (locale_entry (Some (effective_locale
         loc))))) (Some (effective_locale loc)) h = ((None, Some []), ha)
    \<longrightarrow> upsert_000 env c loc payload filters params h = create_000 env c payload
          (Some (obj_of params)) (Some (effective_locale loc)) filters ha)
   \<and> (fc = fetch_call_of c (uid c @ getQueryString env (Some (spread (obj_of (Some (spread
         (spread (spread (obj_of params) (filters_entry filters)) [(''pagination'', QObj
         [(''pageSize'', QNum 1)])]) (locale_entry (Some (effective_locale loc)))))) (locale_entry
         (Some (effective_locale loc)))))) \<lparr> init_method = Some GET, body = None,
         init_headers = [] \<rparr>
     \<and> fetch_list env h fc = Resolves rl
     \<and> \<not> ok rl
    \<longrightarrow> upsert_001 env c payload filters params loc h = (Fulfilled (Some (http_error
          rl), None), h @ [answered fc rl]))
   \<and> (findMany env c (Some (spread (spread (spread (obj_of params) (filters_entry filters))
         [(''pagination'', QObj [(''pageSize'', QNum 1)])]) (locale_entry (Some (effective_locale
         loc))))) (Some (effective_locale loc)) h = ((None, Some (m # rest)), ha)
     \<and> fc = fetch_call_of c ((if (effective_locale loc) = ''en'' then uid c @ ''/'' @
           template_id (case documentId m of Some d \<Rightarrow> IdStr d | None \<Rightarrow>
           entity_id m) else uid c @ ''/'' @ template_id (case documentId m of Some d
           \<Rightarrow> IdStr d | None \<Rightarrow> entity_id m) @ ''?locale='' @
           (effective_locale loc))) \<lparr> init_method = Some PUT, body = Some (JSON_stringify
           payload), init_headers = [] \<rparr>
     \<and> fetch_item env ha fc = Resolves ri
     \<and> \<not> ok ri
    \<longrightarrow> upsert_001 env c payload filters params loc h = (Fulfilled (Some (http_error
          ri), None), ha @ [answered fc ri]))
   \<and> (findMany env c (Some (spread (spread (spread (obj_of params) (filters_entry filters))
         [(''pagination'', QObj [(''pageSize'', QNum 1)])]) (locale_entry (Some (effective_locale
         loc))))) (Some (effective_locale loc)) h = ((None, Some []), ha)
    \<longrightarrow> upsert_001 env c payload filters params loc h = create_001 env c payload
          (Some (obj_of params)) (Some (effective_locale loc)) filters ha)"
proof -
  have r: "transport R h fc = Resolves r \<and> \<not> ok r
      \<and> fc = \<lparr> call_url = baseURL c @ ''/'' @ strip_leading_slashes endpoint,
                call_method = init_method options, call_body = body options,
                call_headers = spread (headers c) (init_headers options) \<rparr>
     \<longrightarrow> request R c endpoint options h =
           ((Some \<lparr> message = ''Strapi API error: '' @ show_nat (resp_status r) @ '' ''
                               @ resp_statusText r,
                    status = Some (resp_status r) \<rparr>, None),
            h @ [\<lparr> call = fc, outcome = Resolves (map_response (\<lambda>_. ()) r)
                  \<rparr>])"
    using request_not_ok [of R h fc r c endpoint options] by blast
  note w = stops_weaken [where cls = http_failure, OF _ http_failure_step]
  show ?thesis
    by (intro conjI r w findMany_stops find_stops create_000_stops update_000_stops
          delete_000_stops upsert_000_stops create_001_stops update_001_stops
          delete_001_stops upsert_001_stops
          findMany_http_failure find_id_http_failure find_no_id_http_failure
                update_000_http_failure delete_000_http_failure update_001_http_failure
                delete_001_http_failure create_000_default_http_failure
                create_000_search_http_failure create_000_base_http_failure
                create_000_attach_found_http_failure create_000_attach_created_http_failure
          create_001_default_http_failure
          create_001_search_http_failure
          create_001_base_http_failure
          create_001_attach_found_http_failure
          create_001_attach_created_http_failure
          upsert_000_search_http_failure
          upsert_000_update_http_failure
          upsert_000_delegates_create upsert_001_search_http_failure
                upsert_001_update_http_failure upsert_001_delegates_create)
qed

theorem http_failure_returned_once_witness:
  "request (as_StrapiResponse host_not_found) example_client ''/items''
       \<lparr> init_method = Some GET, body = None, init_headers = [] \<rparr> []
     = ((Some \<lparr> message = ''Strapi API error: 404 Not Found'', status = Some 404 \<rparr>,
           None),
        [\<lparr> call = \<lparr> call_url = ''http://h/api/items'', call_method = Some GET,
                    call_body = None,
                    call_headers = [(''Content-Type'', ''application/json'')] \<rparr>,
            outcome = Resolves (Response 404 ''Not Found'' (ParseFailure ''no body'')) \<rparr>])
   \<and> stops_at http_failure []
         (fst (create_000 host_base_create_fails example_client example_payload None
                 (Some ''fr'') None []))
         (snd (create_000 host_base_create_fails example_client example_payload None
                 (Some ''fr'') None []))
   \<and> fst (create_000 host_base_create_fails example_client example_payload None
                 (Some ''fr'') None [])
       = Fulfilled (Some \<lparr> message = ''Strapi API error: 500 Internal Server Error'',
                           status = Some 500 \<rparr>, None)
   \<and> map http_failure (snd (create_000 host_base_create_fails example_client example_payload
                 None (Some ''fr'') None []))
       = [None, Some \<lparr> message = ''Strapi API error: 500 Internal Server Error'',
                        status = Some 500 \<rparr>]
   \<and> update_001 host_not_found example_client (IdNum 1) example_payload None None []
       = ((Some \<lparr> message = ''Strapi API error: 404 Not Found'', status = Some 404
             \<rparr>, None),
          [\<lparr> call = \<lparr> call_url = ''http://h/api/items/1'', call_method = Some PUT,
                      call_body = Some (JSON_stringify example_payload),
                      call_headers = [(''Content-Type'', ''application/json'')] \<rparr>,
              outcome = Resolves (Response 404 ''Not Found'' (ParseFailure ''no body''))
                    \<rparr>])
   \<and> upsert_000 host_not_found example_client None example_payload None None []
       = (Fulfilled (Some \<lparr> message = ''Strapi API error: 404 Not Found'',
                           status = Some 404 \<rparr>, None),
          [\<lparr> call = \<lparr> call_url = ''http://h/api/items?pagination%5BpageSize%5D=1'',
                      call_method = Some GET, call_body = None,
                      call_headers = [(''Content-Type'', ''application/json'')] \<rparr>,
              outcome = Resolves (Response 404 ''Not Found'' (ParseFailure ''no body''))
                    \<rparr>])
   \<and> create_001 host_base_create_fails example_client example_payload None (Some ''fr'')
         None []
       = (Fulfilled (Some \<lparr> message = ''Strapi API error: 500 Internal Server Error'',
                           status = Some 500 \<rparr>, None),
          [\<lparr> call = \<lparr> call_url = ''http://h/api/items?locale=en'', call_method =
                None,
                      call_body = None,
                      call_headers = [(''Content-Type'', ''application/json'')] \<rparr>,
              outcome = Resolves (Response 200 ''OK'' (Parsed ())) \<rparr>,
           \<lparr> call = \<lparr> call_url = ''http://h/api/items'', call_method = Some POST,
                      call_body = Some (JSON_stringify
                        \<lparr> data = [(''name'', QStr ''x''), (''locale'', QStr ''en'')]
                              \<rparr>),
                      call_headers = [(''Content-Type'', ''application/json'')] \<rparr>,
              outcome = Resolves (Response 500 ''Internal Server Error''
                                    (ParseFailure ''no body'')) \<rparr>])"
proof -
  note T = http_failure_returned_once [where R = "as_StrapiResponse host_not_found"
      and h = "[]"
      and fc = "\<lparr> call_url = ''http://h/api/items'', call_method = Some GET,
                    call_body = None,
                    call_headers = [(''Content-Type'', ''application/json'')] \<rparr>"
      and r = "Response 404 ''Not Found'' (ParseFailure ''no body'')"
      and c = example_client and endpoint = "''/items''"
      and options = "\<lparr> init_method = Some GET, body = None, init_headers = [] \<rparr>"
      and env = host_base_create_fails and params = None and loc = "Some ''fr''"
      and payload = example_payload and filters = None]
  have a: "request (as_StrapiResponse host_not_found) example_client ''/items''
       \<lparr> init_method = Some GET, body = None, init_headers = [] \<rparr> []
     = ((Some \<lparr> message = ''Strapi API error: 404 Not Found'', status = Some 404 \<rparr>,
           None),
        [\<lparr> call = \<lparr> call_url = ''http://h/api/items'', call_method = Some GET,
                    call_body = None,
                    call_headers = [(''Content-Type'', ''application/json'')] \<rparr>,
            outcome = Resolves (Response 404 ''Not Found'' (ParseFailure ''no body'')) \<rparr>])"
    using T [THEN conjunct1]
    by (simp add: run_defs host_not_found_def)
  note b = T [THEN conjunct2, THEN conjunct2, THEN conjunct2, THEN conjunct1]
  have c: "create_000 host_base_create_fails example_client example_payload None
                 (Some ''fr'') None []
       = (Fulfilled (Some \<lparr> message = ''Strapi API error: 500 Internal Server Error'',
                           status = Some 500 \<rparr>, None),
          [\<lparr> call = \<lparr> call_url = ''http://h/api/items'', call_method = None,
                    call_body = None,
                    call_headers = [(''Content-Type'', ''application/json'')] \<rparr>,
             outcome = Resolves (Response 200 ''OK'' (Parsed ())) \<rparr>,
           \<lparr> call = \<lparr> call_url = ''http://h/api/items'', call_method = Some POST,
                    call_body = Some (JSON_stringify example_payload),
                    call_headers = [(''Content-Type'', ''application/json'')] \<rparr>,
             outcome = Resolves (Response 500 ''Internal Server Error''
                                   (ParseFailure ''no body'')) \<rparr>])"
    by (simp add: run_defs host_base_create_fails_def)
  have d: "map http_failure (snd (create_000 host_base_create_fails example_client
                 example_payload None (Some ''fr'') None []))
       = [None, Some \<lparr> message = ''Strapi API error: 500 Internal Server Error'',
                        status = Some 500 \<rparr>]"
    unfolding c by (simp add: http_failure_def ok_def show_nat.simps)
  from c have e: "fst (create_000 host_base_create_fails example_client example_payload None
                 (Some ''fr'') None [])
       = Fulfilled (Some \<lparr> message = ''Strapi API error: 500 Internal Server Error'',
                           status = Some 500 \<rparr>, None)"
    by simp
  have f: "update_001 host_not_found example_client (IdNum 1) example_payload None None []
       = ((Some \<lparr> message = ''Strapi API error: 404 Not Found'', status = Some 404
             \<rparr>, None),
          [\<lparr> call = \<lparr> call_url = ''http://h/api/items/1'', call_method = Some PUT,
                      call_body = Some (JSON_stringify example_payload),
                      call_headers = [(''Content-Type'', ''application/json'')] \<rparr>,
              outcome = Resolves (Response 404 ''Not Found'' (ParseFailure ''no body''))
                    \<rparr>])"
    using http_failure_returned_once [where env = host_not_found and c = example_client
        and i = "IdNum 1" and payload = example_payload and params = None and loc = None
        and h = "[]"
        and fc = "\<lparr> call_url = ''http://h/api/items/1'', call_method = Some PUT,
                      call_body = Some (JSON_stringify example_payload),
                      call_headers = [(''Content-Type'', ''application/json'')] \<rparr>"
        and ri = "Response 404 ''Not Found'' (ParseFailure ''no body'')",
        THEN conjunct2, THEN conjunct2, THEN conjunct2, THEN conjunct2, THEN conjunct2, THEN
              conjunct2, THEN conjunct2, THEN conjunct2, THEN conjunct2, THEN conjunct2, THEN
              conjunct2, THEN conjunct2, THEN conjunct2, THEN conjunct2, THEN conjunct2, THEN
              conjunct2, THEN conjunct1]
    by (simp add: run_defs host_not_found_def fetch_call_of_def http_error_def answered_def
          effective_locale_def)
  have g: "upsert_000 host_not_found example_client None example_payload None None []
       = (Fulfilled (Some \<lparr> message = ''Strapi API error: 404 Not Found'',
                           status = Some 404 \<rparr>, None),
          [\<lparr> call = \<lparr> call_url = ''http://h/api/items?pagination%5BpageSize%5D=1'',
                      call_method = Some GET, call_body = None,
                      call_headers = [(''Content-Type'', ''application/json'')] \<rparr>,
              outcome = Resolves (Response 404 ''Not Found'' (ParseFailure ''no body''))
                    \<rparr>])"
    using http_failure_returned_once [where env = host_not_found and c = example_client
        and payload = example_payload and params = None and loc = None and filters = None
        and h = "[]"
        and fc = "\<lparr> call_url = ''http://h/api/items?pagination%5BpageSize%5D=1'',
                      call_method = Some GET, call_body = None,
                      call_headers = [(''Content-Type'', ''application/json'')] \<rparr>"
        and rl = "Response 404 ''Not Found'' (ParseFailure ''no body'')",
        THEN conjunct2, THEN conjunct2, THEN conjunct2, THEN conjunct2, THEN conjunct2, THEN
              conjunct2, THEN conjunct2, THEN conjunct2, THEN conjunct2, THEN conjunct2, THEN
              conjunct2, THEN conjunct2, THEN conjunct2, THEN conjunct2, THEN conjunct2, THEN
              conjunct2, THEN conjunct2, THEN conjunct2, THEN conjunct2, THEN conjunct2, THEN
              conjunct2, THEN conjunct2, THEN conjunct2, THEN conjunct2, THEN conjunct2, THEN
              conjunct2, THEN conjunct2, THEN conjunct2, THEN conjunct1]
    by (simp add: run_defs qs_defs host_not_found_def fetch_call_of_def http_error_def
          answered_def effective_locale_def)
  define s1 where "s1 = \<lparr> call = \<lparr> call_url = ''http://h/api/items?locale=en'',
                      call_method = None, call_body = None,
                      call_headers = [(''Content-Type'', ''application/json'')] \<rparr>,
              outcome = Resolves (Response 200 ''OK'' (Parsed ())) \<rparr>"
  have k1: "discover_001 host_base_create_fails example_client (obj_of None) None []
              = ((None, Some \<lparr> list_data = Some [] \<rparr>), [s1])"
    by (simp add: run_defs qs_defs host_base_create_fails_def s1_def)
  have k: "create_001 host_base_create_fails example_client example_payload None (Some ''fr'')
         None []
       = (Fulfilled (Some \<lparr> message = ''Strapi API error: 500 Internal Server Error'',
                           status = Some 500 \<rparr>, None),
          [s1,
           \<lparr> call = \<lparr> call_url = ''http://h/api/items'', call_method = Some POST,
                      call_body = Some (JSON_stringify
                        \<lparr> data = [(''name'', QStr ''x''), (''locale'', QStr ''en'')]
                              \<rparr>),
                      call_headers = [(''Content-Type'', ''application/json'')] \<rparr>,
              outcome = Resolves (Response 500 ''Internal Server Error''
                                    (ParseFailure ''no body'')) \<rparr>])"
    using http_failure_returned_once [where env = host_base_create_fails
        and c = example_client and payload = example_payload and params = None
        and loc = "Some ''fr''" and filters = None and h = "[]" and ha = "[s1]"
        and enResponse = "Some \<lparr> list_data = Some [] \<rparr>"
        and fc = "\<lparr> call_url = ''http://h/api/items'', call_method = Some POST,
                      call_body = Some (JSON_stringify
                        \<lparr> data = [(''name'', QStr ''x''), (''locale'', QStr ''en'')]
                              \<rparr>),
                      call_headers = [(''Content-Type'', ''application/json'')] \<rparr>"
        and ri = "Response 500 ''Internal Server Error'' (ParseFailure ''no body'')",
        THEN conjunct2, THEN conjunct2, THEN conjunct2, THEN conjunct2, THEN conjunct2, THEN
              conjunct2, THEN conjunct2, THEN conjunct2, THEN conjunct2, THEN conjunct2, THEN
              conjunct2, THEN conjunct2, THEN conjunct2, THEN conjunct2, THEN conjunct2, THEN
              conjunct2, THEN conjunct2, THEN conjunct2, THEN conjunct2, THEN conjunct2, THEN
              conjunct2, THEN conjunct2, THEN conjunct2, THEN conjunct2, THEN conjunct2, THEN
              conjunct1] k1
    by (simp add: run_defs host_base_create_fails_def fetch_call_of_def http_error_def
          answered_def effective_locale_def)
  from a b e d f g k show ?thesis
    unfolding s1_def by (intro conjI)
qed


subsection \<open>Responses whose body fails to parse\<close>

lemma request_unparsable:
  assumes "transport R h fc = Resolves r" and "ok r" and "resp_json r = ParseFailure msg"
    and "fc = \<lparr> call_url = baseURL c @ ''/'' @ strip_leading_slashes endpoint,
                call_method = init_method options, call_body = body options,
                call_headers = spread (headers c) (init_headers options) \<rparr>"
  shows "request R c endpoint options h =
           (if init_method options = Some DELETE then (None, Some (data_null R))
            else (Some \<lparr> message = ''Strapi API error: Failed to parse JSON response - '' @
                  msg,
                          status = Some (resp_status r) \<rparr>, None),
            h @ [\<lparr> call = fc, outcome = Resolves (map_response (\<lambda>_. ()) r)
                  \<rparr>])"
proof -
  from assms(1) have "transport R h \<lparr> call_url = baseURL c @ ''/'' @ strip_leading_slashes
        endpoint,
                call_method = init_method options, call_body = body options,
                call_headers = spread (headers c) (init_headers options) \<rparr> = Resolves r"
    unfolding assms(4) .
  with assms(2,3) show ?thesis
    unfolding assms(4)
    by (cases "init_method options = Some DELETE") (simp_all add: request_def Let_def)
qed

lemma request_delete_unparsable:
  assumes "snd (request R c ep \<lparr> init_method = Some DELETE, body = b, init_headers = hs
        \<rparr> h)
             = h @ [ev]"
    and "outcome ev = Resolves r'" and "ok r'" and "resp_json r' = ParseFailure msg"
  shows "fst (request R c ep \<lparr> init_method = Some DELETE, body = b, init_headers = hs
        \<rparr> h)
           = (None, Some (data_null R))"
proof -
  define fc where "fc = \<lparr> call_url = baseURL c @ ''/'' @ strip_leading_slashes ep,
                 call_method = Some DELETE, call_body = b,
                 call_headers = spread (headers c) hs \<rparr>"
  have ev: "ev = \<lparr> call = fc, outcome = map_fetch_result (\<lambda>_. ()) (transport R h
        fc) \<rparr>"
    using assms(1) request_snd [of R c ep "\<lparr> init_method = Some DELETE, body = b,
          init_headers = hs \<rparr>" h]
    by (simp add: request_event_def fc_def Let_def)
  with assms(2) obtain r where r: "transport R h fc = Resolves r" "r' = map_response (\<lambda>_.
        ()) r"
    by (cases "transport R h fc") auto
  from r(2) assms(3,4) have "ok r" and "\<exists>m. resp_json r = ParseFailure m"
    by (auto simp add: ok_map_response resp_sel_map, cases "resp_json r", auto)
  with r(1) show ?thesis
    by (auto simp add: request_def Let_def fc_def)
qed

lemma request_parse_failure:
  assumes "transport R h (fetch_call_of c ep opts) = Resolves r" and "ok r"
    and "resp_json r = ParseFailure msg"
  shows "request R c ep opts h
           = (if init_method opts = Some DELETE then (None, Some (data_null R))
              else (Some (parse_error r msg), None),
              h @ [answered (fetch_call_of c ep opts) r])"
  using request_unparsable [OF assms, of c ep opts]
  by (simp add: fetch_call_of_def parse_error_def answered_def)

lemma findMany_parse_failure:
  "(fc = fetch_call_of c (uid c @ getQueryString env (Some (spread (obj_of params) (locale_entry
        loc)))) \<lparr> init_method = Some GET, body = None, init_headers = [] \<rparr>
    \<and> fetch_list env h fc = Resolves rl
    \<and> ok rl
    \<and> resp_json rl = ParseFailure msg
   \<longrightarrow> findMany env c params loc h = ((Some (parse_error rl msg), None), h @
         [answered fc rl]))"
proof (intro impI, elim conjE)
  assume fc: "fc = fetch_call_of c (uid c @ getQueryString env (Some (spread (obj_of params)
        (locale_entry loc)))) \<lparr> init_method = Some GET, body = None, init_headers = []
        \<rparr>"
  assume t: "fetch_list env h fc = Resolves rl"
  assume n: "ok rl"
  assume m: "resp_json rl = ParseFailure msg"
  have "request (as_StrapiResponse env) c (uid c @ getQueryString env (Some (spread (obj_of
        params) (locale_entry loc)))) \<lparr> init_method = Some GET, body = None, init_headers =
        [] \<rparr> h
           = (if init_method \<lparr> init_method = Some GET, body = None, init_headers = []
                 \<rparr> = Some DELETE then (None, Some (data_null (as_StrapiResponse env)))
              else (Some (parse_error rl msg), None), h @ [answered fc rl])"
    unfolding fc by (rule request_parse_failure) (use t [unfolded fc] n m in \<open>simp_all add:
          as_StrapiResponse_def\<close>)
  then have q: "request (as_StrapiResponse env) c (uid c @ getQueryString env (Some (spread
        (obj_of params) (locale_entry loc)))) \<lparr> init_method = Some GET, body = None,
        init_headers = [] \<rparr> h
           = ((Some (parse_error rl msg), None), h @ [answered fc rl])"
    by (simp add: as_StrapiResponse_def)
  from q  show "findMany env c params loc h = ((Some (parse_error rl msg), None), h @ [answered fc
        rl])"
    by (simp add: findMany_def Let_def effective_locale_def)
qed

lemma find_id_parse_failure:
  "(truthy_id idt
    \<and> fc = fetch_call_of c (uid c @ ''/'' @ template_id idt @ getQueryString env (Some
          (spread (obj_of params) (locale_entry loc)))) \<lparr> init_method = Some GET, body =
          None, init_headers = [] \<rparr>
    \<and> fetch_item env h fc = Resolves ri
    \<and> ok ri
    \<and> resp_json ri = ParseFailure msg
   \<longrightarrow> find_op env c idt params loc h = ((Some (parse_error ri msg), None), h @
         [answered fc ri]))"
proof (intro impI, elim conjE)
  assume p0: "truthy_id idt"
  assume fc: "fc = fetch_call_of c (uid c @ ''/'' @ template_id idt @ getQueryString env (Some
        (spread (obj_of params) (locale_entry loc)))) \<lparr> init_method = Some GET, body =
        None, init_headers = [] \<rparr>"
  assume t: "fetch_item env h fc = Resolves ri"
  assume n: "ok ri"
  assume m: "resp_json ri = ParseFailure msg"
  have "request (as_StrapiSingleResponse env) c (uid c @ ''/'' @ template_id idt @ getQueryString
        env (Some (spread (obj_of params) (locale_entry loc)))) \<lparr> init_method = Some GET,
        body = None, init_headers = [] \<rparr> h
           = (if init_method \<lparr> init_method = Some GET, body = None, init_headers = []
                 \<rparr> = Some DELETE then (None, Some (data_null (as_StrapiSingleResponse
                 env)))
              else (Some (parse_error ri msg), None), h @ [answered fc ri])"
    unfolding fc by (rule request_parse_failure) (use t [unfolded fc] n m in \<open>simp_all add:
          as_StrapiSingleResponse_def\<close>)
  then have q: "request (as_StrapiSingleResponse env) c (uid c @ ''/'' @ template_id idt @
        getQueryString env (Some (spread (obj_of params) (locale_entry loc)))) \<lparr>
        init_method = Some GET, body = None, init_headers = [] \<rparr> h
           = ((Some (parse_error ri msg), None), h @ [answered fc ri])"
    by (simp add: as_StrapiSingleResponse_def)
  from q p0 show "find_op env c idt params loc h = ((Some (parse_error ri msg), None), h @
        [answered fc ri])"
    by (simp add: find_op_def Let_def effective_locale_def)
qed

lemma find_no_id_parse_failure:
  "(\<not> truthy_id idt
    \<and> fc = fetch_call_of c (uid c @ getQueryString env (Some (spread (obj_of params)
          (locale_entry loc)))) \<lparr> init_method = Some GET, body = None, init_headers = []
          \<rparr>
    \<and> fetch_list env h fc = Resolves rl
    \<and> ok rl
    \<and> resp_json rl = ParseFailure msg
   \<longrightarrow> find_op env c idt params loc h = ((Some (parse_error rl msg), None), h @
         [answered fc rl]))"
proof (intro impI, elim conjE)
  assume p0: "\<not> truthy_id idt"
  assume fc: "fc = fetch_call_of c (uid c @ getQueryString env (Some (spread (obj_of params)
        (locale_entry loc)))) \<lparr> init_method = Some GET, body = None, init_headers = []
        \<rparr>"
  assume t: "fetch_list env h fc = Resolves rl"
  assume n: "ok rl"
  assume m: "resp_json rl = ParseFailure msg"
  have "request (as_StrapiResponse env) c (uid c @ getQueryString env (Some (spread (obj_of
        params) (locale_entry loc)))) \<lparr> init_method = Some GET, body = None, init_headers =
        [] \<rparr> h
           = (if init_method \<lparr> init_method = Some GET, body = None, init_headers = []
                 \<rparr> = Some DELETE then (None, Some (data_null (as_StrapiResponse env)))
              else (Some (parse_error rl msg), None), h @ [answered fc rl])"
    unfolding fc by (rule request_parse_failure) (use t [unfolded fc] n m in \<open>simp_all add:
          as_StrapiResponse_def\<close>)
  then have q: "request (as_StrapiResponse env) c (uid c @ getQueryString env (Some (spread
        (obj_of params) (locale_entry loc)))) \<lparr> init_method = Some GET, body = None,
        init_headers = [] \<rparr> h
           = ((Some (parse_error rl msg), None), h @ [answered fc rl])"
    by (simp add: as_StrapiResponse_def)
  from q p0 show "find_op env c idt params loc h = ((Some (parse_error rl msg), None), h @
        [answered fc rl])"
    by (simp add: find_op_def findMany_def Let_def effective_locale_def)
qed

lemma update_000_parse_failure:
  "(fc = fetch_call_of c (uid c @ ''/'' @ template_id idt @ getQueryString env (Some (spread
        (obj_of params) (locale_entry (Some (effective_locale loc)))))) \<lparr> init_method =
        Some PUT, body = Some (JSON_stringify payload), init_headers = [] \<rparr>
    \<and> fetch_item env h fc = Resolves ri
    \<and> ok ri
    \<and> resp_json ri = ParseFailure msg
   \<longrightarrow> update_000 env c idt payload params loc h = ((Some (parse_error ri msg),
         None), h @ [answered fc ri]))"
proof (intro impI, elim conjE)
  assume fc: "fc = fetch_call_of c (uid c @ ''/'' @ template_id idt @ getQueryString env (Some
        (spread (obj_of params) (locale_entry (Some (effective_locale loc)))))) \<lparr>
        init_method = Some PUT, body = Some (JSON_stringify payload), init_headers = [] \<rparr>"
  assume t: "fetch_item env h fc = Resolves ri"
  assume n: "ok ri"
  assume m: "resp_json ri = ParseFailure msg"
  have "request (as_StrapiSingleResponse env) c (uid c @ ''/'' @ template_id idt @ getQueryString
        env (Some (spread (obj_of params) (locale_entry (Some (effective_locale loc)))))) \<lparr>
        init_method = Some PUT, body = Some (JSON_stringify payload), init_headers = [] \<rparr> h
           = (if init_method \<lparr> init_method = Some PUT, body = Some (JSON_stringify
                 payload), init_headers = [] \<rparr> = Some DELETE then (None, Some (data_null
                 (as_StrapiSingleResponse env)))
              else (Some (parse_error ri msg), None), h @ [answered fc ri])"
    unfolding fc by (rule request_parse_failure) (use t [unfolded fc] n m in \<open>simp_all add:
          as_StrapiSingleResponse_def\<close>)
  then have q: "request (as_StrapiSingleResponse env) c (uid c @ ''/'' @ template_id idt @
        getQueryString env (Some (spread (obj_of params) (locale_entry (Some (effective_locale
        loc)))))) \<lparr> init_method = Some PUT, body = Some (JSON_stringify payload),
        init_headers = [] \<rparr> h
           = ((Some (parse_error ri msg), None), h @ [answered fc ri])"
    by (simp add: as_StrapiSingleResponse_def)
  from q  show "update_000 env c idt payload params loc h = ((Some (parse_error ri msg), None), h
        @ [answered fc ri])"
    by (simp add: update_000_def Let_def effective_locale_def)
qed

lemma delete_000_parse_failure:
  "(fc = fetch_call_of c (uid c @ ''/'' @ template_id idt @ getQueryString env (Some (spread []
        (locale_entry loc)))) \<lparr> init_method = Some DELETE, body = None, init_headers = []
        \<rparr>
    \<and> fetch_item env h fc = Resolves ri
    \<and> ok ri
    \<and> resp_json ri = ParseFailure msg
   \<longrightarrow> delete_000 env c idt loc h = ((None, None), h @ [answered fc ri]))"
proof (intro impI, elim conjE)
  assume fc: "fc = fetch_call_of c (uid c @ ''/'' @ template_id idt @ getQueryString env (Some
        (spread [] (locale_entry loc)))) \<lparr> init_method = Some DELETE, body = None,
        init_headers = [] \<rparr>"
  assume t: "fetch_item env h fc = Resolves ri"
  assume n: "ok ri"
  assume m: "resp_json ri = ParseFailure msg"
  have "request (as_StrapiSingleResponse env) c (uid c @ ''/'' @ template_id idt @ getQueryString
        env (Some (spread [] (locale_entry loc)))) \<lparr> init_method = Some DELETE, body =
        None, init_headers = [] \<rparr> h
           = (if init_method \<lparr> init_method = Some DELETE, body = None, init_headers = []
                 \<rparr> = Some DELETE then (None, Some (data_null (as_StrapiSingleResponse
                 env)))
              else (Some (parse_error ri msg), None), h @ [answered fc ri])"
    unfolding fc by (rule request_parse_failure) (use t [unfolded fc] n m in \<open>simp_all add:
          as_StrapiSingleResponse_def\<close>)
  then have q: "request (as_StrapiSingleResponse env) c (uid c @ ''/'' @ template_id idt @
        getQueryString env (Some (spread [] (locale_entry loc)))) \<lparr> init_method = Some
        DELETE, body = None, init_headers = [] \<rparr> h
           = ((None, Some \<lparr> item_data = None \<rparr>), h @ [answered fc ri])"
    by (simp add: as_StrapiSingleResponse_def)
  from q  show "delete_000 env c idt loc h = ((None, None), h @ [answered fc ri])"
    by (simp add: delete_000_def Let_def effective_locale_def)
qed

lemma update_001_parse_failure:
  "(fc = fetch_call_of c ((if (effective_locale loc) = ''en'' then uid c @ ''/'' @ template_id idt
        else uid c @ ''/'' @ template_id idt @ ''?locale='' @ (effective_locale loc))) \<lparr>
        init_method = Some PUT, body = Some (JSON_stringify payload), init_headers = [] \<rparr>
    \<and> fetch_item env h fc = Resolves ri
    \<and> ok ri
    \<and> resp_json ri = ParseFailure msg
   \<longrightarrow> update_001 env c idt payload params loc h = ((Some (parse_error ri msg),
         None), h @ [answered fc ri]))"
proof (intro impI, elim conjE)
  assume fc: "fc = fetch_call_of c ((if (effective_locale loc) = ''en'' then uid c @ ''/'' @
        template_id idt else uid c @ ''/'' @ template_id idt @ ''?locale='' @ (effective_locale
        loc))) \<lparr> init_method = Some PUT, body = Some (JSON_stringify payload), init_headers
        = [] \<rparr>"
  assume t: "fetch_item env h fc = Resolves ri"
  assume n: "ok ri"
  assume m: "resp_json ri = ParseFailure msg"
  have "request (as_StrapiSingleResponse env) c ((if (effective_locale loc) = ''en'' then uid c @
        ''/'' @ template_id idt else uid c @ ''/'' @ template_id idt @ ''?locale='' @
        (effective_locale loc))) \<lparr> init_method = Some PUT, body = Some (JSON_stringify
        payload), init_headers = [] \<rparr> h
           = (if init_method \<lparr> init_method = Some PUT, body = Some (JSON_stringify
                 payload), init_headers = [] \<rparr> = Some DELETE then (None, Some (data_null
                 (as_StrapiSingleResponse env)))
              else (Some (parse_error ri msg), None), h @ [answered fc ri])"
    unfolding fc by (rule request_parse_failure) (use t [unfolded fc] n m in \<open>simp_all add:
          as_StrapiSingleResponse_def\<close>)
  then have q: "request (as_StrapiSingleResponse env) c ((if (effective_locale loc) = ''en'' then
        uid c @ ''/'' @ template_id idt else uid c @ ''/'' @ template_id idt @ ''?locale='' @
        (effective_locale loc))) \<lparr> init_method = Some PUT, body = Some (JSON_stringify
        payload), init_headers = [] \<rparr> h
           = ((Some (parse_error ri msg), None), h @ [answered fc ri])"
    by (simp add: as_StrapiSingleResponse_def)
  from q  show "update_001 env c idt payload params loc h = ((Some (parse_error ri msg), None), h
        @ [answered fc ri])"
    by (cases "effective_locale loc = ''en''") (simp_all add: update_001_def Let_def
          effective_locale_def)
qed

lemma delete_001_parse_failure:
  "(fc = fetch_call_of c (uid c @ ''/'' @ template_id idt) \<lparr> init_method = Some DELETE,
        body = None, init_headers = [] \<rparr>
    \<and> fetch_item env h fc = Resolves ri
    \<and> ok ri
    \<and> resp_json ri = ParseFailure msg
   \<longrightarrow> delete_001 env c idt h = ((None, None), h @ [answered fc ri]))"
proof (intro impI, elim conjE)
  assume fc: "fc = fetch_call_of c (uid c @ ''/'' @ template_id idt) \<lparr> init_method = Some
        DELETE, body = None, init_headers = [] \<rparr>"
  assume t: "fetch_item env h fc = Resolves ri"
  assume n: "ok ri"
  assume m: "resp_json ri = ParseFailure msg"
  have "request (as_StrapiSingleResponse env) c (uid c @ ''/'' @ template_id idt) \<lparr>
        init_method = Some DELETE, body = None, init_headers = [] \<rparr> h
           = (if init_method \<lparr> init_method = Some DELETE, body = None, init_headers = []
                 \<rparr> = Some DELETE then (None, Some (data_null (as_StrapiSingleResponse
                 env)))
              else (Some (parse_error ri msg), None), h @ [answered fc ri])"
    unfolding fc by (rule request_parse_failure) (use t [unfolded fc] n m in \<open>simp_all add:
          as_StrapiSingleResponse_def\<close>)
  then have q: "request (as_StrapiSingleResponse env) c (uid c @ ''/'' @ template_id idt) \<lparr>
        init_method = Some DELETE, body = None, init_headers = [] \<rparr> h
           = ((None, Some \<lparr> item_data = None \<rparr>), h @ [answered fc ri])"
    by (simp add: as_StrapiSingleResponse_def)
  from q  show "delete_001 env c idt h = ((None, None), h @ [answered fc ri])"
    by (simp add: delete_001_def Let_def effective_locale_def)
qed

lemma create_000_default_parse_failure:
  "((effective_locale loc) = ''en''
    \<and> fc = fetch_call_of c (uid c @ getQueryString env (Some (obj_of params))) \<lparr>
          init_method = Some POST, body = Some (JSON_stringify payload), init_headers = []
          \<rparr>
    \<and> fetch_item env h fc = Resolves ri
    \<and> ok ri
    \<and> resp_json ri = ParseFailure msg
   \<longrightarrow> create_000 env c payload params loc filters h = (Fulfilled (Some (parse_error
         ri msg), None), h @ [answered fc ri]))"
proof (intro impI, elim conjE)
  assume p0: "(effective_locale loc) = ''en''"
  assume fc: "fc = fetch_call_of c (uid c @ getQueryString env (Some (obj_of params))) \<lparr>
        init_method = Some POST, body = Some (JSON_stringify payload), init_headers = [] \<rparr>"
  assume t: "fetch_item env h fc = Resolves ri"
  assume n: "ok ri"
  assume m: "resp_json ri = ParseFailure msg"
  have "request (as_StrapiSingleResponse env) c (uid c @ getQueryString env (Some (obj_of
        params))) \<lparr> init_method = Some POST, body = Some (JSON_stringify payload),
        init_headers = [] \<rparr> h
           = (if init_method \<lparr> init_method = Some POST, body = Some (JSON_stringify
                 payload), init_headers = [] \<rparr> = Some DELETE then (None, Some (data_null
                 (as_StrapiSingleResponse env)))
              else (Some (parse_error ri msg), None), h @ [answered fc ri])"
    unfolding fc by (rule request_parse_failure) (use t [unfolded fc] n m in \<open>simp_all add:
          as_StrapiSingleResponse_def\<close>)
  then have q: "request (as_StrapiSingleResponse env) c (uid c @ getQueryString env (Some (obj_of
        params))) \<lparr> init_method = Some POST, body = Some (JSON_stringify payload),
        init_headers = [] \<rparr> h
           = ((Some (parse_error ri msg), None), h @ [answered fc ri])"
    by (simp add: as_StrapiSingleResponse_def)
  from q p0 show "create_000 env c payload params loc filters h = (Fulfilled (Some (parse_error ri
        msg), None), h @ [answered fc ri])"
    by (simp add: create_000_def discover_000_def post_collection_000_def attach_000_def Let_def
          effective_locale_def)
qed

lemma create_000_search_parse_failure:
  "((effective_locale loc) \<noteq> ''en''
    \<and> fc = fetch_call_of c (uid c @ getQueryString env (Some (spread (obj_of params)
          (filters_entry filters)))) \<lparr> init_method = None, body = None, init_headers = []
          \<rparr>
    \<and> fetch_list env h fc = Resolves rl
    \<and> ok rl
    \<and> resp_json rl = ParseFailure msg
   \<longrightarrow> create_000 env c payload params loc filters h = (Fulfilled (Some (parse_error
         rl msg), None), h @ [answered fc rl]))"
proof (intro impI, elim conjE)
  assume p0: "(effective_locale loc) \<noteq> ''en''"
  assume fc: "fc = fetch_call_of c (uid c @ getQueryString env (Some (spread (obj_of params)
        (filters_entry filters)))) \<lparr> init_method = None, body = None, init_headers = []
        \<rparr>"
  assume t: "fetch_list env h fc = Resolves rl"
  assume n: "ok rl"
  assume m: "resp_json rl = ParseFailure msg"
  have "request (as_StrapiResponse env) c (uid c @ getQueryString env (Some (spread (obj_of
        params) (filters_entry filters)))) \<lparr> init_method = None, body = None, init_headers
        = [] \<rparr> h
           = (if init_method \<lparr> init_method = None, body = None, init_headers = [] \<rparr>
                 = Some DELETE then (None, Some (data_null (as_StrapiResponse env)))
              else (Some (parse_error rl msg), None), h @ [answered fc rl])"
    unfolding fc by (rule request_parse_failure) (use t [unfolded fc] n m in \<open>simp_all add:
          as_StrapiResponse_def\<close>)
  then have q: "request (as_StrapiResponse env) c (uid c @ getQueryString env (Some (spread
        (obj_of params) (filters_entry filters)))) \<lparr> init_method = None, body = None,
        init_headers = [] \<rparr> h
           = ((Some (parse_error rl msg), None), h @ [answered fc rl])"
    by (simp add: as_StrapiResponse_def)
  from q p0 show "create_000 env c payload params loc filters h = (Fulfilled (Some (parse_error rl
        msg), None), h @ [answered fc rl])"
    by (simp add: create_000_def discover_000_def post_collection_000_def attach_000_def Let_def
          effective_locale_def)
qed

lemma create_000_base_parse_failure:
  "((effective_locale loc) \<noteq> ''en''
    \<and> discover_000 env c (obj_of params) filters h = ((None, enResponse), ha)
    \<and> base_documentId enResponse = None
    \<and> fc = fetch_call_of c (uid c @ getQueryString env (Some (obj_of params))) \<lparr>
          init_method = Some POST, body = Some (JSON_stringify payload), init_headers = []
          \<rparr>
    \<and> fetch_item env ha fc = Resolves ri
    \<and> ok ri
    \<and> resp_json ri = ParseFailure msg
   \<longrightarrow> create_000 env c payload params loc filters h = (Fulfilled (Some (parse_error
         ri msg), None), ha @ [answered fc ri]))"
proof (intro impI, elim conjE)
  assume p0: "(effective_locale loc) \<noteq> ''en''"
  assume p1: "discover_000 env c (obj_of params) filters h = ((None, enResponse), ha)"
  assume p2: "base_documentId enResponse = None"
  assume fc: "fc = fetch_call_of c (uid c @ getQueryString env (Some (obj_of params))) \<lparr>
        init_method = Some POST, body = Some (JSON_stringify payload), init_headers = [] \<rparr>"
  assume t: "fetch_item env ha fc = Resolves ri"
  assume n: "ok ri"
  assume m: "resp_json ri = ParseFailure msg"
  have "request (as_StrapiSingleResponse env) c (uid c @ getQueryString env (Some (obj_of
        params))) \<lparr> init_method = Some POST, body = Some (JSON_stringify payload),
        init_headers = [] \<rparr> ha
           = (if init_method \<lparr> init_method = Some POST, body = Some (JSON_stringify
                 payload), init_headers = [] \<rparr> = Some DELETE then (None, Some (data_null
                 (as_StrapiSingleResponse env)))
              else (Some (parse_error ri msg), None), ha @ [answered fc ri])"
    unfolding fc by (rule request_parse_failure) (use t [unfolded fc] n m in \<open>simp_all add:
          as_StrapiSingleResponse_def\<close>)
  then have q: "request (as_StrapiSingleResponse env) c (uid c @ getQueryString env (Some (obj_of
        params))) \<lparr> init_method = Some POST, body = Some (JSON_stringify payload),
        init_headers = [] \<rparr> ha
           = ((Some (parse_error ri msg), None), ha @ [answered fc ri])"
    by (simp add: as_StrapiSingleResponse_def)
  from q p0 p1 p2 show "create_000 env c payload params loc filters h = (Fulfilled (Some
        (parse_error ri msg), None), ha @ [answered fc ri])"
    by (simp add: create_000_def discover_000_def post_collection_000_def attach_000_def Let_def
          effective_locale_def)
qed

lemma create_000_attach_found_parse_failure:
  "((effective_locale loc) \<noteq> ''en''
    \<and> discover_000 env c (obj_of params) filters h = ((None, enResponse), ha)
    \<and> base_documentId enResponse = Some d
    \<and> fc = fetch_call_of c (uid c @ ''/'' @ d @ getQueryString env (Some (spread (obj_of
          params) [(''locale'', QStr (effective_locale loc))]))) \<lparr> init_method = Some POST,
          body = Some (JSON_stringify payload), init_headers = [] \<rparr>
    \<and> fetch_item env ha fc = Resolves ri
    \<and> ok ri
    \<and> resp_json ri = ParseFailure msg
   \<longrightarrow> create_000 env c payload params loc filters h = (Fulfilled (Some (parse_error
         ri msg), None), ha @ [answered fc ri]))"
proof (intro impI, elim conjE)
  assume p0: "(effective_locale loc) \<noteq> ''en''"
  assume p1: "discover_000 env c (obj_of params) filters h = ((None, enResponse), ha)"
  assume p2: "base_documentId enResponse = Some d"
  assume fc: "fc = fetch_call_of c (uid c @ ''/'' @ d @ getQueryString env (Some (spread (obj_of
        params) [(''locale'', QStr (effective_locale loc))]))) \<lparr> init_method = Some POST,
        body = Some (JSON_stringify payload), init_headers = [] \<rparr>"
  assume t: "fetch_item env ha fc = Resolves ri"
  assume n: "ok ri"
  assume m: "resp_json ri = ParseFailure msg"
  have "request (as_StrapiSingleResponse env) c (uid c @ ''/'' @ d @ getQueryString env (Some
        (spread (obj_of params) [(''locale'', QStr (effective_locale loc))]))) \<lparr>
        init_method = Some POST, body = Some (JSON_stringify payload), init_headers = [] \<rparr>
        ha
           = (if init_method \<lparr> init_method = Some POST, body = Some (JSON_stringify
                 payload), init_headers = [] \<rparr> = Some DELETE then (None, Some (data_null
                 (as_StrapiSingleResponse env)))
              else (Some (parse_error ri msg), None), ha @ [answered fc ri])"
    unfolding fc by (rule request_parse_failure) (use t [unfolded fc] n m in \<open>simp_all add:
          as_StrapiSingleResponse_def\<close>)
  then have q: "request (as_StrapiSingleResponse env) c (uid c @ ''/'' @ d @ getQueryString env
        (Some (spread (obj_of params) [(''locale'', QStr (effective_locale loc))]))) \<lparr>
        init_method = Some POST, body = Some (JSON_stringify payload), init_headers = [] \<rparr>
        ha
           = ((Some (parse_error ri msg), None), ha @ [answered fc ri])"
    by (simp add: as_StrapiSingleResponse_def)
  from q p0 p1 p2 show "create_000 env c payload params loc filters h = (Fulfilled (Some
        (parse_error ri msg), None), ha @ [answered fc ri])"
    by (simp add: create_000_def discover_000_def post_collection_000_def attach_000_def Let_def
          effective_locale_def)
qed

lemma create_000_attach_created_parse_failure:
  "((effective_locale loc) \<noteq> ''en''
    \<and> discover_000 env c (obj_of params) filters h = ((None, enResponse), ha)
    \<and> base_documentId enResponse = None
    \<and> post_collection_000 env c payload (getQueryString env (Some (obj_of params))) ha =
          ((None, Some x), hb)
    \<and> item_data x = Some ent
    \<and> truthy_str (documentId ent)
    \<and> fc = fetch_call_of c (uid c @ ''/'' @ the (documentId ent) @ getQueryString env (Some
          (spread (obj_of params) [(''locale'', QStr (effective_locale loc))]))) \<lparr>
          init_method = Some POST, body = Some (JSON_stringify payload), init_headers = []
          \<rparr>
    \<and> fetch_item env hb fc = Resolves ri
    \<and> ok ri
    \<and> resp_json ri = ParseFailure msg
   \<longrightarrow> create_000 env c payload params loc filters h = (Fulfilled (Some (parse_error
         ri msg), None), hb @ [answered fc ri]))"
proof (intro impI, elim conjE)
  assume p0: "(effective_locale loc) \<noteq> ''en''"
  assume p1: "discover_000 env c (obj_of params) filters h = ((None, enResponse), ha)"
  assume p2: "base_documentId enResponse = None"
  assume p3: "post_collection_000 env c payload (getQueryString env (Some (obj_of params))) ha =
        ((None, Some x), hb)"
  assume p4: "item_data x = Some ent"
  assume p5: "truthy_str (documentId ent)"
  assume fc: "fc = fetch_call_of c (uid c @ ''/'' @ the (documentId ent) @ getQueryString env
        (Some (spread (obj_of params) [(''locale'', QStr (effective_locale loc))]))) \<lparr>
        init_method = Some POST, body = Some (JSON_stringify payload), init_headers = [] \<rparr>"
  assume t: "fetch_item env hb fc = Resolves ri"
  assume n: "ok ri"
  assume m: "resp_json ri = ParseFailure msg"
  have "request (as_StrapiSingleResponse env) c (uid c @ ''/'' @ the (documentId ent) @
        getQueryString env (Some (spread (obj_of params) [(''locale'', QStr (effective_locale
        loc))]))) \<lparr> init_method = Some POST, body = Some (JSON_stringify payload),
        init_headers = [] \<rparr> hb
           = (if init_method \<lparr> init_method = Some POST, body = Some (JSON_stringify
                 payload), init_headers = [] \<rparr> = Some DELETE then (None, Some (data_null
                 (as_StrapiSingleResponse env)))
              else (Some (parse_error ri msg), None), hb @ [answered fc ri])"
    unfolding fc by (rule request_parse_failure) (use t [unfolded fc] n m in \<open>simp_all add:
          as_StrapiSingleResponse_def\<close>)
  then have q: "request (as_StrapiSingleResponse env) c (uid c @ ''/'' @ the (documentId ent) @
        getQueryString env (Some (spread (obj_of params) [(''locale'', QStr (effective_locale
        loc))]))) \<lparr> init_method = Some POST, body = Some (JSON_stringify payload),
        init_headers = [] \<rparr> hb
           = ((Some (parse_error ri msg), None), hb @ [answered fc ri])"
    by (simp add: as_StrapiSingleResponse_def)
  from q p0 p1 p2 p3 p4 p5 show "create_000 env c payload params loc filters h = (Fulfilled (Some
        (parse_error ri msg), None), hb @ [answered fc ri])"
    by (simp add: create_000_def discover_000_def post_collection_000_def attach_000_def Let_def
          effective_locale_def)
qed

lemma create_001_default_parse_failure:
  "((effective_locale loc) = ''en''
    \<and> fc = fetch_call_of c (uid c) \<lparr> init_method = Some POST, body = Some
          (JSON_stringify payload), init_headers = [] \<rparr>
    \<and> fetch_item env h fc = Resolves ri
    \<and> ok ri
    \<and> resp_json ri = ParseFailure msg
   \<longrightarrow> create_001 env c payload params loc filters h = (Fulfilled (Some (parse_error
         ri msg), None), h @ [answered fc ri]))"
proof (intro impI, elim conjE)
  assume p0: "(effective_locale loc) = ''en''"
  assume fc: "fc = fetch_call_of c (uid c) \<lparr> init_method = Some POST, body = Some
        (JSON_stringify payload), init_headers = [] \<rparr>"
  assume t: "fetch_item env h fc = Resolves ri"
  assume n: "ok ri"
  assume m: "resp_json ri = ParseFailure msg"
  have "request (as_StrapiSingleResponse env) c (uid c) \<lparr> init_method = Some POST, body =
        Some (JSON_stringify payload), init_headers = [] \<rparr> h
           = (if init_method \<lparr> init_method = Some POST, body = Some (JSON_stringify
                 payload), init_headers = [] \<rparr> = Some DELETE then (None, Some (data_null
                 (as_StrapiSingleResponse env)))
              else (Some (parse_error ri msg), None), h @ [answered fc ri])"
    unfolding fc by (rule request_parse_failure) (use t [unfolded fc] n m in \<open>simp_all add:
          as_StrapiSingleResponse_def\<close>)
  then have q: "request (as_StrapiSingleResponse env) c (uid c) \<lparr> init_method = Some POST,
        body = Some (JSON_stringify payload), init_headers = [] \<rparr> h
           = ((Some (parse_error ri msg), None), h @ [answered fc ri])"
    by (simp add: as_StrapiSingleResponse_def)
  from q p0 show "create_001 env c payload params loc filters h = (Fulfilled (Some (parse_error ri
        msg), None), h @ [answered fc ri])"
    by (simp add: create_001_def discover_001_def post_collection_001_def attach_001_def Let_def
          effective_locale_def)
qed

lemma create_001_search_parse_failure:
  "((effective_locale loc) \<noteq> ''en''
    \<and> fc = fetch_call_of c (uid c @ getQueryString env (Some (spread (spread (obj_of params)
          (filters_entry filters)) [(''locale'', QStr ''en'')]))) \<lparr> init_method = None,
          body = None, init_headers = [] \<rparr>
    \<and> fetch_list env h fc = Resolves rl
    \<and> ok rl
    \<and> resp_json rl = ParseFailure msg
   \<longrightarrow> create_001 env c payload params loc filters h = (Fulfilled (Some (parse_error
         rl msg), None), h @ [answered fc rl]))"
proof (intro impI, elim conjE)
  assume p0: "(effective_locale loc) \<noteq> ''en''"
  assume fc: "fc = fetch_call_of c (uid c @ getQueryString env (Some (spread (spread (obj_of
        params) (filters_entry filters)) [(''locale'', QStr ''en'')]))) \<lparr> init_method =
        None, body = None, init_headers = [] \<rparr>"
  assume t: "fetch_list env h fc = Resolves rl"
  assume n: "ok rl"
  assume m: "resp_json rl = ParseFailure msg"
  have "request (as_StrapiResponse env) c (uid c @ getQueryString env (Some (spread (spread
        (obj_of params) (filters_entry filters)) [(''locale'', QStr ''en'')]))) \<lparr>
        init_method = None, body = None, init_headers = [] \<rparr> h
           = (if init_method \<lparr> init_method = None, body = None, init_headers = [] \<rparr>
                 = Some DELETE then (None, Some (data_null (as_StrapiResponse env)))
              else (Some (parse_error rl msg), None), h @ [answered fc rl])"
    unfolding fc by (rule request_parse_failure) (use t [unfolded fc] n m in \<open>simp_all add:
          as_StrapiResponse_def\<close>)
  then have q: "request (as_StrapiResponse env) c (uid c @ getQueryString env (Some (spread
        (spread (obj_of params) (filters_entry filters)) [(''locale'', QStr ''en'')]))) \<lparr>
        init_method = None, body = None, init_headers = [] \<rparr> h
           = ((Some (parse_error rl msg), None), h @ [answered fc rl])"
    by (simp add: as_StrapiResponse_def)
  from q p0 show "create_001 env c payload params loc filters h = (Fulfilled (Some (parse_error rl
        msg), None), h @ [answered fc rl])"
    by (simp add: create_001_def discover_001_def post_collection_001_def attach_001_def Let_def
          effective_locale_def)
qed

lemma create_001_base_parse_failure:
  "((effective_locale loc) \<noteq> ''en''
    \<and> discover_001 env c (obj_of params) filters h = ((None, enResponse), ha)
    \<and> base_documentId enResponse = None
    \<and> fc = fetch_call_of c (uid c) \<lparr> init_method = Some POST, body = Some
          (JSON_stringify (payload\<lparr> data := spread (data payload) [(''locale'', QStr
          ''en'')] \<rparr>)), init_headers = [] \<rparr>
    \<and> fetch_item env ha fc = Resolves ri
    \<and> ok ri
    \<and> resp_json ri = ParseFailure msg
   \<longrightarrow> create_001 env c payload params loc filters h = (Fulfilled (Some (parse_error
         ri msg), None), ha @ [answered fc ri]))"
proof (intro impI, elim conjE)
  assume p0: "(effective_locale loc) \<noteq> ''en''"
  assume p1: "discover_001 env c (obj_of params) filters h = ((None, enResponse), ha)"
  assume p2: "base_documentId enResponse = None"
  assume fc: "fc = fetch_call_of c (uid c) \<lparr> init_method = Some POST, body = Some
        (JSON_stringify (payload\<lparr> data := spread (data payload) [(''locale'', QStr ''en'')]
        \<rparr>)), init_headers = [] \<rparr>"
  assume t: "fetch_item env ha fc = Resolves ri"
  assume n: "ok ri"
  assume m: "resp_json ri = ParseFailure msg"
  have "request (as_StrapiSingleResponse env) c (uid c) \<lparr> init_method = Some POST, body =
        Some (JSON_stringify (payload\<lparr> data := spread (data payload) [(''locale'', QStr
        ''en'')] \<rparr>)), init_headers = [] \<rparr> ha
           = (if init_method \<lparr> init_method = Some POST, body = Some (JSON_stringify
                 (payload\<lparr> data := spread (data payload) [(''locale'', QStr ''en'')]
                 \<rparr>)), init_headers = [] \<rparr> = Some DELETE then (None, Some (data_null
                 (as_StrapiSingleResponse env)))
              else (Some (parse_error ri msg), None), ha @ [answered fc ri])"
    unfolding fc by (rule request_parse_failure) (use t [unfolded fc] n m in \<open>simp_all add:
          as_StrapiSingleResponse_def\<close>)
  then have q: "request (as_StrapiSingleResponse env) c (uid c) \<lparr> init_method = Some POST,
        body = Some (JSON_stringify (payload\<lparr> data := spread (data payload) [(''locale'',
        QStr ''en'')] \<rparr>)), init_headers = [] \<rparr> ha
           = ((Some (parse_error ri msg), None), ha @ [answered fc ri])"
    by (simp add: as_StrapiSingleResponse_def)
  from q p0 p1 p2 show "create_001 env c payload params loc filters h = (Fulfilled (Some
        (parse_error ri msg), None), ha @ [answered fc ri])"
    by (simp add: create_001_def discover_001_def post_collection_001_def attach_001_def Let_def
          effective_locale_def)
qed

lemma create_001_attach_found_parse_failure:
  "((effective_locale loc) \<noteq> ''en''
    \<and> discover_001 env c (obj_of params) filters h = ((None, enResponse), ha)
    \<and> base_documentId enResponse = Some d
    \<and> fc = fetch_call_of c (uid c @ ''/'' @ d @ ''?locale='' @ (effective_locale loc))
          \<lparr> init_method = Some PUT, body = Some (JSON_stringify payload), init_headers = []
          \<rparr>
    \<and> fetch_item env ha fc = Resolves ri
    \<and> ok ri
    \<and> resp_json ri = ParseFailure msg
   \<longrightarrow> create_001 env c payload params loc filters h = (Fulfilled (Some (parse_error
         ri msg), None), ha @ [answered fc ri]))"
proof (intro impI, elim conjE)
  assume p0: "(effective_locale loc) \<noteq> ''en''"
  assume p1: "discover_001 env c (obj_of params) filters h = ((None, enResponse), ha)"
  assume p2: "base_documentId enResponse = Some d"
  assume fc: "fc = fetch_call_of c (uid c @ ''/'' @ d @ ''?locale='' @ (effective_locale loc))
        \<lparr> init_method = Some PUT, body = Some (JSON_stringify payload), init_headers = []
        \<rparr>"
  assume t: "fetch_item env ha fc = Resolves ri"
  assume n: "ok ri"
  assume m: "resp_json ri = ParseFailure msg"
  have "request (as_StrapiSingleResponse env) c (uid c @ ''/'' @ d @ ''?locale='' @
        (effective_locale loc)) \<lparr> init_method = Some PUT, body = Some (JSON_stringify
        payload), init_headers = [] \<rparr> ha
           = (if init_method \<lparr> init_method = Some PUT, body = Some (JSON_stringify
                 payload), init_headers = [] \<rparr> = Some DELETE then (None, Some (data_null
                 (as_StrapiSingleResponse env)))
              else (Some (parse_error ri msg), None), ha @ [answered fc ri])"
    unfolding fc by (rule request_parse_failure) (use t [unfolded fc] n m in \<open>simp_all add:
          as_StrapiSingleResponse_def\<close>)
  then have q: "request (as_StrapiSingleResponse env) c (uid c @ ''/'' @ d @ ''?locale='' @
        (effective_locale loc)) \<lparr> init_method = Some PUT, body = Some (JSON_stringify
        payload), init_headers = [] \<rparr> ha
           = ((Some (parse_error ri msg), None), ha @ [answered fc ri])"
    by (simp add: as_StrapiSingleResponse_def)
  from q p0 p1 p2 show "create_001 env c payload params loc filters h = (Fulfilled (Some
        (parse_error ri msg), None), ha @ [answered fc ri])"
    by (simp add: create_001_def discover_001_def post_collection_001_def attach_001_def Let_def
          effective_locale_def)
qed

lemma create_001_attach_created_parse_failure:
  "((effective_locale loc) \<noteq> ''en''
    \<and> discover_001 env c (obj_of params) filters h = ((None, enResponse), ha)
    \<and> base_documentId enResponse = None
    \<and> post_collection_001 env c (payload\<lparr> data := spread (data payload) [(''locale'',
          QStr ''en'')] \<rparr>) ha = ((None, Some x), hb)
    \<and> item_data x = Some ent
    \<and> truthy_str (documentId ent)
    \<and> fc = fetch_call_of c (uid c @ ''/'' @ the (documentId ent) @ ''?locale='' @
          (effective_locale loc)) \<lparr> init_method = Some PUT, body = Some (JSON_stringify
          payload), init_headers = [] \<rparr>
    \<and> fetch_item env hb fc = Resolves ri
    \<and> ok ri
    \<and> resp_json ri = ParseFailure msg
   \<longrightarrow> create_001 env c payload params loc filters h = (Fulfilled (Some (parse_error
         ri msg), None), hb @ [answered fc ri]))"
proof (intro impI, elim conjE)
  assume p0: "(effective_locale loc) \<noteq> ''en''"
  assume p1: "discover_001 env c (obj_of params) filters h = ((None, enResponse), ha)"
  assume p2: "base_documentId enResponse = None"
  assume p3: "post_collection_001 env c (payload\<lparr> data := spread (data payload)
        [(''locale'', QStr ''en'')] \<rparr>) ha = ((None, Some x), hb)"
  assume p4: "item_data x = Some ent"
  assume p5: "truthy_str (documentId ent)"
  assume fc: "fc = fetch_call_of c (uid c @ ''/'' @ the (documentId ent) @ ''?locale='' @
        (effective_locale loc)) \<lparr> init_method = Some PUT, body = Some (JSON_stringify
        payload), init_headers = [] \<rparr>"
  assume t: "fetch_item env hb fc = Resolves ri"
  assume n: "ok ri"
  assume m: "resp_json ri = ParseFailure msg"
  have "request (as_StrapiSingleResponse env) c (uid c @ ''/'' @ the (documentId ent) @
        ''?locale='' @ (effective_locale loc)) \<lparr> init_method = Some PUT, body = Some
        (JSON_stringify payload), init_headers = [] \<rparr> hb
           = (if init_method \<lparr> init_method = Some PUT, body = Some (JSON_stringify
                 payload), init_headers = [] \<rparr> = Some DELETE then (None, Some (data_null
                 (as_StrapiSingleResponse env)))
              else (Some (parse_error ri msg), None), hb @ [answered fc ri])"
    unfolding fc by (rule request_parse_failure) (use t [unfolded fc] n m in \<open>simp_all add:
          as_StrapiSingleResponse_def\<close>)
  then have q: "request (as_StrapiSingleResponse env) c (uid c @ ''/'' @ the (documentId ent) @
        ''?locale='' @ (effective_locale loc)) \<lparr> init_method = Some PUT, body = Some
        (JSON_stringify payload), init_headers = [] \<rparr> hb
           = ((Some (parse_error ri msg), None), hb @ [answered fc ri])"
    by (simp add: as_StrapiSingleResponse_def)
  from q p0 p1 p2 p3 p4 p5 show "create_001 env c payload params loc filters h = (Fulfilled (Some
        (parse_error ri msg), None), hb @ [answered fc ri])"
    by (simp add: create_001_def discover_001_def post_collection_001_def attach_001_def Let_def
          effective_locale_def)
qed

lemma upsert_000_search_parse_failure:
  "(fc = fetch_call_of c (uid c @ getQueryString env (Some (spread (obj_of (Some (spread (spread
        (spread (obj_of params) (filters_entry filters)) [(''pagination'', QObj [(''pageSize'',
        QNum 1)])]) (locale_entry (Some (effective_locale loc)))))) (locale_entry (Some
        (effective_locale loc)))))) \<lparr> init_method = Some GET, body = None, init_headers =
        [] \<rparr>
    \<and> fetch_list env h fc = Resolves rl
    \<and> ok rl
    \<and> resp_json rl = ParseFailure msg
   \<longrightarrow> upsert_000 env c loc payload filters params h = (Fulfilled (Some (parse_error
         rl msg), None), h @ [answered fc rl]))"
proof (intro impI, elim conjE)
  assume fc: "fc = fetch_call_of c (uid c @ getQueryString env (Some (spread (obj_of (Some (spread
        (spread (spread (obj_of params) (filters_entry filters)) [(''pagination'', QObj
        [(''pageSize'', QNum 1)])]) (locale_entry (Some (effective_locale loc)))))) (locale_entry
        (Some (effective_locale loc)))))) \<lparr> init_method = Some GET, body = None,
        init_headers = [] \<rparr>"
  assume t: "fetch_list env h fc = Resolves rl"
  assume n: "ok rl"
  assume m: "resp_json rl = ParseFailure msg"
  have "request (as_StrapiResponse env) c (uid c @ getQueryString env (Some (spread (obj_of (Some
        (spread (spread (spread (obj_of params) (filters_entry filters)) [(''pagination'', QObj
        [(''pageSize'', QNum 1)])]) (locale_entry (Some (effective_locale loc)))))) (locale_entry
        (Some (effective_locale loc)))))) \<lparr> init_method = Some GET, body = None,
        init_headers = [] \<rparr> h
           = (if init_method \<lparr> init_method = Some GET, body = None, init_headers = []
                 \<rparr> = Some DELETE then (None, Some (data_null (as_StrapiResponse env)))
              else (Some (parse_error rl msg), None), h @ [answered fc rl])"
    unfolding fc by (rule request_parse_failure) (use t [unfolded fc] n m in \<open>simp_all add:
          as_StrapiResponse_def\<close>)
  then have q: "request (as_StrapiResponse env) c (uid c @ getQueryString env (Some (spread
        (obj_of (Some (spread (spread (spread (obj_of params) (filters_entry filters))
        [(''pagination'', QObj [(''pageSize'', QNum 1)])]) (locale_entry (Some (effective_locale
        loc)))))) (locale_entry (Some (effective_locale loc)))))) \<lparr> init_method = Some GET,
        body = None, init_headers = [] \<rparr> h
           = ((Some (parse_error rl msg), None), h @ [answered fc rl])"
    by (simp add: as_StrapiResponse_def)
  from q  show "upsert_000 env c loc payload filters params h = (Fulfilled (Some (parse_error rl
        msg), None), h @ [answered fc rl])"
    by (simp add: upsert_000_def findMany_def Let_def effective_locale_def)
qed

lemma upsert_000_update_parse_failure:
  "(findMany env c (Some (spread (spread (spread (obj_of params) (filters_entry filters))
        [(''pagination'', QObj [(''pageSize'', QNum 1)])]) (locale_entry (Some (effective_locale
        loc))))) (Some (effective_locale loc)) h = ((None, Some (m # rest)), ha)
    \<and> fc = fetch_call_of c (uid c @ ''/'' @ template_id (case documentId m of Some d
          \<Rightarrow> IdStr d | None \<Rightarrow> IdUndefined) @ getQueryString env (Some
          (spread (obj_of params) (locale_entry (Some (effective_locale loc)))))) \<lparr>
          init_method = Some PUT, body = Some (JSON_stringify payload), init_headers = [] \<rparr>
    \<and> fetch_item env ha fc = Resolves ri
    \<and> ok ri
    \<and> resp_json ri = ParseFailure msg
   \<longrightarrow> upsert_000 env c loc payload filters params h = (Fulfilled (Some (parse_error
         ri msg), None), ha @ [answered fc ri]))"
proof (intro impI, elim conjE)
  assume p0: "findMany env c (Some (spread (spread (spread (obj_of params) (filters_entry
        filters)) [(''pagination'', QObj [(''pageSize'', QNum 1)])]) (locale_entry (Some
        (effective_locale loc))))) (Some (effective_locale loc)) h = ((None, Some (m # rest)),
        ha)"
  assume fc: "fc = fetch_call_of c (uid c @ ''/'' @ template_id (case documentId m of Some d
        \<Rightarrow> IdStr d | None \<Rightarrow> IdUndefined) @ getQueryString env (Some (spread
        (obj_of params) (locale_entry (Some (effective_locale loc)))))) \<lparr> init_method =
        Some PUT, body = Some (JSON_stringify payload), init_headers = [] \<rparr>"
  assume t: "fetch_item env ha fc = Resolves ri"
  assume n: "ok ri"
  assume m: "resp_json ri = ParseFailure msg"
  have "request (as_StrapiSingleResponse env) c (uid c @ ''/'' @ template_id (case documentId m of
        Some d \<Rightarrow> IdStr d | None \<Rightarrow> IdUndefined) @ getQueryString env (Some
        (spread (obj_of params) (locale_entry (Some (effective_locale loc)))))) \<lparr>
        init_method = Some PUT, body = Some (JSON_stringify payload), init_headers = [] \<rparr>
        ha
           = (if init_method \<lparr> init_method = Some PUT, body = Some (JSON_stringify
                 payload), init_headers = [] \<rparr> = Some DELETE then (None, Some (data_null
                 (as_StrapiSingleResponse env)))
              else (Some (parse_error ri msg), None), ha @ [answered fc ri])"
    unfolding fc by (rule request_parse_failure) (use t [unfolded fc] n m in \<open>simp_all add:
          as_StrapiSingleResponse_def\<close>)
  then have q: "request (as_StrapiSingleResponse env) c (uid c @ ''/'' @ template_id (case
        documentId m of Some d \<Rightarrow> IdStr d | None \<Rightarrow> IdUndefined) @
        getQueryString env (Some (spread (obj_of params) (locale_entry (Some (effective_locale
        loc)))))) \<lparr> init_method = Some PUT, body = Some (JSON_stringify payload),
        init_headers = [] \<rparr> ha
           = ((Some (parse_error ri msg), None), ha @ [answered fc ri])"
    by (simp add: as_StrapiSingleResponse_def)
  from q p0 show "upsert_000 env c loc payload filters params h = (Fulfilled (Some (parse_error ri
        msg), None), ha @ [answered fc ri])"
    by (cases "documentId m") (simp_all add: upsert_000_def update_000_def obj_of_Some Let_def
          effective_locale_def)
qed

lemma upsert_000_continues_as_create:
  "(findMany env c (Some (spread (spread (spread (obj_of params) (filters_entry filters))
        [(''pagination'', QObj [(''pageSize'', QNum 1)])]) (locale_entry (Some (effective_locale
        loc))))) (Some (effective_locale loc)) h = ((None, Some []), ha)
    \<longrightarrow> upsert_000 env c loc payload filters params h = create_000 env c payload
          (Some (obj_of params)) (Some (effective_locale loc)) filters ha)"
  by (simp add: upsert_000_def Let_def effective_locale_def)

lemma upsert_001_search_parse_failure:
  "(fc = fetch_call_of c (uid c @ getQueryString env (Some (spread (obj_of (Some (spread (spread
        (spread (obj_of params) (filters_entry filters)) [(''pagination'', QObj [(''pageSize'',
        QNum 1)])]) (locale_entry (Some (effective_locale loc)))))) (locale_entry (Some
        (effective_locale loc)))))) \<lparr> init_method = Some GET, body = None, init_headers =
        [] \<rparr>
    \<and> fetch_list env h fc = Resolves rl
    \<and> ok rl
    \<and> resp_json rl = ParseFailure msg
   \<longrightarrow> upsert_001 env c payload filters params loc h = (Fulfilled (Some (parse_error
         rl msg), None), h @ [answered fc rl]))"
proof (intro impI, elim conjE)
  assume fc: "fc = fetch_call_of c (uid c @ getQueryString env (Some (spread (obj_of (Some (spread
        (spread (spread (obj_of params) (filters_entry filters)) [(''pagination'', QObj
        [(''pageSize'', QNum 1)])]) (locale_entry (Some (effective_locale loc)))))) (locale_entry
        (Some (effective_locale loc)))))) \<lparr> init_method = Some GET, body = None,
        init_headers = [] \<rparr>"
  assume t: "fetch_list env h fc = Resolves rl"
  assume n: "ok rl"
  assume m: "resp_json rl = ParseFailure msg"
  have "request (as_StrapiResponse env) c (uid c @ getQueryString env (Some (spread (obj_of (Some
        (spread (spread (spread (obj_of params) (filters_entry filters)) [(''pagination'', QObj
        [(''pageSize'', QNum 1)])]) (locale_entry (Some (effective_locale loc)))))) (locale_entry
        (Some (effective_locale loc)))))) \<lparr> init_method = Some GET, body = None,
        init_headers = [] \<rparr> h
           = (if init_method \<lparr> init_method = Some GET, body = None, init_headers = []
                 \<rparr> = Some DELETE then (None, Some (data_null (as_StrapiResponse env)))
              else (Some (parse_error rl msg), None), h @ [answered fc rl])"
    unfolding fc by (rule request_parse_failure) (use t [unfolded fc] n m in \<open>simp_all add:
          as_StrapiResponse_def\<close>)
  then have q: "request (as_StrapiResponse env) c (uid c @ getQueryString env (Some (spread
        (obj_of (Some (spread (spread (spread (obj_of params) (filters_entry filters))
        [(''pagination'', QObj [(''pageSize'', QNum 1)])]) (locale_entry (Some (effective_locale
        loc)))))) (locale_entry (Some (effective_locale loc)))))) \<lparr> init_method = Some GET,
        body = None, init_headers = [] \<rparr> h
           = ((Some (parse_error rl msg), None), h @ [answered fc rl])"
    by (simp add: as_StrapiResponse_def)
  from q  show "upsert_001 env c payload filters params loc h = (Fulfilled (Some (parse_error rl
        msg), None), h @ [answered fc rl])"
    by (simp add: upsert_001_def findMany_def Let_def effective_locale_def)
qed

lemma upsert_001_update_parse_failure:
  "(findMany env c (Some (spread (spread (spread (obj_of params) (filters_entry filters))
        [(''pagination'', QObj [(''pageSize'', QNum 1)])]) (locale_entry (Some (effective_locale
        loc))))) (Some (effective_locale loc)) h = ((None, Some (m # rest)), ha)
    \<and> fc = fetch_call_of c ((if (effective_locale loc) = ''en'' then uid c @ ''/'' @
          template_id (case documentId m of Some d \<Rightarrow> IdStr d | None \<Rightarrow>
          entity_id m) else uid c @ ''/'' @ template_id (case documentId m of Some d \<Rightarrow>
          IdStr d | None \<Rightarrow> entity_id m) @ ''?locale='' @ (effective_locale loc)))
          \<lparr> init_method = Some PUT, body = Some (JSON_stringify payload), init_headers = []
          \<rparr>
    \<and> fetch_item env ha fc = Resolves ri
    \<and> ok ri
    \<and> resp_json ri = ParseFailure msg
   \<longrightarrow> upsert_001 env c payload filters params loc h = (Fulfilled (Some (parse_error
         ri msg), None), ha @ [answered fc ri]))"
proof (intro impI, elim conjE)
  assume p0: "findMany env c (Some (spread (spread (spread (obj_of params) (filters_entry
        filters)) [(''pagination'', QObj [(''pageSize'', QNum 1)])]) (locale_entry (Some
        (effective_locale loc))))) (Some (effective_locale loc)) h = ((None, Some (m # rest)),
        ha)"
  assume fc: "fc = fetch_call_of c ((if (effective_locale loc) = ''en'' then uid c @ ''/'' @
        template_id (case documentId m of Some d \<Rightarrow> IdStr d | None \<Rightarrow>
        entity_id m) else uid c @ ''/'' @ template_id (case documentId m of Some d \<Rightarrow>
        IdStr d | None \<Rightarrow> entity_id m) @ ''?locale='' @ (effective_locale loc)))
        \<lparr> init_method = Some PUT, body = Some (JSON_stringify payload), init_headers = []
        \<rparr>"
  assume t: "fetch_item env ha fc = Resolves ri"
  assume n: "ok ri"
  assume m: "resp_json ri = ParseFailure msg"
  have "request (as_StrapiSingleResponse env) c ((if (effective_locale loc) = ''en'' then uid c @
        ''/'' @ template_id (case documentId m of Some d \<Rightarrow> IdStr d | None
        \<Rightarrow> entity_id m) else uid c @ ''/'' @ template_id (case documentId m of Some d
        \<Rightarrow> IdStr d | None \<Rightarrow> entity_id m) @ ''?locale='' @ (effective_locale
        loc))) \<lparr> init_method = Some PUT, body = Some (JSON_stringify payload), init_headers
        = [] \<rparr> ha
           = (if init_method \<lparr> init_method = Some PUT, body = Some (JSON_stringify
                 payload), init_headers = [] \<rparr> = Some DELETE then (None, Some (data_null
                 (as_StrapiSingleResponse env)))
              else (Some (parse_error ri msg), None), ha @ [answered fc ri])"
    unfolding fc by (rule request_parse_failure) (use t [unfolded fc] n m in \<open>simp_all add:
          as_StrapiSingleResponse_def\<close>)
  then have q: "request (as_StrapiSingleResponse env) c ((if (effective_locale loc) = ''en'' then
        uid c @ ''/'' @ template_id (case documentId m of Some d \<Rightarrow> IdStr d | None
        \<Rightarrow> entity_id m) else uid c @ ''/'' @ template_id (case documentId m of Some d
        \<Rightarrow> IdStr d | None \<Rightarrow> entity_id m) @ ''?locale='' @ (effective_locale
        loc))) \<lparr> init_method = Some PUT, body = Some (JSON_stringify payload), init_headers
        = [] \<rparr> ha
           = ((Some (parse_error ri msg), None), ha @ [answered fc ri])"
    by (simp add: as_StrapiSingleResponse_def)
  from q p0 show "upsert_001 env c payload filters params loc h = (Fulfilled (Some (parse_error ri
        msg), None), ha @ [answered fc ri])"
    by (cases "effective_locale loc = ''en''") (simp_all add: upsert_001_def update_001_def
          obj_of_Some Let_def effective_locale_def)
qed

lemma upsert_001_continues_as_create:
  "(findMany env c (Some (spread (spread (spread (obj_of params) (filters_entry filters))
        [(''pagination'', QObj [(''pageSize'', QNum 1)])]) (locale_entry (Some (effective_locale
        loc))))) (Some (effective_locale loc)) h = ((None, Some []), ha)
    \<longrightarrow> upsert_001 env c payload filters params loc h = create_001 env c payload
          (Some (obj_of params)) (Some (effective_locale loc)) filters ha)"
  by (simp add: upsert_001_def Let_def effective_locale_def)

text \<open>
  C5. When a response with a success status has a body that fails to parse, \<open>request\<close>
  treats it as the empty payload \<open>{ data: null }\<close> if the method is DELETE, and
  otherwise returns an error whose message carries the parse failure's text and whose
  status is the response's code, with null data, after exactly one call. Both variants of
  \<open>delete\<close> then return \<open>[null, null]\<close>. Every other operation stops at
        the first
  step whose body fails to parse and returns that step's error with null data. For each
  operation and each of its steps this is stated from the transport's own answer: when the
  transport answers the call of that step with such a response, the operation returns the
  parse error built from it with null data (a delete returns \<open>[null, null]\<close>), and its
  log is the log before that call followed by the one event of that call.
\<close>

theorem unparsable_body_handling:
  "(transport R h fc = Resolves r \<and> ok r \<and> resp_json r = ParseFailure msg
      \<and> fc = \<lparr> call_url = baseURL c @ ''/'' @ strip_leading_slashes endpoint,
                call_method = init_method options, call_body = body options,
                call_headers = spread (headers c) (init_headers options) \<rparr>
     \<longrightarrow> request R c endpoint options h =
           (if init_method options = Some DELETE then (None, Some (data_null R))
            else (Some \<lparr> message = ''Strapi API error: Failed to parse JSON response - '' @
                  msg,
                          status = Some (resp_status r) \<rparr>, None),
            h @ [\<lparr> call = fc, outcome = Resolves (map_response (\<lambda>_. ()) r)
                  \<rparr>]))
   \<and> (snd (delete_000 env c idt loc h) = h @ [ev] \<and> outcome ev = Resolves r'
        \<and> ok r' \<and> resp_json r' = ParseFailure msg'
       \<longrightarrow> fst (delete_000 env c idt loc h) = (None, None))
   \<and> (snd (delete_001 env c idt h) = h @ [ev] \<and> outcome ev = Resolves r'
        \<and> ok r' \<and> resp_json r' = ParseFailure msg'
       \<longrightarrow> fst (delete_001 env c idt h) = (None, None))
   \<and> stops_at parse_failure h (Fulfilled (fst (findMany env c params loc h)))
         (snd (findMany env c params loc h))
   \<and> stops_at parse_failure h (Fulfilled (fst (find_op env c idt params loc h)))
         (snd (find_op env c idt params loc h))
   \<and> stops_at parse_failure h (fst (create_000 env c payload params loc filters h))
         (snd (create_000 env c payload params loc filters h))
   \<and> stops_at parse_failure h (Fulfilled (fst (update_000 env c idt payload params loc h)))
         (snd (update_000 env c idt payload params loc h))
   \<and> stops_at parse_failure h (fst (upsert_000 env c loc payload filters params h))
         (snd (upsert_000 env c loc payload filters params h))
   \<and> stops_at parse_failure h (fst (create_001 env c payload params loc filters h))
         (snd (create_001 env c payload params loc filters h))
   \<and> stops_at parse_failure h (Fulfilled (fst (update_001 env c idt payload params loc h)))
         (snd (update_001 env c idt payload params loc h))
   \<and> stops_at parse_failure h (fst (upsert_001 env c payload filters params loc h))
         (snd (upsert_001 env c payload filters params loc h))
   \<and> (fc = fetch_call_of c (uid c @ getQueryString env (Some (spread (obj_of params)
         (locale_entry loc)))) \<lparr> init_method = Some GET, body = None, init_headers = []
         \<rparr>
       \<and> fetch_list env h fc = Resolves rl
       \<and> ok rl
       \<and> resp_json rl = ParseFailure msg
      \<longrightarrow> findMany env c params loc h = ((Some (parse_error rl msg), None), h @
            [answered fc rl]))
   \<and> (truthy_id idt
       \<and> fc = fetch_call_of c (uid c @ ''/'' @ template_id idt @ getQueryString env (Some
             (spread (obj_of params) (locale_entry loc)))) \<lparr> init_method = Some GET, body =
             None, init_headers = [] \<rparr>
       \<and> fetch_item env h fc = Resolves ri
       \<and> ok ri
       \<and> resp_json ri = ParseFailure msg
      \<longrightarrow> find_op env c idt params loc h = ((Some (parse_error ri msg), None), h @
            [answered fc ri]))
   \<and> (\<not> truthy_id idt
       \<and> fc = fetch_call_of c (uid c @ getQueryString env (Some (spread (obj_of params)
             (locale_entry loc)))) \<lparr> init_method = Some GET, body = None, init_headers = []
             \<rparr>
       \<and> fetch_list env h fc = Resolves rl
       \<and> ok rl
       \<and> resp_json rl = ParseFailure msg
      \<longrightarrow> find_op env c idt params loc h = ((Some (parse_error rl msg), None), h @
            [answered fc rl]))
   \<and> (fc = fetch_call_of c (uid c @ ''/'' @ template_id idt @ getQueryString env (Some
         (spread (obj_of params) (locale_entry (Some (effective_locale loc)))))) \<lparr>
         init_method = Some PUT, body = Some (JSON_stringify payload), init_headers = [] \<rparr>
       \<and> fetch_item env h fc = Resolves ri
       \<and> ok ri
       \<and> resp_json ri = ParseFailure msg
      \<longrightarrow> update_000 env c idt payload params loc h = ((Some (parse_error ri msg),
            None), h @ [answered fc ri]))
   \<and> (fc = fetch_call_of c (uid c @ ''/'' @ template_id idt @ getQueryString env (Some
         (spread [] (locale_entry loc)))) \<lparr> init_method = Some DELETE, body = None,
         init_headers = [] \<rparr>
       \<and> fetch_item env h fc = Resolves ri
       \<and> ok ri
       \<and> resp_json ri = ParseFailure msg
      \<longrightarrow> delete_000 env c idt loc h = ((None, None), h @ [answered fc ri]))
   \<and> (fc = fetch_call_of c ((if (effective_locale loc) = ''en'' then uid c @ ''/'' @
         template_id idt else uid c @ ''/'' @ template_id idt @ ''?locale='' @ (effective_locale
         loc))) \<lparr> init_method = Some PUT, body = Some (JSON_stringify payload),
         init_headers = [] \<rparr>
       \<and> fetch_item env h fc = Resolves ri
       \<and> ok ri
       \<and> resp_json ri = ParseFailure msg
      \<longrightarrow> update_001 env c idt payload params loc h = ((Some (parse_error ri msg),
            None), h @ [answered fc ri]))
   \<and> (fc = fetch_call_of c (uid c @ ''/'' @ template_id idt) \<lparr> init_method = Some
         DELETE, body = None, init_headers = [] \<rparr>
       \<and> fetch_item env h fc = Resolves ri
       \<and> ok ri
       \<and> resp_json ri = ParseFailure msg
      \<longrightarrow> delete_001 env c idt h = ((None, None), h @ [answered fc ri]))
   \<and> ((effective_locale loc) = ''en''
       \<and> fc = fetch_call_of c (uid c @ getQueryString env (Some (obj_of params))) \<lparr>
             init_method = Some POST, body = Some (JSON_stringify payload), init_headers = []
             \<rparr>
       \<and> fetch_item env h fc = Resolves ri
       \<and> ok ri
       \<and> resp_json ri = ParseFailure msg
      \<longrightarrow> create_000 env c payload params loc filters h = (Fulfilled (Some
            (parse_error ri msg), None), h @ [answered fc ri]))
   \<and> ((effective_locale loc) \<noteq> ''en''
       \<and> fc = fetch_call_of c (uid c @ getQueryString env (Some (spread (obj_of params)
             (filters_entry filters)))) \<lparr> init_method = None, body = None, init_headers =
             [] \<rparr>
       \<and> fetch_list env h fc = Resolves rl
       \<and> ok rl
       \<and> resp_json rl = ParseFailure msg
      \<longrightarrow> create_000 env c payload params loc filters h = (Fulfilled (Some
            (parse_error rl msg), None), h @ [answered fc rl]))
   \<and> ((effective_locale loc) \<noteq> ''en''
       \<and> discover_000 env c (obj_of params) filters h = ((None, enResponse), ha)
       \<and> base_documentId enResponse = None
       \<and> fc = fetch_call_of c (uid c @ getQueryString env (Some (obj_of params))) \<lparr>
             init_method = Some POST, body = Some (JSON_stringify payload), init_headers = []
             \<rparr>
       \<and> fetch_item env ha fc = Resolves ri
       \<and> ok ri
       \<and> resp_json ri = ParseFailure msg
      \<longrightarrow> create_000 env c payload params loc filters h = (Fulfilled (Some
            (parse_error ri msg), None), ha @ [answered fc ri]))
   \<and> ((effective_locale loc) \<noteq> ''en''
       \<and> discover_000 env c (obj_of params) filters h = ((None, enResponse), ha)
       \<and> base_documentId enResponse = Some d
       \<and> fc = fetch_call_of c (uid c @ ''/'' @ d @ getQueryString env (Some (spread (obj_of
             params) [(''locale'', QStr (effective_locale loc))]))) \<lparr> init_method = Some
             POST, body = Some (JSON_stringify payload), init_headers = [] \<rparr>
       \<and> fetch_item env ha fc = Resolves ri
       \<and> ok ri
       \<and> resp_json ri = ParseFailure msg
      \<longrightarrow> create_000 env c payload params loc filters h = (Fulfilled (Some
            (parse_error ri msg), None), ha @ [answered fc ri]))
   \<and> ((effective_locale loc) \<noteq> ''en''
       \<and> discover_000 env c (obj_of params) filters h = ((None, enResponse), ha)
       \<and> base_documentId enResponse = None
       \<and> post_collection_000 env c payload (getQueryString env (Some (obj_of params))) ha =
             ((None, Some x), hb)
       \<and> item_data x = Some ent
       \<and> truthy_str (documentId ent)
       \<and> fc = fetch_call_of c (uid c @ ''/'' @ the (documentId ent) @ getQueryString env
             (Some (spread (obj_of params) [(''locale'', QStr (effective_locale loc))]))) \<lparr>
             init_method = Some POST, body = Some (JSON_stringify payload), init_headers = []
             \<rparr>
       \<and> fetch_item env hb fc = Resolves ri
       \<and> ok ri
       \<and> resp_json ri = ParseFailure msg
      \<longrightarrow> create_000 env c payload params loc filters h = (Fulfilled (Some
            (parse_error ri msg), None), hb @ [answered fc ri]))
   \<and> ((effective_locale loc) = ''en''
       \<and> fc = fetch_call_of c (uid c) \<lparr> init_method = Some POST, body = Some
             (JSON_stringify payload), init_headers = [] \<rparr>
       \<and> fetch_item env h fc = Resolves ri
       \<and> ok ri
       \<and> resp_json ri = ParseFailure msg
      \<longrightarrow> create_001 env c payload params loc filters h = (Fulfilled (Some
            (parse_error ri msg), None), h @ [answered fc ri]))
   \<and> ((effective_locale loc) \<noteq> ''en''
       \<and> fc = fetch_call_of c (uid c @ getQueryString env (Some (spread (spread (obj_of
             params) (filters_entry filters)) [(''locale'', QStr ''en'')]))) \<lparr> init_method
             = None, body = None, init_headers = [] \<rparr>
       \<and> fetch_list env h fc = Resolves rl
       \<and> ok rl
       \<and> resp_json rl = ParseFailure msg
      \<longrightarrow> create_001 env c payload params loc filters h = (Fulfilled (Some
            (parse_error rl msg), None), h @ [answered fc rl]))
   \<and> ((effective_locale loc) \<noteq> ''en''
       \<and> discover_001 env c (obj_of params) filters h = ((None, enResponse), ha)
       \<and> base_documentId enResponse = None
       \<and> fc = fetch_call_of c (uid c) \<lparr> init_method = Some POST, body = Some
             (JSON_stringify (payload\<lparr> data := spread (data payload) [(''locale'', QStr
             ''en'')] \<rparr>)), init_headers = [] \<rparr>
       \<and> fetch_item env ha fc = Resolves ri
       \<and> ok ri
       \<and> resp_json ri = ParseFailure msg
      \<longrightarrow> create_001 env c payload params loc filters h = (Fulfilled (Some
            (parse_error ri msg), None), ha @ [answered fc ri]))
   \<and> ((effective_locale loc) \<noteq> ''en''
       \<and> discover_001 env c (obj_of params) filters h = ((None, enResponse), ha)
       \<and> base_documentId enResponse = Some d
       \<and> fc = fetch_call_of c (uid c @ ''/'' @ d @ ''?locale='' @ (effective_locale loc))
             \<lparr> init_method = Some PUT, body = Some (JSON_stringify payload), init_headers =
             [] \<rparr>
       \<and> fetch_item env ha fc = Resolves ri
       \<and> ok ri
       \<and> resp_json ri = ParseFailure msg
      \<longrightarrow> create_001 env c payload params loc filters h = (Fulfilled (Some
            (parse_error ri msg), None), ha @ [answered fc ri]))
   \<and> ((effective_locale loc) \<noteq> ''en''
       \<and> discover_001 env c (obj_of params) filters h = ((None, enResponse), ha)
       \<and> base_documentId enResponse = None
       \<and> post_collection_001 env c (payload\<lparr> data := spread (data payload)
             [(''locale'', QStr ''en'')] \<rparr>) ha = ((None, Some x), hb)
       \<and> item_data x = Some ent
       \<and> truthy_str (documentId ent)
       \<and> fc = fetch_call_of c (uid c @ ''/'' @ the (documentId ent) @ ''?locale='' @
             (effective_locale loc)) \<lparr> init_method = Some PUT, body = Some (JSON_stringify
             payload), init_headers = [] \<rparr>
       \<and> fetch_item env hb fc = Resolves ri
       \<and> ok ri
       \<and> resp_json ri = ParseFailure msg
      \<longrightarrow> create_001 env c payload params loc filters h = (Fulfilled (Some
            (parse_error ri msg), None), hb @ [answered fc ri]))
   \<and> (fc = fetch_call_of c (uid c @ getQueryString env (Some (spread (obj_of (Some (spread
         (spread (spread (obj_of params) (filters_entry filters)) [(''pagination'', QObj
         [(''pageSize'', QNum 1)])]) (locale_entry (Some (effective_locale loc)))))) (locale_entry
         (Some (effective_locale loc)))))) \<lparr> init_method = Some GET, body = None,
         init_headers = [] \<rparr>
       \<and> fetch_list env h fc = Resolves rl
       \<and> ok rl
       \<and> resp_json rl = ParseFailure msg
      \<longrightarrow> upsert_000 env c loc payload filters params h = (Fulfilled (Some
            (parse_error rl msg), None), h @ [answered fc rl]))
   \<and> (findMany env c (Some (spread (spread (spread (obj_of params) (filters_entry filters))
         [(''pagination'', QObj [(''pageSize'', QNum 1)])]) (locale_entry (Some (effective_locale
         loc))))) (Some (effective_locale loc)) h = ((None, Some (m # rest)), ha)
       \<and> fc = fetch_call_of c (uid c @ ''/'' @ template_id (case documentId m of Some d
             \<Rightarrow> IdStr d | None \<Rightarrow> IdUndefined) @ getQueryString env (Some
             (spread (obj_of params) (locale_entry (Some (effective_locale loc)))))) \<lparr>
             init_method = Some PUT, body = Some (JSON_stringify payload), init_headers = []
             \<rparr>
       \<and> fetch_item env ha fc = Resolves ri
       \<and> ok ri
       \<and> resp_json ri = ParseFailure msg
      \<longrightarrow> upsert_000 env c loc payload filters params h = (Fulfilled (Some
            (parse_error ri msg), None), ha @ [answered fc ri]))
   \<and> (findMany env c (Some (spread (spread (spread (obj_of params) (filters_entry filters))
         [(''pagination'', QObj [(''pageSize'', QNum 1)])]) (locale_entry (Some (effective_locale
         loc))))) (Some (effective_locale loc)) h = ((None, Some []), ha)
       \<longrightarrow> upsert_000 env c loc payload filters params h = create_000 env c payload
             (Some (obj_of params)) (Some (effective_locale loc)) filters ha)
   \<and> (fc = fetch_call_of c (uid c @ getQueryString env (Some (spread (obj_of (Some (spread
         (spread (spread (obj_of params) (filters_entry filters)) [(''pagination'', QObj
         [(''pageSize'', QNum 1)])]) (locale_entry (Some (effective_locale loc)))))) (locale_entry
         (Some (effective_locale loc)))))) \<lparr> init_method = Some GET, body = None,
         init_headers = [] \<rparr>
       \<and> fetch_list env h fc = Resolves rl
       \<and> ok rl
       \<and> resp_json rl = ParseFailure msg
      \<longrightarrow> upsert_001 env c payload filters params loc h = (Fulfilled (Some
            (parse_error rl msg), None), h @ [answered fc rl]))
   \<and> (findMany env c (Some (spread (spread (spread (obj_of params) (filters_entry filters))
         [(''pagination'', QObj [(''pageSize'', QNum 1)])]) (locale_entry (Some (effective_locale
         loc))))) (Some (effective_locale loc)) h = ((None, Some (m # rest)), ha)
       \<and> fc = fetch_call_of c ((if (effective_locale loc) = ''en'' then uid c @ ''/'' @
             template_id (case documentId m of Some d \<Rightarrow> IdStr d | None \<Rightarrow>
             entity_id m) else uid c @ ''/'' @ template_id (case documentId m of Some d
             \<Rightarrow> IdStr d | None \<Rightarrow> entity_id m) @ ''?locale='' @
             (effective_locale loc))) \<lparr> init_method = Some PUT, body = Some (JSON_stringify
             payload), init_headers = [] \<rparr>
       \<and> fetch_item env ha fc = Resolves ri
       \<and> ok ri
       \<and> resp_json ri = ParseFailure msg
      \<longrightarrow> upsert_001 env c payload filters params loc h = (Fulfilled (Some
            (parse_error ri msg), None), ha @ [answered fc ri]))
   \<and> (findMany env c (Some (spread (spread (spread (obj_of params) (filters_entry filters))
         [(''pagination'', QObj [(''pageSize'', QNum 1)])]) (locale_entry (Some (effective_locale
         loc))))) (Some (effective_locale loc)) h = ((None, Some []), ha)
       \<longrightarrow> upsert_001 env c payload filters params loc h = create_001 env c payload
             (Some (obj_of params)) (Some (effective_locale loc)) filters ha)"
proof -
  have r: "transport R h fc = Resolves r \<and> ok r \<and> resp_json r = ParseFailure msg
      \<and> fc = \<lparr> call_url = baseURL c @ ''/'' @ strip_leading_slashes endpoint,
                call_method = init_method options, call_body = body options,
                call_headers = spread (headers c) (init_headers options) \<rparr>
     \<longrightarrow> request R c endpoint options h =
           (if init_method options = Some DELETE then (None, Some (data_null R))
            else (Some \<lparr> message = ''Strapi API error: Failed to parse JSON response - '' @
                  msg,
                          status = Some (resp_status r) \<rparr>, None),
            h @ [\<lparr> call = fc, outcome = Resolves (map_response (\<lambda>_. ()) r)
                  \<rparr>])"
    using request_unparsable [of R h fc r msg c endpoint options] by blast
  have d0: "snd (delete_000 env c idt loc h) = h @ [ev] \<and> outcome ev = Resolves r'
        \<and> ok r' \<and> resp_json r' = ParseFailure msg'
       \<longrightarrow> fst (delete_000 env c idt loc h) = (None, None)"
  proof (intro impI, elim conjE)
    assume a: "snd (delete_000 env c idt loc h) = h @ [ev]" "outcome ev = Resolves r'"
      "ok r'" "resp_json r' = ParseFailure msg'"
    from a(1) have "snd (request (as_StrapiSingleResponse env) c
               (uid c @ ''/'' @ template_id idt
                  @ getQueryString env (Some (spread [] (locale_entry loc))))
               \<lparr> init_method = Some DELETE, body = None, init_headers = [] \<rparr> h) = h
                     @ [ev]"
      by (simp add: delete_000_def Let_def split_beta split: option.splits)
    from request_delete_unparsable [OF this a(2,3,4)]
    show "fst (delete_000 env c idt loc h) = (None, None)"
      by (simp add: delete_000_def Let_def split_beta as_StrapiSingleResponse_def)
  qed
  have d1: "snd (delete_001 env c idt h) = h @ [ev] \<and> outcome ev = Resolves r'
        \<and> ok r' \<and> resp_json r' = ParseFailure msg'
       \<longrightarrow> fst (delete_001 env c idt h) = (None, None)"
  proof (intro impI, elim conjE)
    assume a: "snd (delete_001 env c idt h) = h @ [ev]" "outcome ev = Resolves r'"
      "ok r'" "resp_json r' = ParseFailure msg'"
    from a(1) have "snd (request (as_StrapiSingleResponse env) c
               (uid c @ ''/'' @ template_id idt)
               \<lparr> init_method = Some DELETE, body = None, init_headers = [] \<rparr> h) = h
                     @ [ev]"
      by (simp add: delete_001_def Let_def split_beta split: option.splits)
    from request_delete_unparsable [OF this a(2,3,4)]
    show "fst (delete_001 env c idt h) = (None, None)"
      by (simp add: delete_001_def Let_def split_beta as_StrapiSingleResponse_def)
  qed
  note w = stops_weaken [where cls = parse_failure, OF _ parse_failure_step]
  show ?thesis
    by (intro conjI r d0 d1 w findMany_stops find_stops create_000_stops update_000_stops
          upsert_000_stops create_001_stops update_001_stops upsert_001_stops
          findMany_parse_failure find_id_parse_failure find_no_id_parse_failure
          update_000_parse_failure delete_000_parse_failure update_001_parse_failure
                delete_001_parse_failure create_000_default_parse_failure
                create_000_search_parse_failure create_000_base_parse_failure
                create_000_attach_found_parse_failure create_000_attach_created_parse_failure
          create_001_default_parse_failure
          create_001_search_parse_failure
          create_001_base_parse_failure
          create_001_attach_found_parse_failure
          create_001_attach_created_parse_failure
          upsert_000_search_parse_failure
          upsert_000_update_parse_failure
          upsert_000_continues_as_create upsert_001_search_parse_failure
                upsert_001_update_parse_failure upsert_001_continues_as_create)
qed

theorem unparsable_body_handling_witness:
  "delete_000 host_unparsable example_client (IdNum 1) (Some ''fr'') []
     = ((None, None),
        [\<lparr> call = \<lparr> call_url = ''http://h/api/items/1?locale=fr'', call_method =
              Some DELETE,
                    call_body = None,
                    call_headers = [(''Content-Type'', ''application/json'')] \<rparr>,
            outcome = Resolves (Response 200 ''OK''
                                  (ParseFailure ''Unexpected end of JSON input'')) \<rparr>])
   \<and> delete_001 host_unparsable example_client (IdNum 1) []
     = ((None, None),
        [\<lparr> call = \<lparr> call_url = ''http://h/api/items/1'', call_method = Some DELETE,
                    call_body = None,
                    call_headers = [(''Content-Type'', ''application/json'')] \<rparr>,
            outcome = Resolves (Response 200 ''OK''
                                  (ParseFailure ''Unexpected end of JSON input'')) \<rparr>])
   \<and> request (as_StrapiResponse host_unparsable) example_client ''items''
       \<lparr> init_method = Some GET, body = None, init_headers = [] \<rparr> []
     = ((Some \<lparr> message =
           ''Strapi API error: Failed to parse JSON response - Unexpected end of JSON input'',
                status = Some 200 \<rparr>, None),
        [\<lparr> call = \<lparr> call_url = ''http://h/api/items'', call_method = Some GET,
                    call_body = None,
                    call_headers = [(''Content-Type'', ''application/json'')] \<rparr>,
            outcome = Resolves (Response 200 ''OK''
                                  (ParseFailure ''Unexpected end of JSON input'')) \<rparr>])
   \<and> stops_at parse_failure []
         (Fulfilled (fst (findMany host_unparsable example_client None None [])))
         (snd (findMany host_unparsable example_client None None []))
   \<and> fst (findMany host_unparsable example_client None None [])
       = (Some \<lparr> message =
             ''Strapi API error: Failed to parse JSON response - Unexpected end of JSON input'',
                 status = Some 200 \<rparr>, None)
   \<and> update_000 host_unparsable example_client (IdNum 1) example_payload None None []
       = ((Some \<lparr> message =
             ''Strapi API error: Failed to parse JSON response - Unexpected end of JSON input'',
                   status = Some 200 \<rparr>, None),
          [\<lparr> call = \<lparr> call_url = ''http://h/api/items/1'', call_method = Some PUT,
                      call_body = Some (JSON_stringify example_payload),
                      call_headers = [(''Content-Type'', ''application/json'')] \<rparr>,
              outcome = Resolves (Response 200 ''OK''
                                    (ParseFailure ''Unexpected end of JSON input'')) \<rparr>])
   \<and> upsert_001 host_unparsable example_client example_payload None None None []
       = (Fulfilled (Some \<lparr> message =
             ''Strapi API error: Failed to parse JSON response - Unexpected end of JSON input'',
                           status = Some 200 \<rparr>, None),
          [\<lparr> call = \<lparr> call_url = ''http://h/api/items?pagination%5BpageSize%5D=1'',
                      call_method = Some GET, call_body = None,
                      call_headers = [(''Content-Type'', ''application/json'')] \<rparr>,
              outcome = Resolves (Response 200 ''OK''
                                    (ParseFailure ''Unexpected end of JSON input'')) \<rparr>])"
proof -
  define ev0 where "ev0 = \<lparr> call = \<lparr> call_url = ''http://h/api/items/1?locale=fr'',
                    call_method = Some DELETE, call_body = None,
                    call_headers = [(''Content-Type'', ''application/json'')] \<rparr>,
            outcome = Resolves (Response 200 ''OK''
                                  (ParseFailure ''Unexpected end of JSON input'')) \<rparr>"
  define ev1 where "ev1 = \<lparr> call = \<lparr> call_url = ''http://h/api/items/1'',
                    call_method = Some DELETE, call_body = None,
                    call_headers = [(''Content-Type'', ''application/json'')] \<rparr>,
            outcome = Resolves (Response 200 ''OK''
                                  (ParseFailure ''Unexpected end of JSON input'')) \<rparr>"
  note T0 = unparsable_body_handling [where R = "as_StrapiResponse host_unparsable"
      and h = "[]"
      and fc = "\<lparr> call_url = ''http://h/api/items'', call_method = Some GET,
                    call_body = None,
                    call_headers = [(''Content-Type'', ''application/json'')] \<rparr>"
      and r = "Response 200 ''OK'' (ParseFailure ''Unexpected end of JSON input'')"
      and msg = "''Unexpected end of JSON input''"
      and c = example_client and endpoint = "''items''"
      and options = "\<lparr> init_method = Some GET, body = None, init_headers = [] \<rparr>"
      and env = host_unparsable and params = None and loc = "Some ''fr''"
      and idt = "IdNum 1" and ev = ev0
      and r' = "Response 200 ''OK'' (ParseFailure ''Unexpected end of JSON input'')"
      and msg' = "''Unexpected end of JSON input''"]
  note T1 = unparsable_body_handling [where h = "[]" and c = example_client
      and env = host_unparsable and params = None and loc = None
      and idt = "IdNum 1" and ev = ev1
      and r' = "Response 200 ''OK'' (ParseFailure ''Unexpected end of JSON input'')"
      and msg' = "''Unexpected end of JSON input''"]
  have s0: "snd (delete_000 host_unparsable example_client (IdNum 1) (Some ''fr'') []) = [ev0]"
    by (simp add: run_defs qs_defs host_unparsable_def ev0_def)
  have s1: "snd (delete_001 host_unparsable example_client (IdNum 1) []) = [ev1]"
    by (simp add: run_defs host_unparsable_def ev1_def)
  have a: "fst (delete_000 host_unparsable example_client (IdNum 1) (Some ''fr'') []) = (None,
        None)"
    using T0 [THEN conjunct2, THEN conjunct1] s0
    by (simp add: ev0_def ok_def)
  have b: "fst (delete_001 host_unparsable example_client (IdNum 1) []) = (None, None)"
    using T1 [THEN conjunct2, THEN conjunct2, THEN conjunct1] s1
    by (simp add: ev1_def ok_def)
  have c: "request (as_StrapiResponse host_unparsable) example_client ''items''
       \<lparr> init_method = Some GET, body = None, init_headers = [] \<rparr> []
     = ((Some \<lparr> message =
           ''Strapi API error: Failed to parse JSON response - Unexpected end of JSON input'',
                status = Some 200 \<rparr>, None),
        [\<lparr> call = \<lparr> call_url = ''http://h/api/items'', call_method = Some GET,
                    call_body = None,
                    call_headers = [(''Content-Type'', ''application/json'')] \<rparr>,
            outcome = Resolves (Response 200 ''OK''
                                  (ParseFailure ''Unexpected end of JSON input'')) \<rparr>])"
    using T0 [THEN conjunct1]
    by (simp add: run_defs host_unparsable_def)
  note d = T1 [THEN conjunct2, THEN conjunct2, THEN conjunct2, THEN conjunct1]
  have e: "fst (findMany host_unparsable example_client None None [])
       = (Some \<lparr> message =
             ''Strapi API error: Failed to parse JSON response - Unexpected end of JSON input'',
                 status = Some 200 \<rparr>, None)"
    by (simp add: run_defs host_unparsable_def)
  have a': "delete_000 host_unparsable example_client (IdNum 1) (Some ''fr'') []
     = ((None, None), [ev0])"
    using a s0 by (simp add: prod_eq_iff)
  have b': "delete_001 host_unparsable example_client (IdNum 1) [] = ((None, None), [ev1])"
    using b s1 by (simp add: prod_eq_iff)
  have u: "update_000 host_unparsable example_client (IdNum 1) example_payload None None []
       = ((Some \<lparr> message =
             ''Strapi API error: Failed to parse JSON response - Unexpected end of JSON input'',
                   status = Some 200 \<rparr>, None),
          [\<lparr> call = \<lparr> call_url = ''http://h/api/items/1'', call_method = Some PUT,
                      call_body = Some (JSON_stringify example_payload),
                      call_headers = [(''Content-Type'', ''application/json'')] \<rparr>,
              outcome = Resolves (Response 200 ''OK''
                                    (ParseFailure ''Unexpected end of JSON input'')) \<rparr>])"
    using unparsable_body_handling [where env = host_unparsable and c = example_client
        and idt = "IdNum 1" and payload = example_payload and params = None and loc = None
        and h = "[]"
        and fc = "\<lparr> call_url = ''http://h/api/items/1'', call_method = Some PUT,
                      call_body = Some (JSON_stringify example_payload),
                      call_headers = [(''Content-Type'', ''application/json'')] \<rparr>"
        and ri = "Response 200 ''OK'' (ParseFailure ''Unexpected end of JSON input'')"
        and msg = "''Unexpected end of JSON input''",
        THEN conjunct2, THEN conjunct2, THEN conjunct2, THEN conjunct2, THEN conjunct2, THEN
              conjunct2, THEN conjunct2, THEN conjunct2, THEN conjunct2, THEN conjunct2, THEN
              conjunct2, THEN conjunct2, THEN conjunct2, THEN conjunct2, THEN conjunct1]
    by (simp add: run_defs host_unparsable_def fetch_call_of_def parse_error_def answered_def
          effective_locale_def)
  have v: "upsert_001 host_unparsable example_client example_payload None None None []
       = (Fulfilled (Some \<lparr> message =
             ''Strapi API error: Failed to parse JSON response - Unexpected end of JSON input'',
                           status = Some 200 \<rparr>, None),
          [\<lparr> call = \<lparr> call_url = ''http://h/api/items?pagination%5BpageSize%5D=1'',
                      call_method = Some GET, call_body = None,
                      call_headers = [(''Content-Type'', ''application/json'')] \<rparr>,
              outcome = Resolves (Response 200 ''OK''
                                    (ParseFailure ''Unexpected end of JSON input'')) \<rparr>])"
    using unparsable_body_handling [where env = host_unparsable and c = example_client
        and payload = example_payload and params = None and loc = None and filters = None
        and h = "[]"
        and fc = "\<lparr> call_url = ''http://h/api/items?pagination%5BpageSize%5D=1'',
                      call_method = Some GET, call_body = None,
                      call_headers = [(''Content-Type'', ''application/json'')] \<rparr>"
        and rl = "Response 200 ''OK'' (ParseFailure ''Unexpected end of JSON input'')"
        and msg = "''Unexpected end of JSON input''",
        THEN conjunct2, THEN conjunct2, THEN conjunct2, THEN conjunct2, THEN conjunct2, THEN
              conjunct2, THEN conjunct2, THEN conjunct2, THEN conjunct2, THEN conjunct2, THEN
              conjunct2, THEN conjunct2, THEN conjunct2, THEN conjunct2, THEN conjunct2, THEN
              conjunct2, THEN conjunct2, THEN conjunct2, THEN conjunct2, THEN conjunct2, THEN
              conjunct2, THEN conjunct2, THEN conjunct2, THEN conjunct2, THEN conjunct2, THEN
              conjunct2, THEN conjunct2, THEN conjunct2, THEN conjunct2, THEN conjunct2, THEN
              conjunct2, THEN conjunct1]
    by (simp add: run_defs qs_defs host_unparsable_def fetch_call_of_def parse_error_def
          answered_def effective_locale_def)
  from a' b' c d e u v show ?thesis
    unfolding ev0_def ev1_def by (intro conjI)
qed


subsection \<open>Creating the base record fails\<close>

text \<open>
  The POST for the base record answers 201 with a record that has no shared-document
  identifier: \<open>create\<close> returns a null error together with null data.
\<close>

theorem create_base_without_documentId_counterexample:
  "create_000 host_base_without_documentId example_client example_payload None (Some ''fr'')
       None []
     = (Fulfilled (None, None),
        [\<lparr> call = \<lparr> call_url = ''http://h/api/items'', call_method = None,
                    call_body = None,
                    call_headers = [(''Content-Type'', ''application/json'')] \<rparr>,
            outcome = Resolves (Response 200 ''OK'' (Parsed ())) \<rparr>,
         \<lparr> call = \<lparr> call_url = ''http://h/api/items'', call_method = Some POST,
                    call_body = Some (JSON_stringify example_payload),
                    call_headers = [(''Content-Type'', ''application/json'')] \<rparr>,
            outcome = Resolves (Response 201 ''Created'' (Parsed ())) \<rparr>])"
  by (simp add: run_defs host_base_without_documentId_def entity_without_documentId_def)

text \<open>
  C1, as amended. In a create for a non-default locale whose search found no base
  record: when the POST that creates the base record returns an error, \<open>create\<close> returns
  that same error with null data; when that POST reports success but its body is null or
  its record carries no (non-empty) shared-document identifier, \<open>create\<close> returns
  \<open>[null, null]\<close>, error and data both null. In both cases the operation ends there:
  the calls made are those of the search and of the POST.
\<close>

theorem create_base_failure:
  "((case loc of None \<Rightarrow> ''en'' | Some l \<Rightarrow> l) \<noteq> ''en''
      \<and> discover_000 env c (obj_of params) filters h = ((None, enResponse), ha)
      \<and> base_documentId enResponse = None
      \<and> post_collection_000 env c payload (getQueryString env (Some (obj_of params))) ha
           = ((createErr, createResponse), hb)
     \<longrightarrow> (createErr = Some e \<longrightarrow>
            create_000 env c payload params loc filters h = (Fulfilled (Some e, None), hb))
         \<and> (createErr = None
              \<and> (createResponse = None
                   \<or> (createResponse = Some x \<and> item_data x = Some ent
                        \<and> \<not> truthy_str (documentId ent)))
             \<longrightarrow> create_000 env c payload params loc filters h = (Fulfilled (None, None), hb)))
   \<and> ((case loc of None \<Rightarrow> ''en'' | Some l \<Rightarrow> l) \<noteq> ''en''
      \<and> discover_001 env c (obj_of params) filters h = ((None, enResponse), ha)
      \<and> base_documentId enResponse = None
      \<and> post_collection_001 env c
           (payload\<lparr> data := spread (data payload) [(''locale'', QStr ''en'')] \<rparr>) ha
           = ((createErr, createResponse), hb)
     \<longrightarrow> (createErr = Some e \<longrightarrow>
            create_001 env c payload params loc filters h = (Fulfilled (Some e, None), hb))
         \<and> (createErr = None
              \<and> (createResponse = None
                   \<or> (createResponse = Some x \<and> item_data x = Some ent
                        \<and> \<not> truthy_str (documentId ent)))
             \<longrightarrow> create_001 env c payload params loc filters h = (Fulfilled (None, None), hb)))"
  by (auto simp add: create_000_def create_001_def Let_def)

theorem create_base_failure_witness:
  "create_000 host_base_create_fails example_client example_payload None (Some ''fr'') None []
     = (Fulfilled (Some \<lparr> message = ''Strapi API error: 500 Internal Server Error'',
                         status = Some 500 \<rparr>, None),
        [\<lparr> call = \<lparr> call_url = ''http://h/api/items'', call_method = None,
                    call_body = None,
                    call_headers = [(''Content-Type'', ''application/json'')] \<rparr>,
            outcome = Resolves (Response 200 ''OK'' (Parsed ())) \<rparr>,
         \<lparr> call = \<lparr> call_url = ''http://h/api/items'', call_method = Some POST,
                    call_body = Some (JSON_stringify example_payload),
                    call_headers = [(''Content-Type'', ''application/json'')] \<rparr>,
            outcome = Resolves (Response 500 ''Internal Server Error''
                                  (ParseFailure ''no body'')) \<rparr>])
   \<and> create_001 host_base_without_documentId example_client example_payload None
         (Some ''fr'') None []
     = (Fulfilled (None, None),
        [\<lparr> call = \<lparr> call_url = ''http://h/api/items?locale=en'', call_method = None,
                    call_body = None,
                    call_headers = [(''Content-Type'', ''application/json'')] \<rparr>,
            outcome = Resolves (Response 200 ''OK'' (Parsed ())) \<rparr>,
         \<lparr> call = \<lparr> call_url = ''http://h/api/items'', call_method = Some POST,
                    call_body = Some (JSON_stringify
                      \<lparr> data = [(''name'', QStr ''x''), (''locale'', QStr ''en'')] \<rparr>),
                    call_headers = [(''Content-Type'', ''application/json'')] \<rparr>,
            outcome = Resolves (Response 201 ''Created'' (Parsed ())) \<rparr>])"
proof -
  define s0 where "s0 = \<lparr> call = \<lparr> call_url = ''http://h/api/items'', call_method = None,
                    call_body = None,
                    call_headers = [(''Content-Type'', ''application/json'')] \<rparr>,
            outcome = Resolves (Response 200 ''OK'' (Parsed ())) \<rparr>"
  define p0 where "p0 = \<lparr> call = \<lparr> call_url = ''http://h/api/items'', call_method = Some POST,
                    call_body = Some (JSON_stringify example_payload),
                    call_headers = [(''Content-Type'', ''application/json'')] \<rparr>,
            outcome = Resolves (Response 500 ''Internal Server Error''
                                  (ParseFailure ''no body'')) \<rparr>"
  define s1 where "s1 = \<lparr> call = \<lparr> call_url = ''http://h/api/items?locale=en'',
                    call_method = None, call_body = None,
                    call_headers = [(''Content-Type'', ''application/json'')] \<rparr>,
            outcome = Resolves (Response 200 ''OK'' (Parsed ())) \<rparr>"
  define p1 where "p1 = \<lparr> call = \<lparr> call_url = ''http://h/api/items'', call_method = Some POST,
                    call_body = Some (JSON_stringify
                      \<lparr> data = [(''name'', QStr ''x''), (''locale'', QStr ''en'')] \<rparr>),
                    call_headers = [(''Content-Type'', ''application/json'')] \<rparr>,
            outcome = Resolves (Response 201 ''Created'' (Parsed ())) \<rparr>"
  have a1: "discover_000 host_base_create_fails example_client (obj_of None) None []
             = ((None, Some \<lparr> list_data = Some [] \<rparr>), [s0])"
    by (simp add: run_defs host_base_create_fails_def s0_def)
  have a2: "post_collection_000 host_base_create_fails example_client example_payload
              (getQueryString host_base_create_fails (Some (obj_of None))) [s0]
             = ((Some \<lparr> message = ''Strapi API error: 500 Internal Server Error'',
                         status = Some 500 \<rparr>, None), [s0, p0])"
    by (simp add: run_defs host_base_create_fails_def p0_def)
  have a: "create_000 host_base_create_fails example_client example_payload None (Some ''fr'')
               None []
     = (Fulfilled (Some \<lparr> message = ''Strapi API error: 500 Internal Server Error'',
                         status = Some 500 \<rparr>, None), [s0, p0])"
    using create_base_failure [where env = host_base_create_fails
        and c = example_client and payload = example_payload and params = None
        and loc = "Some ''fr''" and filters = None and h = "[]" and ha = "[s0]"
        and hb = "[s0, p0]" and enResponse = "Some \<lparr> list_data = Some [] \<rparr>"
        and createErr = "Some \<lparr> message = ''Strapi API error: 500 Internal Server Error'',
                         status = Some 500 \<rparr>" and createResponse = None
        and e = "\<lparr> message = ''Strapi API error: 500 Internal Server Error'',
                         status = Some 500 \<rparr>", THEN conjunct1]
      a1 a2
    by (simp add: base_documentId_def)
  have b1: "discover_001 host_base_without_documentId example_client (obj_of None) None []
             = ((None, Some \<lparr> list_data = Some [] \<rparr>), [s1])"
    by (simp add: run_defs qs_defs host_base_without_documentId_def s1_def)
  have b2: "post_collection_001 host_base_without_documentId example_client
              (example_payload\<lparr> data := spread (data example_payload)
                                              [(''locale'', QStr ''en'')] \<rparr>) [s1]
             = ((None, Some \<lparr> item_data = Some entity_without_documentId \<rparr>), [s1, p1])"
    by (simp add: run_defs host_base_without_documentId_def p1_def)
  have b: "create_001 host_base_without_documentId example_client example_payload None
         (Some ''fr'') None [] = (Fulfilled (None, None), [s1, p1])"
    using create_base_failure [where env = host_base_without_documentId
        and c = example_client and payload = example_payload and params = None
        and loc = "Some ''fr''" and filters = None and h = "[]" and ha = "[s1]"
        and hb = "[s1, p1]" and enResponse = "Some \<lparr> list_data = Some [] \<rparr>"
        and createErr = None
        and createResponse = "Some \<lparr> item_data = Some entity_without_documentId \<rparr>"
        and x = "\<lparr> item_data = Some entity_without_documentId \<rparr>"
        and ent = entity_without_documentId, THEN conjunct2]
      b1 b2
    by (simp add: base_documentId_def entity_without_documentId_def)
  from a b show ?thesis
    unfolding s0_def p0_def s1_def p1_def by (intro conjI)
qed

subsection \<open>Number of requests of a create\<close>









subsection \<open>The target of the update in upsert\<close>

lemma upsert_001_target:
  assumes "findMany env c
             (Some (spread (spread (spread (obj_of params) (filters_entry filters))
                      [(''pagination'', QObj [(''pageSize'', QNum 1)])])
                (locale_entry (Some (case loc of None \<Rightarrow> ''en'' | Some l \<Rightarrow> l)))))
             (Some (case loc of None \<Rightarrow> ''en'' | Some l \<Rightarrow> l)) h
           = ((None, Some (x # rest)), ha)"
  shows "upsert_001 env c payload filters params loc h =
           (Fulfilled (fst (update_001 env c
                (case documentId x of Some d \<Rightarrow> IdStr d | None \<Rightarrow> entity_id x)
                payload (Some (obj_of params))
                (Some (case loc of None \<Rightarrow> ''en'' | Some l \<Rightarrow> l)) ha)),
            snd (update_001 env c
                (case documentId x of Some d \<Rightarrow> IdStr d | None \<Rightarrow> entity_id x)
                payload (Some (obj_of params))
                (Some (case loc of None \<Rightarrow> ''en'' | Some l \<Rightarrow> l)) ha))"
  using assms by (simp add: upsert_001_def Let_def split_beta)

lemma upsert_000_target:
  assumes "findMany env c
             (Some (spread (spread (spread (obj_of params) (filters_entry filters))
                      [(''pagination'', QObj [(''pageSize'', QNum 1)])])
                (locale_entry (Some (case loc of None \<Rightarrow> ''en'' | Some l \<Rightarrow> l)))))
             (Some (case loc of None \<Rightarrow> ''en'' | Some l \<Rightarrow> l)) h
           = ((None, Some (x # rest)), ha)"
  shows "upsert_000 env c loc payload filters params h =
           (Fulfilled (fst (update_000 env c
                (case documentId x of Some d \<Rightarrow> IdStr d | None \<Rightarrow> IdUndefined)
                payload (Some (obj_of params))
                (Some (case loc of None \<Rightarrow> ''en'' | Some l \<Rightarrow> l)) ha)),
            snd (update_000 env c
                (case documentId x of Some d \<Rightarrow> IdStr d | None \<Rightarrow> IdUndefined)
                payload (Some (obj_of params))
                (Some (case loc of None \<Rightarrow> ''en'' | Some l \<Rightarrow> l)) ha))"
  using assms by (simp add: upsert_000_def Let_def split_beta split: option.split)

text \<open>
  C2. The search of an upsert returns one record, which has no shared-document
  identifier. The first variant's fallback \<open>documentId ?? (documentId as string)\<close> reads
  the same absent field again, so the update is sent to \<open>items/undefined\<close>; the second
  variant's fallback \<open>documentId ?? id\<close> sends it to the record's plain identifier,
  \<open>items/1\<close>.
\<close>

theorem upsert_000_targets_undefined:
  "fst (findMany host_match_without_documentId example_client
          (Some [(''pagination'', QObj [(''pageSize'', QNum 1)])]) (Some ''en'') [])
     = (None, Some [entity_without_documentId])
   \<and> map (\<lambda>ev. (call_method (call ev), call_url (call ev)))
         (snd (upsert_000 host_match_without_documentId example_client None example_payload
                 None None []))
     = [(Some GET, ''http://h/api/items?pagination%5BpageSize%5D=1''),
        (Some PUT, ''http://h/api/items/undefined'')]
   \<and> map (\<lambda>ev. (call_method (call ev), call_url (call ev)))
         (snd (upsert_001 host_match_without_documentId example_client example_payload
                 None None None []))
     = [(Some GET, ''http://h/api/items?pagination%5BpageSize%5D=1''),
        (Some PUT, ''http://h/api/items/1'')]"
  by (simp add: run_defs qs_defs host_match_without_documentId_def
        entity_without_documentId_def)

subsection \<open>The query string\<close>

text \<open>
  For the object \<open>{ locale: "fr" }\<close> the helper's result begins with \<open>?\<close>.
\<close>

theorem getQueryString_prefix_counterexample:
  "getQueryString host_base_exists (Some [(''locale'', QStr ''fr'')]) = ''?locale=fr''"
  by (simp add: getQueryString_def host_base_exists_def qs_defs)

text \<open>
  C6, as amended. \<open>getQueryString\<close> returns the empty string for an absent or an empty
  parameter object. For every non-empty object it returns \<open>?\<close> followed by the
  serializer's output: the leading \<open>?\<close> is part of the helper's own result, and a
  caller such as \<open>findMany\<close> appends that result to the path as it is.
\<close>

theorem getQueryString_result:
  "getQueryString env None = ''''
   \<and> getQueryString env (Some []) = ''''
   \<and> (p \<noteq> [] \<longrightarrow> getQueryString env (Some p) = ''?'' @ stringify env p)
   \<and> requested_urls h (snd (findMany env c params loc h))
       = [baseURL c @ ''/'' @ strip_leading_slashes
            (uid c @ getQueryString env (Some (spread (obj_of params) (locale_entry loc))))]"
  using findMany_url [of h env c params loc]
  by (simp add: getQueryString_def)

theorem getQueryString_result_witness:
  "getQueryString host_base_exists (Some [(''populate'', QArr [QStr ''author'', QStr ''tags''])])
     = ''?populate%5B0%5D=author&populate%5B1%5D=tags''
   \<and> requested_urls [] (snd (findMany host_base_exists example_client
                               (Some [(''populate'', QArr [QStr ''author'', QStr ''tags''])])
                               None []))
     = [''http://h/api/items?populate%5B0%5D=author&populate%5B1%5D=tags'']"
  using getQueryString_result [where env = host_base_exists
      and p = "[(''populate'', QArr [QStr ''author'', QStr ''tags''])]"
      and h = "[]" and c = example_client
      and params = "Some [(''populate'', QArr [QStr ''author'', QStr ''tags''])]"
      and loc = None]
  by (simp add: host_base_exists_def qs_defs show_nat.simps spread_def obj_of_def
        locale_entry_def getQueryString_def example_client_def new_StrapiClient_def
        normalize_baseURL_def strip_trailing_slashes_def strip_leading_slashes_def endsWith_def)

subsection \<open>The two variants of delete\<close>

text \<open>
  C9. The two variants of \<open>delete\<close> differ on the locale. For every locale that is
  given, non-empty and not \<open>en\<close>, the first variant requests the resource-item URL
  followed by \<open>?\<close> and the serialized \<open>locale\<close> parameter, while the second requests
  the bare resource-item URL, so the two requests differ. With no locale, the empty
  locale or \<open>en\<close> the two variants behave identically and request the bare URL.
\<close>

theorem delete_variants_differ_on_locale:
  "(\<not> (truthy_str loc \<and> loc \<noteq> Some ''en'')
     \<longrightarrow> delete_000 env c i loc h = delete_001 env c i h
         \<and> requested_urls h (snd (delete_000 env c i loc h))
             = [baseURL c @ ''/'' @ strip_leading_slashes (uid c @ ''/'' @ template_id i)])
   \<and> (truthy_str loc \<and> loc \<noteq> Some ''en''
       \<longrightarrow> requested_urls h (snd (delete_000 env c i loc h))
             = [baseURL c @ ''/'' @ strip_leading_slashes (uid c @ ''/'' @ template_id i)
                  @ ''?'' @ stringify env [(''locale'', QStr (the loc))]]
           \<and> requested_urls h (snd (delete_000 env c i loc h))
               \<noteq> requested_urls h (snd (delete_001 env c i h)))
   \<and> requested_urls h (snd (delete_001 env c i h))
       = [baseURL c @ ''/'' @ strip_leading_slashes (uid c @ ''/'' @ template_id i)]"
proof (intro conjI impI)
  assume a: "\<not> (truthy_str loc \<and> loc \<noteq> Some ''en'')"
  then have q: "getQueryString env (Some (spread [] (locale_entry loc))) = ''''"
    by (simp add: locale_entry_def spread_def getQueryString_def)
  then show "delete_000 env c i loc h = delete_001 env c i h"
    by (simp add: delete_000_def delete_001_def Let_def)
  from q show "requested_urls h (snd (delete_000 env c i loc h))
             = [baseURL c @ ''/'' @ strip_leading_slashes (uid c @ ''/'' @ template_id i)]"
    by (simp add: delete_000_url)
next
  assume a: "truthy_str loc \<and> loc \<noteq> Some ''en''"
  then have q: "getQueryString env (Some (spread [] (locale_entry loc)))
                 = ''?'' @ stringify env [(''locale'', QStr (the loc))]"
    by (simp add: locale_entry_def spread_def getQueryString_def)
  have "strip_leading_slashes ((uid c @ ''/'' @ template_id i) @ ''?''
            @ stringify env [(''locale'', QStr (the loc))])
        = strip_leading_slashes (uid c @ ''/'' @ template_id i) @ ''?''
            @ stringify env [(''locale'', QStr (the loc))]"
    by (rule strip_leading_slashes_query)
  with q show u: "requested_urls h (snd (delete_000 env c i loc h))
             = [baseURL c @ ''/'' @ strip_leading_slashes (uid c @ ''/'' @ template_id i)
                  @ ''?'' @ stringify env [(''locale'', QStr (the loc))]]"
    by (simp add: delete_000_url)
  show "requested_urls h (snd (delete_000 env c i loc h))
               \<noteq> requested_urls h (snd (delete_001 env c i h))"
    unfolding u delete_001_url by simp
next
  show "requested_urls h (snd (delete_001 env c i h))
       = [baseURL c @ ''/'' @ strip_leading_slashes (uid c @ ''/'' @ template_id i)]"
    by (rule delete_001_url)
qed

theorem delete_variants_differ_on_locale_witness:
  "requested_urls [] (snd (delete_000 host_base_exists example_client (IdNum 1) (Some ''fr'') []))
     = [''http://h/api/items/1?locale=fr'']
   \<and> requested_urls [] (snd (delete_001 host_base_exists example_client (IdNum 1) []))
     = [''http://h/api/items/1'']
   \<and> delete_000 host_base_exists example_client (IdNum 1) (Some ''en'') []
     = delete_001 host_base_exists example_client (IdNum 1) []
   \<and> delete_000 host_base_exists example_client (IdNum 1) None []
     = delete_001 host_base_exists example_client (IdNum 1) []"
proof -
  note T = delete_variants_differ_on_locale [where env = host_base_exists
      and c = example_client and i = "IdNum 1" and h = "[]"]
  have a: "requested_urls [] (snd (delete_000 host_base_exists example_client (IdNum 1)
              (Some ''fr'') [])) = [''http://h/api/items/1?locale=fr'']"
    using T [where loc = "Some ''fr''", THEN conjunct2, THEN conjunct1]
    by (simp add: host_base_exists_def qs_defs example_client_def new_StrapiClient_def
        normalize_baseURL_def strip_trailing_slashes_def strip_leading_slashes_def endsWith_def
        show_int_def show_nat.simps)
  have b: "requested_urls [] (snd (delete_001 host_base_exists example_client (IdNum 1) []))
     = [''http://h/api/items/1'']"
    using T [where loc = None, THEN conjunct2, THEN conjunct2]
    by (simp add: example_client_def new_StrapiClient_def
        normalize_baseURL_def strip_trailing_slashes_def strip_leading_slashes_def endsWith_def
        show_int_def show_nat.simps)
  have c: "delete_000 host_base_exists example_client (IdNum 1) (Some ''en'') []
     = delete_001 host_base_exists example_client (IdNum 1) []"
    using T [where loc = "Some ''en''", THEN conjunct1] by simp
  have d: "delete_000 host_base_exists example_client (IdNum 1) None []
     = delete_001 host_base_exists example_client (IdNum 1) []"
    using T [where loc = None, THEN conjunct1] by simp
  from a b c d show ?thesis by (intro conjI)
qed

subsection \<open>find with a falsy identifier\<close>

text \<open>
  C10. The test \<open>if (id)\<close> in \<open>find\<close> is a truthiness test, so \<open>find({id: 0})\<close> and
  \<open>find({id: ""})\<close> behave exactly as a call without an identifier: the only request is
  the GET of \<open>findMany\<close> to the collection endpoint, and the result is \<open>findMany\<close>'s
  error, or else the first element of its list, or null when the list is empty.
\<close>

theorem find_falsy_id_delegates:
  "(i = IdNum 0 \<or> i = IdStr '''')
   \<longrightarrow> find_op env c i params loc h = find_op env c IdUndefined params loc h
       \<and> snd (find_op env c i params loc h) = snd (findMany env c params loc h)
       \<and> fst (find_op env c i params loc h)
           = (case fst (findMany env c params loc h) of
                (Some e, xs) \<Rightarrow> (Some e, None)
              | (None, xs) \<Rightarrow> (None, (case xs of Some (x # rest) \<Rightarrow> Some x | _ \<Rightarrow> None)))
       \<and> requested_urls h (snd (find_op env c i params loc h))
           = [baseURL c @ ''/'' @ strip_leading_slashes
                (uid c @ getQueryString env (Some (spread (obj_of params) (locale_entry loc))))]"
proof
  assume a: "i = IdNum 0 \<or> i = IdStr ''''"
  then have f: "\<not> truthy_id i" by auto
  have s: "snd (find_op env c i params loc h) = snd (findMany env c params loc h)"
    using f by (simp add: find_op_def Let_def split_beta split: option.split)
  have r: "fst (find_op env c i params loc h)
           = (case fst (findMany env c params loc h) of
                (Some e, xs) \<Rightarrow> (Some e, None)
              | (None, xs) \<Rightarrow> (None, (case xs of Some (x # rest) \<Rightarrow> Some x | _ \<Rightarrow> None)))"
    using f by (simp add: find_op_def Let_def split_beta split: option.split)
  have u: "find_op env c i params loc h = find_op env c IdUndefined params loc h"
    using f by (simp add: find_op_def Let_def)
  from s r u findMany_url [of h env c params loc]
  show "find_op env c i params loc h = find_op env c IdUndefined params loc h
       \<and> snd (find_op env c i params loc h) = snd (findMany env c params loc h)
       \<and> fst (find_op env c i params loc h)
           = (case fst (findMany env c params loc h) of
                (Some e, xs) \<Rightarrow> (Some e, None)
              | (None, xs) \<Rightarrow> (None, (case xs of Some (x # rest) \<Rightarrow> Some x | _ \<Rightarrow> None)))
       \<and> requested_urls h (snd (find_op env c i params loc h))
           = [baseURL c @ ''/'' @ strip_leading_slashes
                (uid c @ getQueryString env (Some (spread (obj_of params) (locale_entry loc))))]"
    by simp
qed

theorem find_falsy_id_delegates_witness:
  "find_op host_base_exists example_client (IdNum 0) None None []
     = ((None, Some entity_with_documentId),
        [\<lparr> call = \<lparr> call_url = ''http://h/api/items'', call_method = Some GET,
                    call_body = None,
                    call_headers = [(''Content-Type'', ''application/json'')] \<rparr>,
            outcome = Resolves (Response 200 ''OK'' (Parsed ())) \<rparr>])
   \<and> find_op host_base_exists example_client (IdStr '''') None None []
     = find_op host_base_exists example_client IdUndefined None None []
   \<and> requested_urls [] (snd (find_op host_base_exists example_client (IdNum 5) None None []))
     = [''http://h/api/items/5'']"
proof -
  have f: "findMany host_base_exists example_client None None []
     = ((None, Some [entity_with_documentId]),
        [\<lparr> call = \<lparr> call_url = ''http://h/api/items'', call_method = Some GET,
                    call_body = None,
                    call_headers = [(''Content-Type'', ''application/json'')] \<rparr>,
            outcome = Resolves (Response 200 ''OK'' (Parsed ())) \<rparr>])"
    by (simp add: run_defs host_base_exists_def)
  have p: "IdNum 0 = IdNum 0 \<or> IdNum 0 = IdStr ''''" by simp
  note T = find_falsy_id_delegates [where i = "IdNum 0" and env = host_base_exists
        and c = example_client and params = None and loc = None and h = "[]", THEN mp, OF p]
  have a: "find_op host_base_exists example_client (IdNum 0) None None []
     = ((None, Some entity_with_documentId),
        [\<lparr> call = \<lparr> call_url = ''http://h/api/items'', call_method = Some GET,
                    call_body = None,
                    call_headers = [(''Content-Type'', ''application/json'')] \<rparr>,
            outcome = Resolves (Response 200 ''OK'' (Parsed ())) \<rparr>])"
    using T [THEN conjunct2, THEN conjunct1]
      T [THEN conjunct2, THEN conjunct2, THEN conjunct1] f
    by (simp add: prod_eq_iff)
  have q: "IdStr '''' = IdNum 0 \<or> IdStr '''' = IdStr ''''" by simp
  have b: "find_op host_base_exists example_client (IdStr '''') None None []
     = find_op host_base_exists example_client IdUndefined None None []"
    using find_falsy_id_delegates [where i = "IdStr ''''" and env = host_base_exists
        and c = example_client and params = None and loc = None and h = "[]", THEN mp, OF q,
        THEN conjunct1] .
  have c: "requested_urls [] (snd (find_op host_base_exists example_client (IdNum 5) None None []))
     = [''http://h/api/items/5'']"
    by (simp add: run_defs host_base_exists_def requested_urls_def)
  from a b c show ?thesis by (intro conjI)
qed

subsection \<open>The default locale and the omitted locale\<close>








end
